theory Spec2Isabelle
  imports Main "HOL-Library.AList" "HOL-Library.Monad_Syntax"
begin

section \<open>Shared data: decimal rendering and the abstract syntax tree\<close>

text \<open>
  JavaScript template strings such as \<^verbatim>\<open>`t${tempVarCounter++}`\<close> render a
  non-negative integer counter in decimal.
\<close>

definition digit_char :: "nat \<Rightarrow> char" where
  "digit_char d = ''0123456789'' ! d"

fun show_nat :: "nat \<Rightarrow> string" where
  "show_nat n = (if n < 10 then [digit_char n] else show_nat (n div 10) @ [digit_char (n mod 10)])"

declare show_nat.simps [simp del]

text \<open>\<^verbatim>\<open>haystack.includes(needle)\<close> on strings.\<close>

fun str_includes :: "string \<Rightarrow> string \<Rightarrow> bool" where
  "str_includes [] needle = (needle = [])"
| "str_includes (c # cs) needle = (take (length needle) (c # cs) = needle \<or> str_includes cs needle)"

text \<open>
  The AST is the closed variant set the parser builds (object literals of
  \<^verbatim>\<open>parser.js\<close>). A property the parser may set to \<^verbatim>\<open>null\<close> is an
  \<open>option\<close>. Source positions (\<^verbatim>\<open>location\<close>) are not modelled: no control flow of
  any stage depends on them.
\<close>

datatype expr =
    Identifier string
  | Literal string string
  | BinaryExpression string expr expr
  | UnaryExpression string expr bool
  | AssignmentExpression string expr expr
  | CallExpression string "expr list"

text \<open>
  \<open>Literal value valueType\<close>; \<open>BinaryExpression operator left right\<close>;
  \<open>UnaryExpression operator argument prefix\<close>; \<open>AssignmentExpression operator left right\<close>;
  \<open>CallExpression callee.name arguments\<close>.
\<close>

datatype specifier =
    ComplexType string "string option"
  | TypeQualifier string
  | TypeSpecifier string

text \<open>\<open>ComplexType kind name\<close>, \<open>TypeQualifier name\<close>, \<open>TypeSpecifier name\<close>.\<close>

record declarator =
  d_name :: string
  d_isArray :: bool
  d_initializer :: "expr option"
  d_isPointer :: bool

record parameter =
  p_paramType :: "specifier list"
  p_name :: string
  p_isArray :: bool
  p_isPointer :: bool

datatype forinit =
    InitDeclaration "declarator list" "specifier list"
  | InitExpression expr

datatype node =
    Include string bool
  | PreprocessorDirective string
  | Typedef "specifier list" string
  | FunctionDeclaration string "specifier list" bool "parameter list" "node option"
  | VariableDeclaration "declarator list" "specifier list"
  | BlockStatement "node list"
  | IfStatement "expr option" "node option" "node option"
  | WhileStatement "expr option" "node option"
  | ForStatement "forinit option" "expr option" "expr option" "node option"
  | ReturnStatement "expr option"
  | ExpressionStatement expr
  | BreakStatement
  | ContinueStatement

text \<open>
  \<open>FunctionDeclaration id.name returnType isPointerReturn params body\<close>;
  \<open>VariableDeclaration declarations typeSpecifiers\<close>;
  \<open>IfStatement test consequent alternate\<close>; \<open>WhileStatement test body\<close>;
  \<open>ForStatement init test update body\<close>. A \<open>Program\<close> is the list of its body.
\<close>

type_synonym program = "node list"

section \<open>Code generator (\<^verbatim>\<open>codeGenerator.js\<close>)\<close>

datatype operation =
    ASSIGN | ADD | SUB | MUL | DIV | MOD | NEG | NOT | EQ | NE | LT | GT | LE | GE
  | AND | OR | ADDR | DEREF | IF_FALSE | GOTO | LABEL | CALL | PARAM | RETURN
  | DECLARE | PARAM_DECL | FUNCTION_START | FUNCTION_END | INCLUDE

text \<open>
  An operand is a JavaScript string or \<^verbatim>\<open>null\<close>. The argument count of a
  \<open>CALL\<close> is a number in the source; it is kept as its decimal rendering.
\<close>

record instr =
  operation :: operation
  arg1 :: "string option"
  arg2 :: "string option"
  result :: "string option"
  label :: "string option"
  lineNumber :: nat

record loop_frame =
  startLabel :: string
  continueLabel :: string
  endLabel :: string

datatype cg_error =
    UnsupportedBinary string
  | UnsupportedUnary string
  | BreakOutsideLoop
  | ContinueOutsideLoop

fun cg_message :: "cg_error \<Rightarrow> string" where
  "cg_message (UnsupportedBinary opr) = ''Unsupported binary operator: '' @ opr"
| "cg_message (UnsupportedUnary opr) = ''Unsupported unary operator: '' @ opr"
| "cg_message BreakOutsideLoop = ''Break statement outside of loop''"
| "cg_message ContinueOutsideLoop = ''Continue statement outside of loop''"

record cg_state =
  intermediateCode :: "instr list"
  errors :: "cg_error list"
  tempVarCounter :: nat
  labelCounter :: nat
  currentFunction :: "string option"
  scopeLevel :: int
  stringLiterals :: "(string \<times> string) list"
  stringCounter :: nat
  hasStdio :: bool
  loopStack :: "loop_frame list"

definition init_state :: cg_state where
  "init_state = \<lparr> intermediateCode = [], errors = [], tempVarCounter = 0, labelCounter = 0,
     currentFunction = None, scopeLevel = 0, stringLiterals = [],
     stringCounter = 0, hasStdio = False, loopStack = [] \<rparr>"

text \<open>\<^verbatim>\<open>x || null\<close>: the empty string is falsy.\<close>

fun or_null :: "string option \<Rightarrow> string option" where
  "or_null None = None"
| "or_null (Some s) = (if s = [] then None else Some s)"

definition emit :: "operation \<Rightarrow> string option \<Rightarrow> string option \<Rightarrow> string option \<Rightarrow> cg_state \<Rightarrow> cg_state" where
  "emit opr a1 a2 res s =
     s\<lparr> intermediateCode := intermediateCode s @
          [\<lparr> operation = opr, arg1 = or_null a1, arg2 = or_null a2, result = or_null res,
             label = None, lineNumber = length (intermediateCode s) \<rparr>] \<rparr>"

definition emitLabel :: "string \<Rightarrow> cg_state \<Rightarrow> cg_state" where
  "emitLabel l s =
     s\<lparr> intermediateCode := intermediateCode s @
          [\<lparr> operation = LABEL, arg1 = None, arg2 = None, result = None,
             label = Some l, lineNumber = length (intermediateCode s) \<rparr>] \<rparr>"

definition generateTempVar :: "cg_state \<Rightarrow> string \<times> cg_state" where
  "generateTempVar s = (''t'' @ show_nat (tempVarCounter s), s\<lparr> tempVarCounter := tempVarCounter s + 1 \<rparr>)"

definition generateLabel :: "string \<Rightarrow> cg_state \<Rightarrow> string \<times> cg_state" where
  "generateLabel prefix s = (prefix @ show_nat (labelCounter s), s\<lparr> labelCounter := labelCounter s + 1 \<rparr>)"

fun binary_operation :: "string \<Rightarrow> operation option" where
  "binary_operation opr =
    (if opr = ''+'' then Some ADD else if opr = ''-'' then Some SUB
     else if opr = ''*'' then Some MUL else if opr = ''/'' then Some DIV
     else if opr = ''%'' then Some MOD else if opr = ''=='' then Some EQ
     else if opr = ''!='' then Some NE else if opr = ''<'' then Some LT
     else if opr = ''>'' then Some GT else if opr = ''<='' then Some LE
     else if opr = ''>='' then Some GE else if opr = ''&&'' then Some AND
     else if opr = ''||'' then Some OR else None)"

declare binary_operation.simps [simp del]

text \<open>
  \<^verbatim>\<open>args.length\<close> as the second operand of \<open>CALL\<close>: the number \<open>0\<close> is falsy, so
  \<^verbatim>\<open>emit\<close> stores \<^verbatim>\<open>null\<close> for a call without arguments.
\<close>

definition count_operand :: "nat \<Rightarrow> string option" where
  "count_operand n = (if n = 0 then None else Some (show_nat n))"

fun generateExpression :: "expr \<Rightarrow> cg_state \<Rightarrow> string option \<times> cg_state"
  and generateArguments :: "expr list \<Rightarrow> nat \<Rightarrow> cg_state \<Rightarrow> cg_state" where
  "generateExpression (Identifier name) s = (Some name, s)"
| "generateExpression (Literal v vt) s =
     (if vt = ''string''
      then (let stringLabel = ''str'' @ show_nat (stringCounter s)
            in (Some stringLabel,
                s\<lparr> stringCounter := stringCounter s + 1,
                   stringLiterals := AList.update stringLabel v (stringLiterals s) \<rparr>))
      else (Some v, s))"
| "generateExpression (BinaryExpression opr l r) s =
     (let (leftOperand, s1) = generateExpression l s;
          (rightOperand, s2) = generateExpression r s1;
          (tempVar, s3) = generateTempVar s2
      in case binary_operation opr of
           Some tac \<Rightarrow> (Some tempVar, emit tac leftOperand rightOperand (Some tempVar) s3)
         | None \<Rightarrow> (None, s3\<lparr> errors := errors s3 @ [UnsupportedBinary opr] \<rparr>))"
| "generateExpression (UnaryExpression opr a prefix) s =
     (let (operand, s1) = generateExpression a s;
          (tempVar, s2) = generateTempVar s1
      in if opr = ''-'' then (Some tempVar, emit NEG operand None (Some tempVar) s2)
         else if opr = ''!'' then (Some tempVar, emit NOT operand None (Some tempVar) s2)
         else if opr = ''++'' then
           (if prefix then (operand, emit ADD operand (Some ''1'') operand s2)
            else (Some tempVar,
                  emit ADD operand (Some ''1'') operand (emit ASSIGN operand None (Some tempVar) s2)))
         else if opr = ''--'' then
           (if prefix then (operand, emit SUB operand (Some ''1'') operand s2)
            else (Some tempVar,
                  emit SUB operand (Some ''1'') operand (emit ASSIGN operand None (Some tempVar) s2)))
         else if opr = ''&'' then (Some tempVar, emit ADDR operand None (Some tempVar) s2)
         else if opr = ''*'' then (Some tempVar, emit DEREF operand None (Some tempVar) s2)
         else (None, s2\<lparr> errors := errors s2 @ [UnsupportedUnary opr] \<rparr>))"
| "generateExpression (AssignmentExpression opr l r) s =
     (let (rightOperand, s1) = generateExpression r s;
          leftOperand = (case l of Identifier name \<Rightarrow> Some name | _ \<Rightarrow> None)
      in (leftOperand, emit ASSIGN rightOperand None leftOperand s1))"
| "generateExpression (CallExpression funcName args) s =
     (let s1 = generateArguments args 0 s;
          (tempVar, s2) = generateTempVar s1
      in (Some tempVar, emit CALL (Some funcName) (count_operand (length args)) (Some tempVar) s2))"
| "generateArguments [] index s = s"
| "generateArguments (arg # args) index s =
     (let (argResult, s1) = generateExpression arg s
      in generateArguments args (index + 1)
           (emit PARAM argResult None (Some (''param'' @ show_nat index)) s1))"

text \<open>\<^verbatim>\<open>generateExpression(null)\<close> returns \<^verbatim>\<open>null\<close>.\<close>

fun generateExpression_opt :: "expr option \<Rightarrow> cg_state \<Rightarrow> string option \<times> cg_state" where
  "generateExpression_opt None s = (None, s)"
| "generateExpression_opt (Some e) s = generateExpression e s"

fun generateVariableDeclaration :: "declarator list \<Rightarrow> cg_state \<Rightarrow> cg_state" where
  "generateVariableDeclaration [] s = s"
| "generateVariableDeclaration (d # ds) s =
     (if d_name d = [] then generateVariableDeclaration ds s
      else let s1 = emit DECLARE (Some (d_name d)) None None s
           in case d_initializer d of
                None \<Rightarrow> generateVariableDeclaration ds s1
              | Some init \<Rightarrow>
                  (let (initValue, s2) = generateExpression init s1
                   in generateVariableDeclaration ds (emit ASSIGN initValue None (Some (d_name d)) s2)))"


text \<open>
  The initialisation and the condition of a \<^verbatim>\<open>for\<close> statement
  (\<^verbatim>\<open>if (node.init) {...}\<close>, \<^verbatim>\<open>if (node.test) {...}\<close>).
\<close>

fun generateForInit :: "forinit option \<Rightarrow> cg_state \<Rightarrow> cg_state" where
  "generateForInit None s = s"
| "generateForInit (Some (InitDeclaration ds ts)) s = generateVariableDeclaration ds s"
| "generateForInit (Some (InitExpression e)) s = snd (generateExpression e s)"

fun generateForTest :: "expr option \<Rightarrow> string \<Rightarrow> cg_state \<Rightarrow> cg_state" where
  "generateForTest None endL s = s"
| "generateForTest (Some t) endL s =
     (let (condition, s1) = generateExpression t s in emit IF_FALSE condition None (Some endL) s1)"

definition pushLoop :: "loop_frame \<Rightarrow> cg_state \<Rightarrow> cg_state" where
  "pushLoop frame s = s\<lparr> loopStack := loopStack s @ [frame] \<rparr>"

definition popLoop :: "cg_state \<Rightarrow> cg_state" where
  "popLoop s = s\<lparr> loopStack := butlast (loopStack s) \<rparr>"

text \<open>
  \<^verbatim>\<open>generateStatement\<close>; \<open>generateStatement_opt\<close> is the call on a child that may be
  \<^verbatim>\<open>null\<close> (\<^verbatim>\<open>if (!node) return\<close>), \<open>generateStatements\<close> the
  \<^verbatim>\<open>forEach\<close> of a block.
\<close>

fun generateStatement :: "node \<Rightarrow> cg_state \<Rightarrow> cg_state"
  and generateStatement_opt :: "node option \<Rightarrow> cg_state \<Rightarrow> cg_state"
  and generateStatements :: "node list \<Rightarrow> cg_state \<Rightarrow> cg_state" where
  "generateStatement (ExpressionStatement e) s = snd (generateExpression e s)"
| "generateStatement (ReturnStatement argument) s =
     (case argument of
        Some a \<Rightarrow> (let (returnValue, s1) = generateExpression a s in emit RETURN returnValue None None s1)
      | None \<Rightarrow> emit RETURN None None None s)"
| "generateStatement (IfStatement test consequent alternate) s =
     (let (condition, s1) = generateExpression_opt test s;
          (elseLabel, s2) = generateLabel ''ELSE'' s1;
          (endLabel, s3) = generateLabel ''END_IF'' s2;
          s4 = emit IF_FALSE condition None (Some elseLabel) s3;
          s5 = generateStatement_opt consequent s4
      in case alternate of
           Some a \<Rightarrow>
             emitLabel endLabel
               (generateStatement a (emitLabel elseLabel (emit GOTO None None (Some endLabel) s5)))
         | None \<Rightarrow> emitLabel elseLabel s5)"
| "generateStatement (WhileStatement test body) s =
     (let (startL, s1) = generateLabel ''WHILE_START'' s;
          (endL, s2) = generateLabel ''WHILE_END'' s1;
          s3 = pushLoop \<lparr> startLabel = startL, continueLabel = startL, endLabel = endL \<rparr> s2;
          s4 = emitLabel startL s3;
          (condition, s5) = generateExpression_opt test s4;
          s6 = emit IF_FALSE condition None (Some endL) s5;
          s7 = generateStatement_opt body s6;
          s8 = emitLabel endL (emit GOTO None None (Some startL) s7)
      in popLoop s8)"
| "generateStatement (ForStatement init test update body) s =
     (let (startL, s1) = generateLabel ''FOR_START'' s;
          (continueL, s2) = generateLabel ''FOR_CONTINUE'' s1;
          (endL, s3) = generateLabel ''FOR_END'' s2;
          s4 = pushLoop \<lparr> startLabel = startL, continueLabel = continueL, endLabel = endL \<rparr> s3;
          s5 = generateForInit init s4;
          s6 = emitLabel startL s5;
          s7 = generateForTest test endL s6;
          s8 = generateStatement_opt body s7;
          s9 = emitLabel continueL s8;
          s10 = snd (generateExpression_opt update s9);
          s11 = emitLabel endL (emit GOTO None None (Some startL) s10)
      in popLoop s11)"
| "generateStatement (BlockStatement body) s =
     (let s1 = generateStatements body (s\<lparr> scopeLevel := scopeLevel s + 1 \<rparr>)
      in s1\<lparr> scopeLevel := scopeLevel s1 - 1 \<rparr>)"
| "generateStatement BreakStatement s =
     (case loopStack s of
        [] \<Rightarrow> s\<lparr> errors := errors s @ [BreakOutsideLoop] \<rparr>
      | _ # _ \<Rightarrow> emit GOTO None None (Some (endLabel (last (loopStack s)))) s)"
| "generateStatement ContinueStatement s =
     (case loopStack s of
        [] \<Rightarrow> s\<lparr> errors := errors s @ [ContinueOutsideLoop] \<rparr>
      | _ # _ \<Rightarrow> emit GOTO None None (Some (continueLabel (last (loopStack s)))) s)"
| "generateStatement (Include h sys) s = s"
| "generateStatement (PreprocessorDirective d) s = s"
| "generateStatement (Typedef ts name) s = s"
| "generateStatement (FunctionDeclaration name rt ptr ps body) s = s"
| "generateStatement (VariableDeclaration ds ts) s = s"
| "generateStatement_opt None s = s"
| "generateStatement_opt (Some n) s = generateStatement n s"
| "generateStatements [] s = s"
| "generateStatements (stmt # stmts) s =
     generateStatements stmts
       (case stmt of
          VariableDeclaration ds ts \<Rightarrow> generateVariableDeclaration ds s
        | _ \<Rightarrow> generateStatement stmt s)"

fun emitParamDecls :: "parameter list \<Rightarrow> cg_state \<Rightarrow> cg_state" where
  "emitParamDecls [] s = s"
| "emitParamDecls (p # ps) s = emitParamDecls ps (emit PARAM_DECL (Some (p_name p)) None None s)"

definition generateFunctionDeclaration ::
  "string \<Rightarrow> parameter list \<Rightarrow> node option \<Rightarrow> cg_state \<Rightarrow> cg_state" where
  "generateFunctionDeclaration funcName params body s =
     (if funcName = [] then s
      else let s1 = emit FUNCTION_START (Some funcName) None None
                      (emitLabel funcName (s\<lparr> currentFunction := Some funcName \<rparr>));
               s2 = emitParamDecls params s1;
               s3 = generateStatement_opt body s2;
               s4 = emit FUNCTION_END (Some funcName) None None s3
           in s4\<lparr> currentFunction := None \<rparr>)"

fun generateCode :: "program \<Rightarrow> cg_state \<Rightarrow> cg_state" where
  "generateCode [] s = s"
| "generateCode (stmt # stmts) s =
     generateCode stmts
       (case stmt of
          FunctionDeclaration name rt ptr ps body \<Rightarrow> generateFunctionDeclaration name ps body s
        | VariableDeclaration ds ts \<Rightarrow> generateVariableDeclaration ds s
        | _ \<Rightarrow> generateStatement stmt s)"


subsection \<open>Peephole optimizer\<close>

text \<open>
  The optimizer tests operands with JavaScript's \<^verbatim>\<open>isNaN\<close> and folds constants
  with \<^verbatim>\<open>(parseFloat(a) op parseFloat(b)).toString()\<close>. IEEE floating point is
  outside this development, so both are parameters: \<open>js_isNaN\<close> is the test and
  \<open>js_fold opr a b\<close> the rendered result. Every statement below holds for all of them.
\<close>

record js_numeric =
  js_isNaN :: "string option \<Rightarrow> bool"
  js_fold :: "operation \<Rightarrow> string option \<Rightarrow> string option \<Rightarrow> string"

text \<open>
  Dead-store test of the loop body: \<^verbatim>\<open>next\<close> is \<^verbatim>\<open>optimized[i + 1]\<close>,
  \<^verbatim>\<open>undefined\<close> past the end.
\<close>

definition dead_store :: "instr \<Rightarrow> instr option \<Rightarrow> bool" where
  "dead_store current next =
     (operation current = ASSIGN \<and>
      (case next of None \<Rightarrow> False | Some n \<Rightarrow> operation n = ASSIGN \<and> result current = result n))"

text \<open>The folding and simplification branches, in source order; \<open>None\<close> when none applies.\<close>

definition rewrite :: "js_numeric \<Rightarrow> instr \<Rightarrow> instr option" where
  "rewrite js current =
     (if operation current = ADD \<and> \<not> js_isNaN js (arg1 current) \<and> \<not> js_isNaN js (arg2 current)
      then Some (current\<lparr> operation := ASSIGN,
                          arg1 := Some (js_fold js ADD (arg1 current) (arg2 current)), arg2 := None \<rparr>)
      else if operation current = SUB \<and> \<not> js_isNaN js (arg1 current) \<and> \<not> js_isNaN js (arg2 current)
      then Some (current\<lparr> operation := ASSIGN,
                          arg1 := Some (js_fold js SUB (arg1 current) (arg2 current)), arg2 := None \<rparr>)
      else if operation current = MUL \<and> \<not> js_isNaN js (arg1 current) \<and> \<not> js_isNaN js (arg2 current)
      then Some (current\<lparr> operation := ASSIGN,
                          arg1 := Some (js_fold js MUL (arg1 current) (arg2 current)), arg2 := None \<rparr>)
      else if operation current = ADD \<and> arg2 current = Some ''0''
      then Some (current\<lparr> operation := ASSIGN, arg2 := None \<rparr>)
      else if operation current = MUL \<and> (arg2 current = Some ''1'' \<or> arg1 current = Some ''1'')
      then Some (current\<lparr> operation := ASSIGN,
                          arg1 := (if arg2 current = Some ''1'' then arg1 current else arg2 current),
                          arg2 := None \<rparr>)
      else if operation current = MUL \<and> (arg2 current = Some ''0'' \<or> arg1 current = Some ''0'')
      then Some (current\<lparr> operation := ASSIGN, arg1 := Some ''0'', arg2 := None \<rparr>)
      else None)"

text \<open>
  One pass of the \<^verbatim>\<open>for\<close> loop: the new sequence and the \<^verbatim>\<open>changed\<close> flag.
\<close>

fun optimizePass :: "js_numeric \<Rightarrow> instr list \<Rightarrow> instr list \<times> bool" where
  "optimizePass js [] = ([], False)"
| "optimizePass js (current # rest) =
     (let next = (case rest of [] \<Rightarrow> None | n # _ \<Rightarrow> Some n);
          (newRest, changedRest) = optimizePass js rest
      in if dead_store current next then (newRest, True)
         else case rewrite js current of
                Some folded \<Rightarrow> (folded # newRest, True)
              | None \<Rightarrow> (current # newRest, changedRest))"

definition maxPasses :: nat where
  "maxPasses = 5"

text \<open>
  The \<^verbatim>\<open>while (changed && passes < maxPasses)\<close> loop; the result carries the local
  \<^verbatim>\<open>passes\<close> as well.
\<close>

function optimizeLoop :: "js_numeric \<Rightarrow> nat \<Rightarrow> bool \<Rightarrow> instr list \<Rightarrow> instr list \<times> nat" where
  "optimizeLoop js passes changed optimized =
     (if changed \<and> passes < maxPasses
      then (let (newOptimized, changed') = optimizePass js optimized
            in optimizeLoop js (passes + 1) changed' newOptimized)
      else (optimized, passes))"
  by pat_completeness auto
termination
  by (relation "measure (\<lambda>(js, passes, changed, optimized). maxPasses - passes)") auto

declare optimizeLoop.simps [simp del]

definition optimizeCode :: "js_numeric \<Rightarrow> instr list \<Rightarrow> instr list" where
  "optimizeCode js code = fst (optimizeLoop js 0 True code)"

subsection \<open>Entry point\<close>

text \<open>
  \<^verbatim>\<open>JSON.stringify(ast).includes("stdio.h")\<close>: no character of \<^verbatim>\<open>stdio.h\<close> is
  escaped or is JSON punctuation, and no property name contains it, so the text occurs in
  the serialisation exactly when it occurs inside one string-valued property of the tree.
\<close>

fun expr_strings :: "expr \<Rightarrow> string list"
  and exprs_strings :: "expr list \<Rightarrow> string list" where
  "expr_strings (Identifier name) = [name]"
| "expr_strings (Literal v vt) = [v, vt]"
| "expr_strings (BinaryExpression opr l r) = opr # expr_strings l @ expr_strings r"
| "expr_strings (UnaryExpression opr a prefix) = opr # expr_strings a"
| "expr_strings (AssignmentExpression opr l r) = opr # expr_strings l @ expr_strings r"
| "expr_strings (CallExpression funcName args) = funcName # exprs_strings args"
| "exprs_strings [] = []"
| "exprs_strings (e # es) = expr_strings e @ exprs_strings es"

fun specifier_strings :: "specifier \<Rightarrow> string list" where
  "specifier_strings (ComplexType kind name) = kind # (case name of None \<Rightarrow> [] | Some n \<Rightarrow> [n])"
| "specifier_strings (TypeQualifier name) = [name]"
| "specifier_strings (TypeSpecifier name) = [name]"

definition declarator_strings :: "declarator \<Rightarrow> string list" where
  "declarator_strings d =
     d_name d # (case d_initializer d of None \<Rightarrow> [] | Some e \<Rightarrow> expr_strings e)"

definition parameter_strings :: "parameter \<Rightarrow> string list" where
  "parameter_strings p = concat (map specifier_strings (p_paramType p)) @ [p_name p]"

fun option_strings :: "('a \<Rightarrow> string list) \<Rightarrow> 'a option \<Rightarrow> string list" where
  "option_strings f None = []"
| "option_strings f (Some x) = f x"

fun forinit_strings :: "forinit \<Rightarrow> string list" where
  "forinit_strings (InitDeclaration ds ts) =
     concat (map declarator_strings ds) @ concat (map specifier_strings ts)"
| "forinit_strings (InitExpression e) = expr_strings e"

fun node_strings :: "node \<Rightarrow> string list"
  and nodes_strings :: "node list \<Rightarrow> string list" where
  "node_strings (Include h sys) = [h]"
| "node_strings (PreprocessorDirective d) = [d]"
| "node_strings (Typedef ts name) = concat (map specifier_strings ts) @ [name]"
| "node_strings (FunctionDeclaration name rt ptr ps body) =
     name # concat (map specifier_strings rt) @ concat (map parameter_strings ps) @
     (case body of None \<Rightarrow> [] | Some b \<Rightarrow> node_strings b)"
| "node_strings (VariableDeclaration ds ts) =
     concat (map declarator_strings ds) @ concat (map specifier_strings ts)"
| "node_strings (BlockStatement body) = nodes_strings body"
| "node_strings (IfStatement test consequent alternate) =
     option_strings expr_strings test @
     (case consequent of None \<Rightarrow> [] | Some c \<Rightarrow> node_strings c) @
     (case alternate of None \<Rightarrow> [] | Some a \<Rightarrow> node_strings a)"
| "node_strings (WhileStatement test body) =
     option_strings expr_strings test @ (case body of None \<Rightarrow> [] | Some b \<Rightarrow> node_strings b)"
| "node_strings (ForStatement init test update body) =
     option_strings forinit_strings init @ option_strings expr_strings test @
     option_strings expr_strings update @ (case body of None \<Rightarrow> [] | Some b \<Rightarrow> node_strings b)"
| "node_strings (ReturnStatement argument) = option_strings expr_strings argument"
| "node_strings (ExpressionStatement e) = expr_strings e"
| "node_strings BreakStatement = []"
| "node_strings ContinueStatement = []"
| "nodes_strings [] = []"
| "nodes_strings (n # ns) = node_strings n @ nodes_strings ns"

definition mentions_stdio :: "program \<Rightarrow> bool" where
  "mentions_stdio ast = list_ex (\<lambda>str. str_includes str ''stdio.h'') (nodes_strings ast)"

record statistics =
  instructionCount :: nat
  optimizedInstructionCount :: nat
  tempVariables :: nat
  labels :: nat
  optimizationPasses :: nat
  includedHeaders_stdio :: bool
  includedHeaders_stdlib :: bool
  includedHeaders_string :: bool

text \<open>
  The result keeps the two instruction sequences themselves; their renderings as text,
  assembly and machine-code listings are not modelled.
\<close>

record cg_result =
  r_intermediateCode :: "instr list"
  r_optimizedCode :: "instr list"
  r_stringLiterals :: "(string \<times> string) list"
  r_statistics :: statistics
  r_errors :: "cg_error list"

definition generated :: "program \<Rightarrow> cg_state" where
  "generated ast =
     generateCode ast
       (if mentions_stdio ast
        then (emit INCLUDE (Some ''stdio.h'') None None init_state)\<lparr> hasStdio := True \<rparr>
        else init_state)"

definition codeGenerator :: "js_numeric \<Rightarrow> program \<Rightarrow> cg_result" where
  "codeGenerator js ast =
     (let s = generated ast;
          optimizedCode = optimizeCode js (intermediateCode s)
      in \<lparr> r_intermediateCode = intermediateCode s,
           r_optimizedCode = optimizedCode,
           r_stringLiterals = stringLiterals s,
           r_statistics =
             \<lparr> instructionCount = length (intermediateCode s),
               optimizedInstructionCount = length optimizedCode,
               tempVariables = tempVarCounter s,
               labels = labelCounter s,
               optimizationPasses = 5,
               includedHeaders_stdio = hasStdio s,
               includedHeaders_stdlib = False,
               includedHeaders_string = False \<rparr>,
           r_errors = errors s \<rparr>)"

subsection \<open>Lexically scoped lowering\<close>

text \<open>
  The spec's label discipline, with the innermost enclosing loop passed down the syntax
  tree instead of being kept on a stack.
\<close>

fun lowerStatement :: "loop_frame option \<Rightarrow> node \<Rightarrow> cg_state \<Rightarrow> cg_state"
  and lowerStatement_opt :: "loop_frame option \<Rightarrow> node option \<Rightarrow> cg_state \<Rightarrow> cg_state"
  and lowerStatements :: "loop_frame option \<Rightarrow> node list \<Rightarrow> cg_state \<Rightarrow> cg_state" where
  "lowerStatement enclosing (ExpressionStatement e) s = snd (generateExpression e s)"
| "lowerStatement enclosing (ReturnStatement argument) s =
     (case argument of
        Some a \<Rightarrow> (let (returnValue, s1) = generateExpression a s in emit RETURN returnValue None None s1)
      | None \<Rightarrow> emit RETURN None None None s)"
| "lowerStatement enclosing (IfStatement test consequent alternate) s =
     (let (condition, s1) = generateExpression_opt test s;
          (elseLabel, s2) = generateLabel ''ELSE'' s1;
          (endLabel, s3) = generateLabel ''END_IF'' s2;
          s4 = emit IF_FALSE condition None (Some elseLabel) s3;
          s5 = lowerStatement_opt enclosing consequent s4
      in case alternate of
           Some a \<Rightarrow>
             emitLabel endLabel
               (lowerStatement enclosing a (emitLabel elseLabel (emit GOTO None None (Some endLabel) s5)))
         | None \<Rightarrow> emitLabel elseLabel s5)"
| "lowerStatement enclosing (WhileStatement test body) s =
     (let (startL, s1) = generateLabel ''WHILE_START'' s;
          (endL, s2) = generateLabel ''WHILE_END'' s1;
          this_loop = \<lparr> startLabel = startL, continueLabel = startL, endLabel = endL \<rparr>;
          s4 = emitLabel startL s2;
          (condition, s5) = generateExpression_opt test s4;
          s6 = emit IF_FALSE condition None (Some endL) s5;
          s7 = lowerStatement_opt (Some this_loop) body s6
      in emitLabel endL (emit GOTO None None (Some startL) s7))"
| "lowerStatement enclosing (ForStatement init test update body) s =
     (let (startL, s1) = generateLabel ''FOR_START'' s;
          (continueL, s2) = generateLabel ''FOR_CONTINUE'' s1;
          (endL, s3) = generateLabel ''FOR_END'' s2;
          this_loop = \<lparr> startLabel = startL, continueLabel = continueL, endLabel = endL \<rparr>;
          s5 = generateForInit init s3;
          s6 = emitLabel startL s5;
          s7 = generateForTest test endL s6;
          s8 = lowerStatement_opt (Some this_loop) body s7;
          s9 = emitLabel continueL s8;
          s10 = snd (generateExpression_opt update s9)
      in emitLabel endL (emit GOTO None None (Some startL) s10))"
| "lowerStatement enclosing (BlockStatement body) s =
     (let s1 = lowerStatements enclosing body (s\<lparr> scopeLevel := scopeLevel s + 1 \<rparr>)
      in s1\<lparr> scopeLevel := scopeLevel s1 - 1 \<rparr>)"
| "lowerStatement enclosing BreakStatement s =
     (case enclosing of
        None \<Rightarrow> s\<lparr> errors := errors s @ [BreakOutsideLoop] \<rparr>
      | Some loop \<Rightarrow> emit GOTO None None (Some (endLabel loop)) s)"
| "lowerStatement enclosing ContinueStatement s =
     (case enclosing of
        None \<Rightarrow> s\<lparr> errors := errors s @ [ContinueOutsideLoop] \<rparr>
      | Some loop \<Rightarrow> emit GOTO None None (Some (continueLabel loop)) s)"
| "lowerStatement enclosing (Include h sys) s = s"
| "lowerStatement enclosing (PreprocessorDirective d) s = s"
| "lowerStatement enclosing (Typedef ts name) s = s"
| "lowerStatement enclosing (FunctionDeclaration name rt ptr ps body) s = s"
| "lowerStatement enclosing (VariableDeclaration ds ts) s = s"
| "lowerStatement_opt enclosing None s = s"
| "lowerStatement_opt enclosing (Some n) s = lowerStatement enclosing n s"
| "lowerStatements enclosing [] s = s"
| "lowerStatements enclosing (stmt # stmts) s =
     lowerStatements enclosing stmts
       (case stmt of
          VariableDeclaration ds ts \<Rightarrow> generateVariableDeclaration ds s
        | _ \<Rightarrow> lowerStatement enclosing stmt s)"

definition lowerFunctionDeclaration ::
  "string \<Rightarrow> parameter list \<Rightarrow> node option \<Rightarrow> cg_state \<Rightarrow> cg_state" where
  "lowerFunctionDeclaration funcName params body s =
     (if funcName = [] then s
      else let s1 = emit FUNCTION_START (Some funcName) None None
                      (emitLabel funcName (s\<lparr> currentFunction := Some funcName \<rparr>));
               s2 = emitParamDecls params s1;
               s3 = lowerStatement_opt None body s2;
               s4 = emit FUNCTION_END (Some funcName) None None s3
           in s4\<lparr> currentFunction := None \<rparr>)"

fun lowerCode :: "program \<Rightarrow> cg_state \<Rightarrow> cg_state" where
  "lowerCode [] s = s"
| "lowerCode (stmt # stmts) s =
     lowerCode stmts
       (case stmt of
          FunctionDeclaration name rt ptr ps body \<Rightarrow> lowerFunctionDeclaration name ps body s
        | VariableDeclaration ds ts \<Rightarrow> generateVariableDeclaration ds s
        | _ \<Rightarrow> lowerStatement None stmt s)"

definition lowered :: "program \<Rightarrow> cg_state" where
  "lowered ast =
     lowerCode ast
       (if mentions_stdio ast
        then (emit INCLUDE (Some ''stdio.h'') None None init_state)\<lparr> hasStdio := True \<rparr>
        else init_state)"

section \<open>Parser (\<^verbatim>\<open>parser.js\<close>)\<close>

text \<open>
  A token is \<^verbatim>\<open>{type, value, start, end}\<close>; the offsets only feed the
  \<^verbatim>\<open>location\<close> of nodes and diagnostics and are left out. The parser state is the
  cursor \<^verbatim>\<open>current\<close> and the list \<^verbatim>\<open>errors\<close> (messages only).
  \<open>steps\<close> is not a variable of the source: it counts the calls of the parser's functions
  and the iterations of their loops, as the measure of running time.
\<close>

record token =
  tok_type :: string
  tok_value :: string

record pstate =
  current :: nat
  syntaxErrors :: "string list"
  steps :: nat

definition peek :: "token list \<Rightarrow> pstate \<Rightarrow> token option" where
  "peek tokens s = (if current s < length tokens then Some (tokens ! current s) else None)"

definition advance :: "pstate \<Rightarrow> pstate" where
  "advance s = s\<lparr> current := current s + 1 \<rparr>"

definition tick :: "pstate \<Rightarrow> pstate" where
  "tick s = s\<lparr> steps := steps s + 1 \<rparr>"

definition push_error :: "string \<Rightarrow> pstate \<Rightarrow> pstate" where
  "push_error msg s = s\<lparr> syntaxErrors := syntaxErrors s @ [msg] \<rparr>"

text \<open>\<^verbatim>\<open>peek() && peek().value === v\<close> and \<^verbatim>\<open>peek() && peek().type === t\<close>.\<close>

definition peek_value :: "token list \<Rightarrow> pstate \<Rightarrow> string \<Rightarrow> bool" where
  "peek_value tokens s v = (case peek tokens s of None \<Rightarrow> False | Some t \<Rightarrow> tok_value t = v)"

definition peek_type :: "token list \<Rightarrow> pstate \<Rightarrow> string \<Rightarrow> bool" where
  "peek_type tokens s ty = (case peek tokens s of None \<Rightarrow> False | Some t \<Rightarrow> tok_type t = ty)"

text \<open>\<^verbatim>\<open>expect\<close> and \<^verbatim>\<open>expectValue\<close>; every call site passes its message.\<close>

definition expect :: "token list \<Rightarrow> string \<Rightarrow> string \<Rightarrow> pstate \<Rightarrow> token option \<times> pstate" where
  "expect tokens ty msg s =
     (case peek tokens s of
        None \<Rightarrow> (None, push_error msg s)
      | Some t \<Rightarrow> if tok_type t \<noteq> ty then (None, push_error msg s) else (Some t, advance s))"

definition expectValue :: "token list \<Rightarrow> string \<Rightarrow> string \<Rightarrow> pstate \<Rightarrow> token option \<times> pstate" where
  "expectValue tokens v msg s =
     (case peek tokens s of
        None \<Rightarrow> (None, push_error msg s)
      | Some t \<Rightarrow> if tok_value t \<noteq> v then (None, push_error msg s) else (Some t, advance s))"

subsection \<open>Token-skipping loops\<close>

text \<open>
  The loop of \<^verbatim>\<open>parseInclude\<close> that collects the header name up to \<^verbatim>\<open>>\<close>.
\<close>

function collectHeader :: "token list \<Rightarrow> string \<Rightarrow> pstate \<Rightarrow> string \<times> pstate" where
  "collectHeader tokens headerName s =
     (case peek tokens s of
        None \<Rightarrow> (headerName, s)
      | Some t \<Rightarrow>
          if tok_value t \<noteq> ''>''
          then collectHeader tokens (headerName @ tok_value t) (tick (advance s))
          else (headerName, s))"
  by pat_completeness auto
termination
  by (relation "measure (\<lambda>(tokens, headerName, s). length tokens - current s)")
     (auto simp: peek_def advance_def tick_def split: if_splits)

declare collectHeader.simps [simp del]

text \<open>\<^verbatim>\<open>header.replace(/['"]/g, "")\<close>.\<close>

definition strip_quotes :: "string \<Rightarrow> string" where
  "strip_quotes str = filter (\<lambda>c. c \<noteq> CHR 0x27 \<and> c \<noteq> CHR 0x22) str"

definition parseInclude :: "token list \<Rightarrow> pstate \<Rightarrow> node option \<times> pstate" where
  "parseInclude tokens s0 =
     (let s = advance (tick s0)
      in case peek tokens s of
           None \<Rightarrow> (None, push_error ''Expected header name after #include'' s)
         | Some headerToken \<Rightarrow>
             if tok_value headerToken = ''<''
             then (let (headerName, s1) = collectHeader tokens [] (advance s);
                       (closing, s2) = expectValue tokens ''>'' ''Expected '>' after header name'' s1
                   in case closing of
                        None \<Rightarrow> (None, s2)
                      | Some _ \<Rightarrow> (Some (Include headerName True), s2))
             else if tok_type headerToken = ''string''
             then (Some (Include (strip_quotes (tok_value headerToken)) True), advance s)
             else (None, push_error (''Invalid include directive, expected <header> or '' @ [CHR 0x22] @ ''header'' @ [CHR 0x22]) s))"

text \<open>
  The \<^verbatim>\<open>do ... while\<close> of \<^verbatim>\<open>parseDeclarationSpecifiers\<close> that skips a
  \<^verbatim>\<open>struct\<close> body. It is entered with a token under the cursor; the
  \<^verbatim>\<open>while\<close> test guards every later round.
\<close>

function skipBraces :: "token list \<Rightarrow> int \<Rightarrow> pstate \<Rightarrow> pstate" where
  "skipBraces tokens braceCount s =
     (case peek tokens s of
        None \<Rightarrow> s
      | Some t \<Rightarrow>
          (let c1 = (if tok_value t = ''{'' then braceCount + 1 else braceCount);
               c2 = (if tok_value t = ''}'' then c1 - 1 else c1);
               s1 = tick (advance s)
           in if peek tokens s1 \<noteq> None \<and> c2 > 0 then skipBraces tokens c2 s1 else s1))"
  by pat_completeness auto
termination
  by (relation "measure (\<lambda>(tokens, braceCount, s). length tokens - current s)")
     (auto simp: peek_def advance_def tick_def split: if_splits)

declare skipBraces.simps [simp del]

definition is_specifier_start :: "token \<Rightarrow> bool" where
  "is_specifier_start t =
     (tok_type t = ''type'' \<or> tok_type t = ''qualifier'' \<or> tok_value t = ''struct'' \<or>
      tok_value t = ''union'' \<or> tok_value t = ''enum'')"

definition is_tag_keyword :: "token \<Rightarrow> bool" where
  "is_tag_keyword t = (tok_value t = ''struct'' \<or> tok_value t = ''union'' \<or> tok_value t = ''enum'')"

text \<open>One round of the \<^verbatim>\<open>while\<close> loop of \<^verbatim>\<open>parseDeclarationSpecifiers\<close>.\<close>

definition specifierStep :: "token list \<Rightarrow> token \<Rightarrow> pstate \<Rightarrow> specifier \<times> pstate" where
  "specifierStep tokens t s0 =
     (let s = advance s0
      in if is_tag_keyword t
         then (let (tagName, s1) =
                     (case peek tokens s of
                        Some t1 \<Rightarrow> if tok_type t1 = ''identifier'' then (Some (tok_value t1), advance s)
                                   else (None, s)
                      | None \<Rightarrow> (None, s));
                   s2 = (if peek_value tokens s1 ''{'' then skipBraces tokens 0 s1 else s1)
               in (ComplexType (tok_value t) tagName, s2))
         else ((if tok_type t = ''qualifier'' then TypeQualifier (tok_value t)
                else TypeSpecifier (tok_value t)), s))"

lemma current_skipBraces: "current s \<le> current (skipBraces tokens c s)"
proof (induction tokens c s rule: skipBraces.induct)
  case (1 tokens braceCount s)
  have up: "current s \<le> current (tick (advance s))"
    by (simp add: advance_def tick_def)
  show ?case
  proof (cases "peek tokens s")
    case None
    then show ?thesis by (simp add: skipBraces.simps [of tokens braceCount s])
  next
    case (Some t)
    define c2 where "c2 = (if tok_value t = ''}''
        then (if tok_value t = ''{'' then braceCount + 1 else braceCount) - 1
        else (if tok_value t = ''{'' then braceCount + 1 else braceCount))"
    have unfold: "skipBraces tokens braceCount s =
        (if peek tokens (tick (advance s)) \<noteq> None \<and> c2 > 0
         then skipBraces tokens c2 (tick (advance s)) else tick (advance s))"
      using Some by (simp add: skipBraces.simps [of tokens braceCount s] Let_def c2_def)
    show ?thesis
    proof (cases "peek tokens (tick (advance s)) \<noteq> None \<and> c2 > 0")
      case True
      have "current (tick (advance s)) \<le> current (skipBraces tokens c2 (tick (advance s)))"
        using "1.IH" [OF Some refl refl refl] True unfolding c2_def by simp
      then show ?thesis using unfold True up by simp
    next
      case False
      then show ?thesis using unfold up by auto
    qed
  qed
qed

lemma current_specifierStep: "current s < current (snd (specifierStep tokens t s))"
proof -
  have "current (advance s) \<le> current (skipBraces tokens 0 (advance s))"
       "current (advance (advance s)) \<le> current (skipBraces tokens 0 (advance (advance s)))"
    by (rule current_skipBraces)+
  then show ?thesis
    by (auto simp: specifierStep_def Let_def advance_def split: option.splits prod.splits if_splits)
qed

function specifierLoop :: "token list \<Rightarrow> specifier list \<Rightarrow> pstate \<Rightarrow> specifier list \<times> pstate" where
  "specifierLoop tokens specifiers s =
     (case peek tokens s of
        None \<Rightarrow> (specifiers, s)
      | Some t \<Rightarrow>
          if is_specifier_start t
          then (let (spec, s1) = specifierStep tokens t (tick s)
                in specifierLoop tokens (specifiers @ [spec]) s1)
          else (specifiers, s))"
  by pat_completeness auto
termination
proof (relation "measure (\<lambda>(tokens, specifiers, s). length tokens - current s)")
  show "wf (measure (\<lambda>(tokens, specifiers, s). length tokens - current s))" by simp
next
  fix tokens :: "token list" and specifiers :: "specifier list" and s :: pstate
    and t x spec s1
  assume p: "peek tokens s = Some t" and "is_specifier_start t"
    and x: "x = specifierStep tokens t (tick s)" and "(spec, s1) = x"
  then have "s1 = snd (specifierStep tokens t (tick s))" by (metis snd_conv)
  then have "current (tick s) < current s1" using current_specifierStep by simp
  moreover have "current s < length tokens" using p by (simp add: peek_def split: if_splits)
  ultimately show "((tokens, specifiers @ [spec], s1), (tokens, specifiers, s))
      \<in> measure (\<lambda>(tokens, specifiers, s). length tokens - current s)"
    by (simp add: tick_def)
qed

declare specifierLoop.simps [simp del]

text \<open>
  \<^verbatim>\<open>parseDeclarationSpecifiers\<close>: \<^verbatim>\<open>null\<close> when no specifier was read.
\<close>

definition parseDeclarationSpecifiers :: "token list \<Rightarrow> pstate \<Rightarrow> specifier list option \<times> pstate" where
  "parseDeclarationSpecifiers tokens s =
     (let (specifiers, s1) = specifierLoop tokens [] (tick s)
      in if specifiers = [] then (None, s1) else (Some specifiers, s1))"

text \<open>
  The loop of \<^verbatim>\<open>parsePreprocessorDirective\<close> that skips a \<^verbatim>\<open>#define\<close> up to a
  token whose text contains a line break.
\<close>

function skipDefine :: "token list \<Rightarrow> pstate \<Rightarrow> pstate" where
  "skipDefine tokens s =
     (case peek tokens s of
        None \<Rightarrow> s
      | Some t \<Rightarrow> if CHR 0x0A \<notin> set (tok_value t) then skipDefine tokens (tick (advance s)) else s)"
  by pat_completeness auto
termination
  by (relation "measure (\<lambda>(tokens, s). length tokens - current s)")
     (auto simp: peek_def advance_def tick_def split: if_splits)

declare skipDefine.simps [simp del]

text \<open>
  \<^verbatim>\<open>parsePreprocessorDirective\<close>, entered with the token \<open>t\<close> under the cursor.
\<close>

definition parsePreprocessorDirective :: "token list \<Rightarrow> token \<Rightarrow> pstate \<Rightarrow> node option \<times> pstate" where
  "parsePreprocessorDirective tokens t s0 =
     (let s = tick s0
      in if tok_value t = ''#include'' then parseInclude tokens s
         else if tok_value t = ''#define''
         then (Some (PreprocessorDirective ''define''), skipDefine tokens (advance s))
         else (None, advance (push_error (''Unrecognized preprocessor directive: '' @ tok_value t) s)))"

subsection \<open>Expressions\<close>

text \<open>
  The recursive-descent functions call each other through the cursor, so they are defined by
  recursion on a fuel argument that every call decrements; \<open>None\<close> means the fuel ran
  out, every other result is the result of the source. That enough fuel always exists is
  claim C8.
\<close>

text \<open>The \<^verbatim>\<open>operators\<close> table of \<^verbatim>\<open>parseBinaryExpression\<close>; all are left-associative.\<close>

definition operator_precedence :: "string \<Rightarrow> nat option" where
  "operator_precedence v =
     (if v = ''+'' \<or> v = ''-'' then Some 4
      else if v = ''*'' \<or> v = ''/'' \<or> v = ''%'' then Some 5
      else if v = ''<'' \<or> v = ''>'' \<or> v = ''<='' \<or> v = ''>='' then Some 3
      else if v = ''=='' \<or> v = ''!='' then Some 2
      else if v = ''&&'' then Some 1
      else if v = ''||'' then Some 0
      else None)"

definition unaryOperators :: "string list" where
  "unaryOperators = [''!'', ''-'', ''~'', ''++'', ''--'', ''&'', ''*'']"

type_synonym 'a parse = "('a \<times> pstate) option"

text \<open>
  The functions as they are available to a caller: the record holds the seven mutually
  recursive functions at the fuel below the caller's (\<open>expr_parsers_at\<close> below).
\<close>

record expr_parsers =
  rec_Expression :: "token list \<Rightarrow> pstate \<Rightarrow> expr option parse"
  rec_AssignmentExpression :: "token list \<Rightarrow> pstate \<Rightarrow> expr option parse"
  rec_BinaryExpression :: "token list \<Rightarrow> nat \<Rightarrow> pstate \<Rightarrow> expr option parse"
  rec_binaryLoop :: "token list \<Rightarrow> nat \<Rightarrow> expr \<Rightarrow> pstate \<Rightarrow> expr option parse"
  rec_UnaryExpression :: "token list \<Rightarrow> pstate \<Rightarrow> expr option parse"
  rec_PrimaryExpression :: "token list \<Rightarrow> pstate \<Rightarrow> expr option parse"
  rec_argumentLoop :: "token list \<Rightarrow> expr list \<Rightarrow> pstate \<Rightarrow> expr list parse"

definition parseExpression_body :: "expr_parsers \<Rightarrow> token list \<Rightarrow> pstate \<Rightarrow> expr option parse" where
  "parseExpression_body rec tokens s = rec_AssignmentExpression rec tokens (tick s)"

definition parseAssignmentExpression_body ::
  "expr_parsers \<Rightarrow> token list \<Rightarrow> pstate \<Rightarrow> expr option parse" where
  "parseAssignmentExpression_body rec tokens s0 =
     do {
       (left, s) \<leftarrow> rec_BinaryExpression rec tokens 0 (tick s0);
       case left of
         None \<Rightarrow> Some (None, s)
       | Some l \<Rightarrow>
           if peek_value tokens s ''=''
           then do {
             (right, s1) \<leftarrow> rec_AssignmentExpression rec tokens (advance s);
             case right of
               None \<Rightarrow> Some (None, s1)
             | Some r \<Rightarrow> Some (Some (AssignmentExpression ''='' l r), s1)
           }
           else Some (Some l, s)
     }"

definition parseBinaryExpression_body ::
  "expr_parsers \<Rightarrow> token list \<Rightarrow> nat \<Rightarrow> pstate \<Rightarrow> expr option parse" where
  "parseBinaryExpression_body rec tokens precedence s0 =
     do {
       (left, s) \<leftarrow> rec_UnaryExpression rec tokens (tick s0);
       case left of
         None \<Rightarrow> Some (None, s)
       | Some l \<Rightarrow> rec_binaryLoop rec tokens precedence l s
     }"

text \<open>
  The \<^verbatim>\<open>while\<close> loop of \<^verbatim>\<open>parseBinaryExpression\<close>, entered with the
  expression \<^verbatim>\<open>left\<close> built so far.
\<close>

definition binaryLoop_body ::
  "expr_parsers \<Rightarrow> token list \<Rightarrow> nat \<Rightarrow> expr \<Rightarrow> pstate \<Rightarrow> expr option parse" where
  "binaryLoop_body rec tokens precedence left s =
     (case peek tokens s of
        None \<Rightarrow> Some (Some left, s)
      | Some operatorToken \<Rightarrow>
          (case operator_precedence (tok_value operatorToken) of
             None \<Rightarrow> Some (Some left, s)
           | Some p \<Rightarrow>
               if p \<ge> precedence
               then do {
                 (right, s1) \<leftarrow> rec_BinaryExpression rec tokens (p + 1) (advance (tick s));
                 case right of
                   None \<Rightarrow> Some (None, s1)
                 | Some r \<Rightarrow>
                     rec_binaryLoop rec tokens precedence
                       (BinaryExpression (tok_value operatorToken) left r) s1
               }
               else Some (Some left, s)))"

definition parseUnaryExpression_body ::
  "expr_parsers \<Rightarrow> token list \<Rightarrow> pstate \<Rightarrow> expr option parse" where
  "parseUnaryExpression_body rec tokens s0 =
     (let s = tick s0
      in case peek tokens s of
           None \<Rightarrow> rec_PrimaryExpression rec tokens s
         | Some operatorToken \<Rightarrow>
             if tok_value operatorToken \<in> set unaryOperators
             then do {
               (argument, s1) \<leftarrow> rec_UnaryExpression rec tokens (advance s);
               case argument of
                 None \<Rightarrow> Some (None, s1)
               | Some a \<Rightarrow> Some (Some (UnaryExpression (tok_value operatorToken) a True), s1)
             }
             else rec_PrimaryExpression rec tokens s)"

definition parsePrimaryExpression_body ::
  "expr_parsers \<Rightarrow> token list \<Rightarrow> pstate \<Rightarrow> expr option parse" where
  "parsePrimaryExpression_body rec tokens s0 =
     (let s = tick s0
      in case peek tokens s of
           None \<Rightarrow> Some (None, s)
         | Some t \<Rightarrow>
             if tok_type t = ''comment'' then rec_PrimaryExpression rec tokens (advance s)
             else if tok_type t = ''string'' then Some (Some (Literal (tok_value t) ''string''), advance s)
             else if tok_type t = ''number'' then Some (Some (Literal (tok_value t) ''number''), advance s)
             else if tok_type t = ''identifier'' then
               (let s1 = advance s
                in if peek_value tokens s1 ''(''
                   then (let s2 = advance s1
                         in if peek_value tokens s2 '')''
                            then Some (Some (CallExpression (tok_value t) []), advance s2)
                            else do {
                              (args, s3) \<leftarrow> rec_argumentLoop rec tokens [] s2;
                              Some (Some (CallExpression (tok_value t) args),
                                    if peek_value tokens s3 '')'' then advance s3
                                    else push_error ''Expected ')' after function arguments'' s3)
                            })
                   else Some (Some (Identifier (tok_value t)), s1))
             else if tok_value t = ''('' then
               do {
                 (e, s1) \<leftarrow> rec_Expression rec tokens (advance s);
                 Some (e, if peek_value tokens s1 '')'' then advance s1
                          else push_error ''Expected ')' after expression'' s1)
               }
             else if tok_value t = '')'' \<or> tok_value t = '';'' \<or> tok_value t = '','' then Some (None, s)
             else Some (None, advance (push_error (''Unexpected token in expression: '' @ tok_value t) s)))"

text \<open>The \<^verbatim>\<open>while\<close> loop over the arguments of a call.\<close>

definition argumentLoop_body ::
  "expr_parsers \<Rightarrow> token list \<Rightarrow> expr list \<Rightarrow> pstate \<Rightarrow> expr list parse" where
  "argumentLoop_body rec tokens args s =
     (case peek tokens s of
        None \<Rightarrow> Some (args, s)
      | Some t \<Rightarrow>
          if tok_value t \<noteq> '')''
          then do {
            (arg, s1) \<leftarrow> rec_Expression rec tokens (tick s);
            let args1 = (case arg of None \<Rightarrow> args | Some a \<Rightarrow> args @ [a]) in
            if peek_value tokens s1 '',''
            then rec_argumentLoop rec tokens args1 (advance s1)
            else Some (args1, s1)
          }
          else Some (args, s))"

text \<open>
  One recursion on the fuel carries all seven functions: a call is a value of \<open>expr_call\<close>,
  its result a value of \<open>expr_result\<close>.
\<close>

datatype expr_call =
    Call_Expression pstate
  | Call_AssignmentExpression pstate
  | Call_BinaryExpression nat pstate
  | Call_binaryLoop nat expr pstate
  | Call_UnaryExpression pstate
  | Call_PrimaryExpression pstate
  | Call_argumentLoop "expr list" pstate

datatype expr_result = Result_expr "expr option" pstate | Result_args "expr list" pstate

definition of_expr :: "expr option parse \<Rightarrow> expr_result option" where
  "of_expr r = map_option (\<lambda>(e, s). Result_expr e s) r"

definition of_args :: "expr list parse \<Rightarrow> expr_result option" where
  "of_args r = map_option (\<lambda>(es, s). Result_args es s) r"

definition as_expr :: "expr_result option \<Rightarrow> expr option parse" where
  "as_expr r = (case r of Some (Result_expr e s) \<Rightarrow> Some (e, s) | _ \<Rightarrow> None)"

definition as_args :: "expr_result option \<Rightarrow> expr list parse" where
  "as_args r = (case r of Some (Result_args es s) \<Rightarrow> Some (es, s) | _ \<Rightarrow> None)"

definition expr_parsers_of :: "(token list \<Rightarrow> expr_call \<Rightarrow> expr_result option) \<Rightarrow> expr_parsers" where
  "expr_parsers_of f =
     \<lparr> rec_Expression = (\<lambda>tokens s. as_expr (f tokens (Call_Expression s))),
       rec_AssignmentExpression = (\<lambda>tokens s. as_expr (f tokens (Call_AssignmentExpression s))),
       rec_BinaryExpression = (\<lambda>tokens precedence s. as_expr (f tokens (Call_BinaryExpression precedence s))),
       rec_binaryLoop = (\<lambda>tokens precedence left s. as_expr (f tokens (Call_binaryLoop precedence left s))),
       rec_UnaryExpression = (\<lambda>tokens s. as_expr (f tokens (Call_UnaryExpression s))),
       rec_PrimaryExpression = (\<lambda>tokens s. as_expr (f tokens (Call_PrimaryExpression s))),
       rec_argumentLoop = (\<lambda>tokens args s. as_args (f tokens (Call_argumentLoop args s))) \<rparr>"

primrec expr_run :: "nat \<Rightarrow> token list \<Rightarrow> expr_call \<Rightarrow> expr_result option" where
  "expr_run 0 tokens c = None"
| "expr_run (Suc n) tokens c =
     (case c of
        Call_Expression s \<Rightarrow> of_expr (parseExpression_body (expr_parsers_of (expr_run n)) tokens s)
      | Call_AssignmentExpression s \<Rightarrow>
          of_expr (parseAssignmentExpression_body (expr_parsers_of (expr_run n)) tokens s)
      | Call_BinaryExpression precedence s \<Rightarrow>
          of_expr (parseBinaryExpression_body (expr_parsers_of (expr_run n)) tokens precedence s)
      | Call_binaryLoop precedence left s \<Rightarrow>
          of_expr (binaryLoop_body (expr_parsers_of (expr_run n)) tokens precedence left s)
      | Call_UnaryExpression s \<Rightarrow>
          of_expr (parseUnaryExpression_body (expr_parsers_of (expr_run n)) tokens s)
      | Call_PrimaryExpression s \<Rightarrow>
          of_expr (parsePrimaryExpression_body (expr_parsers_of (expr_run n)) tokens s)
      | Call_argumentLoop args s \<Rightarrow>
          of_args (argumentLoop_body (expr_parsers_of (expr_run n)) tokens args s))"

definition parseExpression :: "nat \<Rightarrow> token list \<Rightarrow> pstate \<Rightarrow> expr option parse" where
  "parseExpression n = rec_Expression (expr_parsers_of (expr_run n))"

definition parseAssignmentExpression :: "nat \<Rightarrow> token list \<Rightarrow> pstate \<Rightarrow> expr option parse" where
  "parseAssignmentExpression n = rec_AssignmentExpression (expr_parsers_of (expr_run n))"

definition parseBinaryExpression :: "nat \<Rightarrow> token list \<Rightarrow> nat \<Rightarrow> pstate \<Rightarrow> expr option parse" where
  "parseBinaryExpression n = rec_BinaryExpression (expr_parsers_of (expr_run n))"

definition binaryLoop :: "nat \<Rightarrow> token list \<Rightarrow> nat \<Rightarrow> expr \<Rightarrow> pstate \<Rightarrow> expr option parse" where
  "binaryLoop n = rec_binaryLoop (expr_parsers_of (expr_run n))"

definition parseUnaryExpression :: "nat \<Rightarrow> token list \<Rightarrow> pstate \<Rightarrow> expr option parse" where
  "parseUnaryExpression n = rec_UnaryExpression (expr_parsers_of (expr_run n))"

definition parsePrimaryExpression :: "nat \<Rightarrow> token list \<Rightarrow> pstate \<Rightarrow> expr option parse" where
  "parsePrimaryExpression n = rec_PrimaryExpression (expr_parsers_of (expr_run n))"

definition argumentLoop :: "nat \<Rightarrow> token list \<Rightarrow> expr list \<Rightarrow> pstate \<Rightarrow> expr list parse" where
  "argumentLoop n = rec_argumentLoop (expr_parsers_of (expr_run n))"

text \<open>
  The functions at a given fuel, as their callers see them, and their defining equations
  in the form of the source.
\<close>

definition expr_parsers_at :: "nat \<Rightarrow> expr_parsers" where
  "expr_parsers_at n =
     \<lparr> rec_Expression = parseExpression n,
       rec_AssignmentExpression = parseAssignmentExpression n,
       rec_BinaryExpression = parseBinaryExpression n,
       rec_binaryLoop = binaryLoop n,
       rec_UnaryExpression = parseUnaryExpression n,
       rec_PrimaryExpression = parsePrimaryExpression n,
       rec_argumentLoop = argumentLoop n \<rparr>"

lemma expr_parsers_of_run: "expr_parsers_of (expr_run n) = expr_parsers_at n"
  by (simp add: expr_parsers_at_def parseExpression_def parseAssignmentExpression_def
        parseBinaryExpression_def binaryLoop_def parseUnaryExpression_def
        parsePrimaryExpression_def argumentLoop_def expr_parsers_of_def)

lemma as_of [simp]: "as_expr (of_expr r) = r" "as_args (of_args r') = r'"
  by (auto simp: as_expr_def of_expr_def as_args_def of_args_def split: option.splits)

lemma expr_fuel_0:
  "parseExpression 0 tokens s = None"
  "parseAssignmentExpression 0 tokens s = None"
  "parseBinaryExpression 0 tokens precedence s = None"
  "binaryLoop 0 tokens precedence left s = None"
  "parseUnaryExpression 0 tokens s = None"
  "parsePrimaryExpression 0 tokens s = None"
  "argumentLoop 0 tokens args s = None"
  by (simp_all add: parseExpression_def parseAssignmentExpression_def
        parseBinaryExpression_def binaryLoop_def parseUnaryExpression_def
        parsePrimaryExpression_def argumentLoop_def expr_parsers_of_def as_expr_def as_args_def)

lemma expr_fuel_Suc:
  "parseExpression (Suc n) tokens s = parseExpression_body (expr_parsers_at n) tokens s"
  "parseAssignmentExpression (Suc n) tokens s =
     parseAssignmentExpression_body (expr_parsers_at n) tokens s"
  "parseBinaryExpression (Suc n) tokens precedence s =
     parseBinaryExpression_body (expr_parsers_at n) tokens precedence s"
  "binaryLoop (Suc n) tokens precedence left s =
     binaryLoop_body (expr_parsers_at n) tokens precedence left s"
  "parseUnaryExpression (Suc n) tokens s = parseUnaryExpression_body (expr_parsers_at n) tokens s"
  "parsePrimaryExpression (Suc n) tokens s = parsePrimaryExpression_body (expr_parsers_at n) tokens s"
  "argumentLoop (Suc n) tokens args s = argumentLoop_body (expr_parsers_at n) tokens args s"
  by (simp_all add: parseExpression_def parseAssignmentExpression_def
        parseBinaryExpression_def binaryLoop_def parseUnaryExpression_def
        parsePrimaryExpression_def argumentLoop_def expr_parsers_of_def
        expr_parsers_of_run [unfolded expr_parsers_of_def])

subsection \<open>Declarations\<close>

text \<open>
  \<^verbatim>\<open>parseVariableDeclarator\<close>. The array size expression is parsed and dropped, as in
  the source. A function that does not call itself hands its fuel on unchanged.
\<close>

definition parseVariableDeclarator :: "nat \<Rightarrow> token list \<Rightarrow> pstate \<Rightarrow> declarator option parse" where
  "parseVariableDeclarator n tokens s0 =
     (let (identifierToken, s) = expect tokens ''identifier'' ''Expected variable name'' (tick s0)
      in case identifierToken of
           None \<Rightarrow> Some (None, s)
         | Some idt \<Rightarrow>
             do {
               (isArray, s2) \<leftarrow>
                 (if peek_value tokens s ''[''
                  then do {
                    (sizeExpr, s1) \<leftarrow>
                      (if peek tokens (advance s) \<noteq> None \<and> \<not> peek_value tokens (advance s) '']''
                       then parseExpression n tokens (advance s)
                       else Some (None, advance s));
                    Some (True, snd (expectValue tokens '']'' ''Expected ']' after array dimension'' s1))
                  }
                  else Some (False, s));
               (initializer, s3) \<leftarrow>
                 (if peek_value tokens s2 ''='' then parseExpression n tokens (advance s2)
                  else Some (None, s2));
               Some (Some \<lparr> d_name = tok_value idt, d_isArray = isArray,
                             d_initializer = initializer, d_isPointer = False \<rparr>, s3)
             })"

text \<open>The \<^verbatim>\<open>while (true)\<close> loop of \<^verbatim>\<open>parseVariableDeclaration\<close>.\<close>

fun declaratorLoop :: "nat \<Rightarrow> token list \<Rightarrow> declarator list \<Rightarrow> pstate \<Rightarrow> declarator list parse" where
  "declaratorLoop 0 tokens declarators s = None"
| "declaratorLoop (Suc n) tokens declarators s0 =
     (let s = tick s0;
          isPointer = peek_value tokens s ''*'';
          s1 = (if isPointer then advance s else s)
      in do {
        (declarator, s2) \<leftarrow> parseVariableDeclarator n tokens s1;
        case declarator of
          None \<Rightarrow> Some (declarators, s2)
        | Some d \<Rightarrow>
            (let declarators1 = declarators @ [if isPointer then d\<lparr> d_isPointer := True \<rparr> else d]
             in if peek_value tokens s2 '','' then declaratorLoop n tokens declarators1 (advance s2)
                else Some (declarators1, s2))
      })"

text \<open>
  \<^verbatim>\<open>parseVariableDeclaration\<close>; the result is the pair of \<^verbatim>\<open>declarations\<close> and
  \<^verbatim>\<open>typeSpecifiers\<close> of the node.
\<close>

definition parseVariableDeclaration ::
  "nat \<Rightarrow> token list \<Rightarrow> pstate \<Rightarrow> (declarator list \<times> specifier list) option parse" where
  "parseVariableDeclaration n tokens s0 =
     (let (typeSpecifiers, s) = parseDeclarationSpecifiers tokens (tick s0)
      in case typeSpecifiers of
           None \<Rightarrow> Some (None, push_error ''Expected type specifier'' s)
         | Some specifiers \<Rightarrow>
             do {
               (declarators, s1) \<leftarrow> declaratorLoop n tokens [] s;
               Some (Some (declarators, specifiers),
                     snd (expectValue tokens '';'' ''Expected ';' after variable declaration'' s1))
             })"

subsection \<open>Statements\<close>

text \<open>
  \<^verbatim>\<open>parseIfStatement\<close> reads \<^verbatim>\<open>consequent.location.end\<close> when there is no
  \<^verbatim>\<open>else\<close> branch; with a \<^verbatim>\<open>null\<close> consequent that is a \<^verbatim>\<open>TypeError\<close>,
  the one exception the parser can raise. It unwinds to the \<^verbatim>\<open>try\<close> of
  \<^verbatim>\<open>parseProgram\<close>; cursor and diagnostics keep what they were when it was raised.
\<close>

datatype 'a outcome = Returned 'a pstate | Thrown pstate

type_synonym 'a run = "'a outcome option"

definition then_run :: "'a run \<Rightarrow> ('a \<Rightarrow> pstate \<Rightarrow> 'b run) \<Rightarrow> 'b run" where
  "then_run r k =
     (case r of
        None \<Rightarrow> None
      | Some (Thrown s) \<Rightarrow> Some (Thrown s)
      | Some (Returned x s) \<Rightarrow> k x s)"

definition of_parse :: "'a parse \<Rightarrow> 'a run" where
  "of_parse r = (case r of None \<Rightarrow> None | Some (x, s) \<Rightarrow> Some (Returned x s))"

definition parseReturnStatement :: "nat \<Rightarrow> token list \<Rightarrow> pstate \<Rightarrow> node option parse" where
  "parseReturnStatement n tokens s0 =
     (let s = advance (tick s0)
      in do {
        (argument, s1) \<leftarrow>
          (if peek tokens s \<noteq> None \<and> \<not> peek_value tokens s '';''
           then parseExpression n tokens s else Some (None, s));
        Some (Some (ReturnStatement argument),
              snd (expectValue tokens '';'' ''Expected ';' after return statement'' s1))
      })"

definition parseExpressionStatement :: "nat \<Rightarrow> token list \<Rightarrow> pstate \<Rightarrow> node option parse" where
  "parseExpressionStatement n tokens s0 =
     do {
       (e, s) \<leftarrow> parseExpression n tokens (tick s0);
       case e of
         None \<Rightarrow> Some (None, if peek tokens s \<noteq> None then advance s else s)
       | Some e' \<Rightarrow>
           Some (Some (ExpressionStatement e'),
                 snd (expectValue tokens '';'' ''Expected ';' after expression'' s))
     }"

text \<open>\<^verbatim>\<open>parseVariableDeclaration\<close> as a statement: the node, or \<^verbatim>\<open>null\<close>.\<close>

definition parseDeclarationStatement :: "nat \<Rightarrow> token list \<Rightarrow> pstate \<Rightarrow> node option parse" where
  "parseDeclarationStatement n tokens s =
     do {
       (d, s1) \<leftarrow> parseVariableDeclaration n tokens s;
       Some (map_option (\<lambda>(declarators, specifiers). VariableDeclaration declarators specifiers) d, s1)
     }"

record stmt_parsers =
  rec_Statement :: "token list \<Rightarrow> pstate \<Rightarrow> node option run"
  rec_BlockStatement :: "token list \<Rightarrow> pstate \<Rightarrow> node option run"
  rec_blockLoop :: "token list \<Rightarrow> node list \<Rightarrow> pstate \<Rightarrow> node list run"
  rec_IfStatement :: "token list \<Rightarrow> pstate \<Rightarrow> node option run"
  rec_WhileStatement :: "token list \<Rightarrow> pstate \<Rightarrow> node option run"
  rec_ForStatement :: "token list \<Rightarrow> pstate \<Rightarrow> node option run"

definition parseStatement_body :: "stmt_parsers \<Rightarrow> nat \<Rightarrow> token list \<Rightarrow> pstate \<Rightarrow> node option run" where
  "parseStatement_body rec n tokens s0 =
     (let s = tick s0
      in case peek tokens s of
           None \<Rightarrow> Some (Returned None s)
         | Some t \<Rightarrow>
             if is_specifier_start t then of_parse (parseDeclarationStatement n tokens s)
             else if tok_value t = ''return'' then of_parse (parseReturnStatement n tokens s)
             else if tok_value t = ''if'' then rec_IfStatement rec tokens s
             else if tok_value t = ''for'' then rec_ForStatement rec tokens s
             else if tok_value t = ''while'' then rec_WhileStatement rec tokens s
             else if tok_value t = ''{'' then rec_BlockStatement rec tokens s
             else of_parse (parseExpressionStatement n tokens s))"

definition parseBlockStatement_body :: "stmt_parsers \<Rightarrow> token list \<Rightarrow> pstate \<Rightarrow> node option run" where
  "parseBlockStatement_body rec tokens s0 =
     (let (opening, s) = expectValue tokens ''{'' ''Expected '{' for block statement'' (tick s0)
      in case opening of
           None \<Rightarrow> Some (Returned None s)
         | Some _ \<Rightarrow>
             then_run (rec_blockLoop rec tokens [] s) (\<lambda>body s1.
               Some (Returned (Some (BlockStatement body))
                       (snd (expectValue tokens ''}'' ''Expected '}' after block statement'' s1)))))"

text \<open>The \<^verbatim>\<open>while\<close> loop of \<^verbatim>\<open>parseBlockStatement\<close>.\<close>

definition blockLoop_body :: "stmt_parsers \<Rightarrow> token list \<Rightarrow> node list \<Rightarrow> pstate \<Rightarrow> node list run" where
  "blockLoop_body rec tokens body s =
     (if peek tokens s \<noteq> None \<and> \<not> peek_value tokens s ''}''
      then then_run (rec_Statement rec tokens (tick s)) (\<lambda>statement s1.
             case statement of
               Some st \<Rightarrow> rec_blockLoop rec tokens (body @ [st]) s1
             | None \<Rightarrow>
                 if peek tokens s1 \<noteq> None \<and> \<not> peek_value tokens s1 ''}''
                 then rec_blockLoop rec tokens body (advance s1)
                 else Some (Returned body s1))
      else Some (Returned body s))"

definition parseIfStatement_body :: "stmt_parsers \<Rightarrow> nat \<Rightarrow> token list \<Rightarrow> pstate \<Rightarrow> node option run" where
  "parseIfStatement_body rec n tokens s0 =
     (let (opening, s1) = expectValue tokens ''('' (''Expected '(' after 'if'' @ [CHR 0x27]) (advance (tick s0))
      in case opening of
           None \<Rightarrow> Some (Returned None s1)
         | Some _ \<Rightarrow>
             then_run (of_parse (parseExpression n tokens s1)) (\<lambda>test s2.
               let (closing, s3) = expectValue tokens '')'' ''Expected ')' after if condition'' s2
               in case closing of
                    None \<Rightarrow> Some (Returned None s3)
                  | Some _ \<Rightarrow>
                      then_run (rec_Statement rec tokens s3) (\<lambda>consequent s4.
                        then_run (if peek_value tokens s4 ''else''
                                  then rec_Statement rec tokens (advance s4)
                                  else Some (Returned None s4)) (\<lambda>alternate s5.
                          if alternate = None \<and> consequent = None then Some (Thrown s5)
                          else Some (Returned (Some (IfStatement test consequent alternate)) s5)))))"

definition parseWhileStatement_body :: "stmt_parsers \<Rightarrow> nat \<Rightarrow> token list \<Rightarrow> pstate \<Rightarrow> node option run" where
  "parseWhileStatement_body rec n tokens s0 =
     (let (opening, s1) = expectValue tokens ''('' (''Expected '(' after 'while'' @ [CHR 0x27]) (advance (tick s0))
      in case opening of
           None \<Rightarrow> Some (Returned None s1)
         | Some _ \<Rightarrow>
             then_run (of_parse (parseExpression n tokens s1)) (\<lambda>test s2.
               let (closing, s3) = expectValue tokens '')'' ''Expected ')' after while condition'' s2
               in case closing of
                    None \<Rightarrow> Some (Returned None s3)
                  | Some _ \<Rightarrow>
                      then_run (rec_Statement rec tokens s3) (\<lambda>body s4.
                        Some (Returned (Some (WhileStatement test body)) s4))))"

text \<open>The initialisation clause of \<^verbatim>\<open>parseForStatement\<close>.\<close>

definition parseForInit :: "nat \<Rightarrow> token list \<Rightarrow> pstate \<Rightarrow> forinit option parse" where
  "parseForInit n tokens s =
     (case peek tokens s of
        None \<Rightarrow> Some (None, advance s)
      | Some t \<Rightarrow>
          if tok_value t = '';'' then Some (None, advance s)
          else if tok_type t = ''type'' \<or> tok_type t = ''qualifier''
          then do {
            (d, s1) \<leftarrow> parseVariableDeclaration n tokens s;
            Some (map_option (\<lambda>(declarators, specifiers). InitDeclaration declarators specifiers) d, s1)
          }
          else do {
            (e, s1) \<leftarrow> parseExpression n tokens s;
            Some (map_option InitExpression e,
                  snd (expectValue tokens '';'' ''Expected ';' after for loop initialization'' s1))
          })"

definition parseForStatement_body :: "stmt_parsers \<Rightarrow> nat \<Rightarrow> token list \<Rightarrow> pstate \<Rightarrow> node option run" where
  "parseForStatement_body rec n tokens s0 =
     (let s1 = snd (expectValue tokens ''('' (''Expected '(' after 'for'' @ [CHR 0x27]) (advance (tick s0)))
      in then_run (of_parse (parseForInit n tokens s1)) (\<lambda>init s2.
           then_run (of_parse (if peek tokens s2 \<noteq> None \<and> \<not> peek_value tokens s2 '';''
                               then parseExpression n tokens s2 else Some (None, s2))) (\<lambda>test s3.
             let s4 = snd (expectValue tokens '';'' ''Expected ';' after for loop condition'' s3)
             in then_run (of_parse (if peek tokens s4 \<noteq> None \<and> \<not> peek_value tokens s4 '')''
                                    then parseExpression n tokens s4 else Some (None, s4))) (\<lambda>update s5.
                  let s6 = (if peek_value tokens s5 '')'' then advance s5 else s5)
                  in then_run (rec_Statement rec tokens s6) (\<lambda>body s7.
                       Some (Returned (Some (ForStatement init test update body)) s7))))))"

datatype stmt_call =
    Call_Statement pstate
  | Call_BlockStatement pstate
  | Call_blockLoop "node list" pstate
  | Call_IfStatement pstate
  | Call_WhileStatement pstate
  | Call_ForStatement pstate

datatype stmt_result = Result_node "node option outcome" | Result_nodes "node list outcome"

definition of_node :: "node option run \<Rightarrow> stmt_result option" where
  "of_node r = map_option Result_node r"

definition of_nodes :: "node list run \<Rightarrow> stmt_result option" where
  "of_nodes r = map_option Result_nodes r"

definition as_node :: "stmt_result option \<Rightarrow> node option run" where
  "as_node r = (case r of Some (Result_node x) \<Rightarrow> Some x | _ \<Rightarrow> None)"

definition as_nodes :: "stmt_result option \<Rightarrow> node list run" where
  "as_nodes r = (case r of Some (Result_nodes x) \<Rightarrow> Some x | _ \<Rightarrow> None)"

definition stmt_parsers_of :: "(token list \<Rightarrow> stmt_call \<Rightarrow> stmt_result option) \<Rightarrow> stmt_parsers" where
  "stmt_parsers_of f =
     \<lparr> rec_Statement = (\<lambda>tokens s. as_node (f tokens (Call_Statement s))),
       rec_BlockStatement = (\<lambda>tokens s. as_node (f tokens (Call_BlockStatement s))),
       rec_blockLoop = (\<lambda>tokens body s. as_nodes (f tokens (Call_blockLoop body s))),
       rec_IfStatement = (\<lambda>tokens s. as_node (f tokens (Call_IfStatement s))),
       rec_WhileStatement = (\<lambda>tokens s. as_node (f tokens (Call_WhileStatement s))),
       rec_ForStatement = (\<lambda>tokens s. as_node (f tokens (Call_ForStatement s))) \<rparr>"

primrec stmt_run :: "nat \<Rightarrow> token list \<Rightarrow> stmt_call \<Rightarrow> stmt_result option" where
  "stmt_run 0 tokens c = None"
| "stmt_run (Suc n) tokens c =
     (case c of
        Call_Statement s \<Rightarrow> of_node (parseStatement_body (stmt_parsers_of (stmt_run n)) n tokens s)
      | Call_BlockStatement s \<Rightarrow> of_node (parseBlockStatement_body (stmt_parsers_of (stmt_run n)) tokens s)
      | Call_blockLoop body s \<Rightarrow> of_nodes (blockLoop_body (stmt_parsers_of (stmt_run n)) tokens body s)
      | Call_IfStatement s \<Rightarrow> of_node (parseIfStatement_body (stmt_parsers_of (stmt_run n)) n tokens s)
      | Call_WhileStatement s \<Rightarrow> of_node (parseWhileStatement_body (stmt_parsers_of (stmt_run n)) n tokens s)
      | Call_ForStatement s \<Rightarrow> of_node (parseForStatement_body (stmt_parsers_of (stmt_run n)) n tokens s))"

definition parseStatement :: "nat \<Rightarrow> token list \<Rightarrow> pstate \<Rightarrow> node option run" where
  "parseStatement n = rec_Statement (stmt_parsers_of (stmt_run n))"

definition parseBlockStatement :: "nat \<Rightarrow> token list \<Rightarrow> pstate \<Rightarrow> node option run" where
  "parseBlockStatement n = rec_BlockStatement (stmt_parsers_of (stmt_run n))"

definition blockLoop :: "nat \<Rightarrow> token list \<Rightarrow> node list \<Rightarrow> pstate \<Rightarrow> node list run" where
  "blockLoop n = rec_blockLoop (stmt_parsers_of (stmt_run n))"

definition parseIfStatement :: "nat \<Rightarrow> token list \<Rightarrow> pstate \<Rightarrow> node option run" where
  "parseIfStatement n = rec_IfStatement (stmt_parsers_of (stmt_run n))"

definition parseWhileStatement :: "nat \<Rightarrow> token list \<Rightarrow> pstate \<Rightarrow> node option run" where
  "parseWhileStatement n = rec_WhileStatement (stmt_parsers_of (stmt_run n))"

definition parseForStatement :: "nat \<Rightarrow> token list \<Rightarrow> pstate \<Rightarrow> node option run" where
  "parseForStatement n = rec_ForStatement (stmt_parsers_of (stmt_run n))"

definition stmt_parsers_at :: "nat \<Rightarrow> stmt_parsers" where
  "stmt_parsers_at n =
     \<lparr> rec_Statement = parseStatement n,
       rec_BlockStatement = parseBlockStatement n,
       rec_blockLoop = blockLoop n,
       rec_IfStatement = parseIfStatement n,
       rec_WhileStatement = parseWhileStatement n,
       rec_ForStatement = parseForStatement n \<rparr>"

lemma stmt_parsers_of_run: "stmt_parsers_of (stmt_run n) = stmt_parsers_at n"
  by (simp add: stmt_parsers_at_def parseStatement_def parseBlockStatement_def blockLoop_def
        parseIfStatement_def parseWhileStatement_def parseForStatement_def stmt_parsers_of_def)

lemma as_of_node [simp]: "as_node (of_node r) = r" "as_nodes (of_nodes r') = r'"
  by (auto simp: as_node_def of_node_def as_nodes_def of_nodes_def split: option.splits)

lemma stmt_fuel_0:
  "parseStatement 0 tokens s = None"
  "parseBlockStatement 0 tokens s = None"
  "blockLoop 0 tokens body s = None"
  "parseIfStatement 0 tokens s = None"
  "parseWhileStatement 0 tokens s = None"
  "parseForStatement 0 tokens s = None"
  by (simp_all add: parseStatement_def parseBlockStatement_def blockLoop_def
        parseIfStatement_def parseWhileStatement_def parseForStatement_def stmt_parsers_of_def
        as_node_def as_nodes_def)

lemma stmt_fuel_Suc:
  "parseStatement (Suc n) tokens s = parseStatement_body (stmt_parsers_at n) n tokens s"
  "parseBlockStatement (Suc n) tokens s = parseBlockStatement_body (stmt_parsers_at n) tokens s"
  "blockLoop (Suc n) tokens body s = blockLoop_body (stmt_parsers_at n) tokens body s"
  "parseIfStatement (Suc n) tokens s = parseIfStatement_body (stmt_parsers_at n) n tokens s"
  "parseWhileStatement (Suc n) tokens s = parseWhileStatement_body (stmt_parsers_at n) n tokens s"
  "parseForStatement (Suc n) tokens s = parseForStatement_body (stmt_parsers_at n) n tokens s"
  by (simp_all add: parseStatement_def parseBlockStatement_def blockLoop_def
        parseIfStatement_def parseWhileStatement_def parseForStatement_def stmt_parsers_of_def
        stmt_parsers_of_run [unfolded stmt_parsers_of_def])

subsection \<open>Top level\<close>

text \<open>
  The \<^verbatim>\<open>while\<close> loop of \<^verbatim>\<open>parseParameters\<close>; \<open>False\<close> in the result stands
  for the \<^verbatim>\<open>break\<close> after a missing parameter type.
\<close>

fun parameterLoop :: "nat \<Rightarrow> token list \<Rightarrow> parameter list \<Rightarrow> pstate \<Rightarrow> parameter list parse" where
  "parameterLoop 0 tokens params s = None"
| "parameterLoop (Suc n) tokens params s0 =
     (if peek tokens s0 \<noteq> None \<and> \<not> peek_value tokens s0 '')''
      then (let (typeSpecifiers, s) = parseDeclarationSpecifiers tokens (tick s0)
            in case typeSpecifiers of
                 None \<Rightarrow> Some (params, push_error ''Expected parameter type'' s)
               | Some specifiers \<Rightarrow>
                   (let isPointer = peek_value tokens s ''*'';
                        s1 = (if isPointer then advance s else s);
                        (nameToken, s2) = expect tokens ''identifier'' ''Expected parameter name'' s1
                    in do {
                      (params1, s5) \<leftarrow>
                        (case nameToken of
                           None \<Rightarrow> Some (params, s2)
                         | Some nt \<Rightarrow>
                             do {
                               (isArray, s4) \<leftarrow>
                                 (if peek_value tokens s2 ''[''
                                  then do {
                                    (sizeExpr, s3) \<leftarrow>
                                      (if peek tokens (advance s2) \<noteq> None \<and>
                                          \<not> peek_value tokens (advance s2) '']''
                                       then parseExpression n tokens (advance s2)
                                       else Some (None, advance s2));
                                    Some (True, snd (expectValue tokens '']''
                                                       ''Expected ']' after array parameter'' s3))
                                  }
                                  else Some (False, s2));
                               Some (params @ [\<lparr> p_paramType = specifiers, p_name = tok_value nt,
                                                  p_isArray = isArray, p_isPointer = isPointer \<rparr>], s4)
                             });
                      if peek_value tokens s5 '','' then parameterLoop n tokens params1 (advance s5)
                      else Some (params1, s5)
                    }))
      else Some (params, s0))"

definition parseParameters :: "nat \<Rightarrow> token list \<Rightarrow> pstate \<Rightarrow> parameter list parse" where
  "parseParameters n tokens s0 =
     (let (opening, s) = expectValue tokens ''('' ''Expected '(' for function parameters'' (tick s0)
      in case opening of
           None \<Rightarrow> Some ([], s)
         | Some _ \<Rightarrow>
             if peek_type tokens s ''type'' \<and> peek_value tokens s ''void'' \<and>
                peek_value tokens (advance s) '')''
             then Some ([], advance (advance s))
             else if peek_value tokens s '')'' then Some ([], advance s)
             else do {
               (params, s1) \<leftarrow> parameterLoop n tokens [] s;
               Some (params, snd (expectValue tokens '')'' ''Expected ')' after function parameters'' s1))
             })"

definition parseFunctionDeclaration :: "nat \<Rightarrow> token list \<Rightarrow> pstate \<Rightarrow> node option run" where
  "parseFunctionDeclaration n tokens s0 =
     (let (returnTypeSpecifiers, s) = parseDeclarationSpecifiers tokens (tick s0)
      in case returnTypeSpecifiers of
           None \<Rightarrow> Some (Returned None (push_error ''Expected function return type'' s))
         | Some returnType \<Rightarrow>
             (let isPointerReturn = peek_value tokens s ''*'';
                  s1 = (if isPointerReturn then advance s else s);
                  (nameToken, s2) = expect tokens ''identifier'' ''Expected function name'' s1
              in case nameToken of
                   None \<Rightarrow> Some (Returned None s2)
                 | Some nt \<Rightarrow>
                     then_run (of_parse (parseParameters n tokens s2)) (\<lambda>params s3.
                       then_run (if peek_value tokens s3 ''{'' then parseBlockStatement n tokens s3
                                 else Some (Returned None
                                        (snd (expectValue tokens '';''
                                           ''Expected ';' after function forward declaration'' s3))))
                         (\<lambda>body s4.
                            Some (Returned (Some (FunctionDeclaration (tok_value nt) returnType
                                                    isPointerReturn params body)) s4)))))"

definition parseTypedef :: "token list \<Rightarrow> pstate \<Rightarrow> node option \<times> pstate" where
  "parseTypedef tokens s0 =
     (let (typeSpecifiers, s) = parseDeclarationSpecifiers tokens (advance (tick s0))
      in case typeSpecifiers of
           None \<Rightarrow> (None, push_error ''Expected type specifier after typedef'' s)
         | Some specifiers \<Rightarrow>
             (let (nameToken, s1) = expect tokens ''identifier'' ''Expected identifier for typedef name'' s
              in case nameToken of
                   None \<Rightarrow> (None, s1)
                 | Some nt \<Rightarrow>
                     (Some (Typedef specifiers (tok_value nt)),
                      snd (expectValue tokens '';'' ''Expected ';' after typedef'' s1))))"

text \<open>
  The body of the \<^verbatim>\<open>try\<close> in \<^verbatim>\<open>parseProgram\<close>, for the token \<open>t\<close> under the
  cursor: the node to append to \<^verbatim>\<open>ast.body\<close>, if any.
\<close>

definition parseTopLevel :: "nat \<Rightarrow> token list \<Rightarrow> token \<Rightarrow> pstate \<Rightarrow> node option run" where
  "parseTopLevel n tokens t s =
     (if take 1 (tok_value t) = ''#'' then Some (case_prod Returned (parsePreprocessorDirective tokens t s))
      else if tok_value t = ''typedef'' then Some (case_prod Returned (parseTypedef tokens s))
      else if is_specifier_start t
      then (let (typeSpecifiers, s1) = parseDeclarationSpecifiers tokens s;
                back = (\<lambda>s'. s'\<lparr> current := current s \<rparr>)
            in if typeSpecifiers \<noteq> None \<and> peek_type tokens s1 ''identifier''
               then (let s2 = advance s1;
                         s3 = (if peek_value tokens s2 ''*'' then advance s2 else s2)
                     in if peek_value tokens s3 ''(''
                        then parseFunctionDeclaration n tokens (back s3)
                        else of_parse (parseDeclarationStatement n tokens (back s3)))
               else Some (Returned None (advance (push_error ''Unrecognized declaration'' (back s1)))))
      else if tok_type t = ''identifier'' then parseStatement n tokens s
      else if tok_value t = ''return'' then of_parse (parseReturnStatement n tokens s)
      else if tok_value t = ''{'' then parseBlockStatement n tokens s
      else if tok_value t = ''}'' then Some (Returned None (advance s))
      else Some (Returned None
             (advance (push_error (''Unexpected token at program level: '' @ tok_value t) s))))"

text \<open>
  The text of the \<^verbatim>\<open>TypeError\<close> is the engine's; this is V8's.
\<close>

definition typeError_message :: string where
  "typeError_message = ''Cannot read properties of null (reading '' @ [CHR 0x27] @ ''location'' @ [CHR 0x27] @ '')''"

text \<open>The \<^verbatim>\<open>while (current < tokens.length)\<close> loop of \<^verbatim>\<open>parseProgram\<close>.\<close>

fun parseProgram :: "nat \<Rightarrow> token list \<Rightarrow> node list \<Rightarrow> pstate \<Rightarrow> (node list \<times> pstate) option" where
  "parseProgram 0 tokens body s = None"
| "parseProgram (Suc n) tokens body s =
     (case peek tokens s of
        None \<Rightarrow> Some (body, s)
      | Some t \<Rightarrow>
          (case parseTopLevel n tokens t (tick s) of
             None \<Rightarrow> None
           | Some (Returned nd s1) \<Rightarrow>
               parseProgram n tokens (case nd of None \<Rightarrow> body | Some x \<Rightarrow> body @ [x]) s1
           | Some (Thrown s1) \<Rightarrow>
               parseProgram n tokens body
                 (advance (push_error (''Parser error: '' @ typeError_message) s1))))"

text \<open>
  \<^verbatim>\<open>parser(tokens)\<close>: the \<^verbatim>\<open>body\<close> of the \<^verbatim>\<open>Program\<close> node and the
  \<^verbatim>\<open>errors\<close>.
\<close>

definition parser :: "nat \<Rightarrow> token list \<Rightarrow> (program \<times> string list) option" where
  "parser fuel tokens =
     map_option (\<lambda>(body, s). (body, syntaxErrors s))
       (parseProgram fuel tokens [] \<lparr> current = 0, syntaxErrors = [], steps = 0 \<rparr>)"

subsection \<open>Token streams of the spec's scenarios\<close>

text \<open>
  Modelled from the spec: the lexer (\<^verbatim>\<open>utils/lexer.js\<close>) is not among the sources.
  Section 4.1 of the spec fixes the token kinds; the parser reads only the kinds
  \<^verbatim>\<open>type\<close>, \<^verbatim>\<open>qualifier\<close>, \<^verbatim>\<open>identifier\<close>, \<^verbatim>\<open>string\<close>, \<^verbatim>\<open>number\<close> and
  \<^verbatim>\<open>comment\<close>, and otherwise the token text.
\<close>

definition tk :: "string \<Rightarrow> string \<Rightarrow> token" where
  "tk ty v = \<lparr> tok_type = ty, tok_value = v \<rparr>"

definition T_type :: "string \<Rightarrow> token" where "T_type = tk ''type''"
definition T_keyword :: "string \<Rightarrow> token" where "T_keyword = tk ''keyword''"
definition T_identifier :: "string \<Rightarrow> token" where "T_identifier = tk ''identifier''"
definition T_number :: "string \<Rightarrow> token" where "T_number = tk ''number''"
definition T_operator :: "string \<Rightarrow> token" where "T_operator = tk ''operator''"
definition T_punctuation :: "string \<Rightarrow> token" where "T_punctuation = tk ''punctuation''"

text \<open>\<^verbatim>\<open>int main() { for (int i = 0; i < 3; i = i + 1) { } return 0; }\<close>\<close>

definition for_source_tokens :: "token list" where
  "for_source_tokens =
     [T_type ''int'', T_identifier ''main'', T_punctuation ''('', T_punctuation '')'',
      T_punctuation ''{'',
      T_keyword ''for'', T_punctuation ''('',
      T_type ''int'', T_identifier ''i'', T_operator ''='', T_number ''0'', T_punctuation '';'',
      T_identifier ''i'', T_operator ''<'', T_number ''3'', T_punctuation '';'',
      T_identifier ''i'', T_operator ''='', T_identifier ''i'', T_operator ''+'', T_number ''1'',
      T_punctuation '')'', T_punctuation ''{'', T_punctuation ''}'',
      T_keyword ''return'', T_number ''0'', T_punctuation '';'',
      T_punctuation ''}'']"

text \<open>\<^verbatim>\<open>int x; int main() { return x; }\<close>\<close>

definition global_x_source :: string where
  "global_x_source = ''int x; int main() { return x; }''"

definition global_x_tokens :: "token list" where
  "global_x_tokens =
     [T_type ''int'', T_identifier ''x'', T_punctuation '';'',
      T_type ''int'', T_identifier ''main'', T_punctuation ''('', T_punctuation '')'',
      T_punctuation ''{'', T_keyword ''return'', T_identifier ''x'', T_punctuation '';'',
      T_punctuation ''}'']"

section \<open>Semantic analyzer (\<^verbatim>\<open>semanticAnalyzer.js\<close>)\<close>

subsection \<open>Strings of the analyzer\<close>

text \<open>
  \<^verbatim>\<open>\s\<close> and \<^verbatim>\<open>\w\<close> of the regular expressions and \<^verbatim>\<open>trim\<close>, on
  ASCII text (a \<open>char\<close> is a byte; Unicode spaces are outside the model).
\<close>

definition is_space :: "char \<Rightarrow> bool" where
  "is_space c = (c = CHR '' '' \<or> c = CHR 0x09 \<or> c = CHR 0x0A \<or> c = CHR 0x0B \<or> c = CHR 0x0C \<or> c = CHR 0x0D)"

definition is_word :: "char \<Rightarrow> bool" where
  "is_word c =
     (let k = of_char c :: nat
      in (48 \<le> k \<and> k \<le> 57) \<or> (65 \<le> k \<and> k \<le> 90) \<or> (97 \<le> k \<and> k \<le> 122) \<or> k = 95)"

definition is_line_end :: "char \<Rightarrow> bool" where
  "is_line_end c = (c = CHR 0x0A \<or> c = CHR 0x0D)"

definition trim :: "string \<Rightarrow> string" where
  "trim str = rev (dropWhile is_space (rev (dropWhile is_space str)))"

definition endsWith :: "string \<Rightarrow> string \<Rightarrow> bool" where
  "endsWith str suffix = (length suffix \<le> length str \<and> drop (length str - length suffix) str = suffix)"

text \<open>
  A keyword of \<^verbatim>\<open>/\bconst\s+|\bvolatile\s+/\<close> at the head of the text: the keyword and at
  least one space after it.
\<close>

definition qualifier_here :: "string \<Rightarrow> string \<Rightarrow> bool" where
  "qualifier_here kw str =
     (take (length kw) str = kw \<and>
      (case drop (length kw) str of [] \<Rightarrow> False | d # _ \<Rightarrow> is_space d))"

text \<open>
  \<^verbatim>\<open>type.replace(/\bconst\s+|\bvolatile\s+/g, "")\<close>, scanning from the left;
  \<open>prevWord\<close> tells whether the character before the position is a word character, so
  that \<^verbatim>\<open>\b\<close> holds before a keyword exactly when it is \<open>False\<close>.
\<close>

function strip_qualifiers :: "bool \<Rightarrow> string \<Rightarrow> string" where
  "strip_qualifiers prevWord [] = []"
| "strip_qualifiers prevWord (c # cs) =
     (if \<not> prevWord \<and> qualifier_here ''const'' (c # cs)
      then strip_qualifiers False (dropWhile is_space (drop 5 (c # cs)))
      else if \<not> prevWord \<and> qualifier_here ''volatile'' (c # cs)
      then strip_qualifiers False (dropWhile is_space (drop 8 (c # cs)))
      else c # strip_qualifiers (is_word c) cs)"
  by pat_completeness auto
termination
proof (relation "measure (\<lambda>(prevWord, str). length str)")
  show "wf (measure (\<lambda>(prevWord, str). length str))" by simp
next
  fix prevWord c cs
  have "length (dropWhile is_space (drop 5 (c # cs))) \<le> length (drop 5 (c # cs))"
    by (rule length_dropWhile_le)
  then show "((False, dropWhile is_space (drop 5 (c # cs))), (prevWord, c # cs))
      \<in> measure (\<lambda>(prevWord, str). length str)" by simp
next
  fix prevWord c cs
  have "length (dropWhile is_space (drop 8 (c # cs))) \<le> length (drop 8 (c # cs))"
    by (rule length_dropWhile_le)
  then show "((False, dropWhile is_space (drop 8 (c # cs))), (prevWord, c # cs))
      \<in> measure (\<lambda>(prevWord, str). length str)" by simp
next
  fix prevWord c cs
  show "((is_word c, cs), (prevWord, c # cs)) \<in> measure (\<lambda>(prevWord, str). length str)" by simp
qed

definition normalizeType :: "string \<Rightarrow> string" where
  "normalizeType ty = trim (strip_qualifiers False ty)"

lemma length_strip_qualifiers: "length (strip_qualifiers p str) \<le> length str"
proof (induction p str rule: strip_qualifiers.induct)
  case (1 prevWord)
  then show ?case by simp
next
  case (2 prevWord c cs)
  have a: "length (dropWhile is_space (drop 5 (c # cs))) \<le> length (c # cs)"
    using length_dropWhile_le [of is_space "drop 5 (c # cs)"] by simp
  have b: "length (dropWhile is_space (drop 8 (c # cs))) \<le> length (c # cs)"
    using length_dropWhile_le [of is_space "drop 8 (c # cs)"] by simp
  show ?case using 2 a b by (auto simp del: dropWhile.simps drop_Suc_Cons)
qed

lemma length_trim: "length (trim str) \<le> length str"
proof -
  have "length (dropWhile is_space (rev (dropWhile is_space str))) \<le> length (rev (dropWhile is_space str))"
    by (rule length_dropWhile_le)
  also have "\<dots> \<le> length str" using length_dropWhile_le [of is_space str] by simp
  finally show ?thesis by (simp add: trim_def)
qed

lemma length_normalizeType: "length (normalizeType ty) \<le> length ty"
  using length_trim [of "strip_qualifiers False ty"] length_strip_qualifiers [of False ty]
  by (simp add: normalizeType_def)

definition numericTypes :: "string list" where
  "numericTypes = [''int'', ''float'', ''double'', ''char'', ''short'', ''long'', ''long long'',
     ''unsigned int'', ''unsigned char'', ''unsigned short'', ''unsigned long'']"

text \<open>
  \<^verbatim>\<open>areTypesCompatible\<close>. An empty string is falsy, so it is compatible with nothing.
  \<^verbatim>\<open>slice(0, -1)\<close> is \<open>butlast\<close>, \<^verbatim>\<open>slice(0, -2)\<close> drops two characters.
\<close>

function areTypesCompatible :: "string \<Rightarrow> string \<Rightarrow> bool" where
  "areTypesCompatible targetType sourceType =
     (if targetType = [] \<or> sourceType = [] then False
      else if targetType = sourceType then True
      else let normalizedTarget = normalizeType targetType;
               normalizedSource = normalizeType sourceType
           in if normalizedTarget = normalizedSource then True
              else if normalizedTarget \<in> set numericTypes \<and> normalizedSource \<in> set numericTypes then True
              else if endsWith normalizedTarget ''*'' \<and> endsWith normalizedSource ''*''
              then (if normalizedTarget = ''void*'' \<or> normalizedSource = ''void*'' then True
                    else areTypesCompatible (trim (butlast normalizedTarget))
                                            (trim (butlast normalizedSource)))
              else if endsWith normalizedTarget ''*'' \<and> endsWith normalizedSource ''[]''
              then areTypesCompatible (trim (butlast normalizedTarget))
                                      (trim (butlast (butlast normalizedSource)))
              else False)"
  by pat_completeness auto
termination
proof (relation "measure (\<lambda>(targetType, sourceType). length targetType)")
  show "wf (measure (\<lambda>(targetType, sourceType). length targetType))" by simp
next
  fix targetType sourceType :: string and normalizedTarget normalizedSource
  assume n: "normalizedTarget = normalizeType targetType"
    and e: "endsWith normalizedTarget ''*'' \<and> endsWith normalizedSource ''*''"
  have a: "length (trim (butlast normalizedTarget)) \<le> length (butlast normalizedTarget)"
    by (rule length_trim)
  have b: "length (butlast normalizedTarget) = length normalizedTarget - 1" by simp
  have c: "1 \<le> length normalizedTarget" using e by (simp add: endsWith_def)
  have "length (trim (butlast normalizedTarget)) < length normalizedTarget"
    using a b c by linarith
  then show "((trim (butlast normalizedTarget), trim (butlast normalizedSource)), (targetType, sourceType))
      \<in> measure (\<lambda>(targetType, sourceType). length targetType)"
    using length_normalizeType [of targetType] n by simp
next
  fix targetType sourceType :: string and normalizedTarget normalizedSource
  assume n: "normalizedTarget = normalizeType targetType"
    and e: "endsWith normalizedTarget ''*'' \<and> endsWith normalizedSource ''[]''"
  have a: "length (trim (butlast normalizedTarget)) \<le> length (butlast normalizedTarget)"
    by (rule length_trim)
  have b: "length (butlast normalizedTarget) = length normalizedTarget - 1" by simp
  have c: "1 \<le> length normalizedTarget" using e by (simp add: endsWith_def)
  have "length (trim (butlast normalizedTarget)) < length normalizedTarget"
    using a b c by linarith
  then show "((trim (butlast normalizedTarget), trim (butlast (butlast normalizedSource))), (targetType, sourceType))
      \<in> measure (\<lambda>(targetType, sourceType). length targetType)"
    using length_normalizeType [of targetType] n by simp
qed

declare areTypesCompatible.simps [simp del]

text \<open>
  The text of a type: \<^verbatim>\<open>specifiers.map(s => s.name || s.kind || "").filter(Boolean).join(" ")\<close>.
\<close>

fun specifier_text :: "specifier \<Rightarrow> string" where
  "specifier_text (ComplexType kind name) =
     (case name of None \<Rightarrow> kind | Some n \<Rightarrow> if n = [] then kind else n)"
| "specifier_text (TypeQualifier name) = name"
| "specifier_text (TypeSpecifier name) = name"

fun join_space :: "string list \<Rightarrow> string" where
  "join_space [] = []"
| "join_space [x] = x"
| "join_space (x # y # ys) = x @ '' '' @ join_space (y # ys)"

definition type_text :: "specifier list \<Rightarrow> string" where
  "type_text specifiers = join_space (filter (\<lambda>t. t \<noteq> []) (map specifier_text specifiers))"

subsection \<open>Symbols, diagnostics and state\<close>

text \<open>
  A symbol; a property the source leaves \<^verbatim>\<open>undefined\<close> is \<open>None\<close> or \<open>False\<close>. The
  \<^verbatim>\<open>line\<close> of symbols and the \<^verbatim>\<open>line\<close>, \<^verbatim>\<open>code\<close> and \<^verbatim>\<open>description\<close> of
  diagnostics are left out with the source positions.
\<close>

record symbol =
  sym_name :: string
  sym_type :: string
  sym_returnType :: "string option"
  sym_scope :: string
  sym_initialized :: bool
  sym_isParameter :: bool
  sym_isArray :: bool
  sym_isPointer :: bool
  sym_params :: "(string \<times> string) list option"
  sym_isVarArgs :: bool
  sym_value :: "string option"

definition plain_symbol :: "string \<Rightarrow> string \<Rightarrow> string \<Rightarrow> bool \<Rightarrow> symbol" where
  "plain_symbol name ty scope init =
     \<lparr> sym_name = name, sym_type = ty, sym_returnType = None, sym_scope = scope,
       sym_initialized = init, sym_isParameter = False, sym_isArray = False,
       sym_isPointer = False, sym_params = None, sym_isVarArgs = False, sym_value = None \<rparr>"

datatype sem_error =
    MissingFunctionName
  | Redeclaration string string
  | UsedBeforeInitialization string
  | AssignmentMismatch string string
  | UndefinedFunction string
  | ArityMismatch string nat nat
  | ArgumentMismatch nat string string string
  | MissingMain
  | UnusedVariable string

definition quoted :: "string \<Rightarrow> string" where
  "quoted str = [CHR 0x27] @ str @ [CHR 0x27]"

fun sem_message :: "sem_error \<Rightarrow> string" where
  "sem_message MissingFunctionName = ''Function declaration missing name''"
| "sem_message (Redeclaration varName scope) =
     ''Redeclaration of variable '' @ quoted varName @ '' in '' @ scope @ '' scope''"
| "sem_message (UsedBeforeInitialization name) =
     ''Variable '' @ quoted name @ '' used before initialization''"
| "sem_message (AssignmentMismatch rightType leftType) =
     ''Type mismatch in assignment: cannot assign '' @ quoted rightType @ '' to '' @ quoted leftType"
| "sem_message (UndefinedFunction funcName) = ''Call to undefined function '' @ quoted funcName"
| "sem_message (ArityMismatch funcName given expected) =
     ''Function '' @ quoted funcName @ '' called with '' @ show_nat given @
     '' arguments, but expected '' @ show_nat expected"
| "sem_message (ArgumentMismatch position funcName paramType argType) =
     ''Type mismatch in argument '' @ show_nat position @ '' of call to '' @ quoted funcName @
     '': expected '' @ quoted paramType @ '', got '' @ quoted argType"
| "sem_message MissingMain = ''Missing '' @ quoted ''main'' @ '' function''"
| "sem_message (UnusedVariable name) = ''Unused variable '' @ quoted name"

text \<open>The \<^verbatim>\<open>severity\<close> property; most diagnostics are pushed without one.\<close>

fun sem_severity :: "sem_error \<Rightarrow> string option" where
  "sem_severity (UsedBeforeInitialization name) = Some ''error''"
| "sem_severity (UnusedVariable name) = Some ''warning''"
| "sem_severity _ = None"

text \<open>
  \<^verbatim>\<open>Date.now()\<close> and \<^verbatim>\<open>Math.random().toString(36).substr(2, 9)\<close> are inputs of a
  run: \<open>clock k\<close> is what the \<open>k\<close>-th reading of the clock returns, \<open>random_tag k\<close> the
  text of the \<open>k\<close>-th random draw.
\<close>

record environment =
  clock :: "nat \<Rightarrow> nat"
  random_tag :: "nat \<Rightarrow> string"

text \<open>
  The state of a run: \<^verbatim>\<open>symbolTable\<close> with its keys in insertion order,
  \<^verbatim>\<open>errors\<close>, the set \<^verbatim>\<open>variableUses\<close>, and how often clock and random generator
  have been read. The list \<^verbatim>\<open>functionCalls\<close> is written and never read; it is left
  out.
\<close>

record sem_state =
  symbolTable :: "(string \<times> symbol) list"
  semErrors :: "sem_error list"
  variableUses :: "string list"
  clockReads :: nat
  randomDraws :: nat

definition getSymbolKey :: "string \<Rightarrow> string \<Rightarrow> string" where
  "getSymbolKey name scope = scope @ '':'' @ name"

definition set_symbol :: "string \<Rightarrow> symbol \<Rightarrow> sem_state \<Rightarrow> sem_state" where
  "set_symbol key entry s = s\<lparr> symbolTable := AList.update key entry (symbolTable s) \<rparr>"

definition push_sem_error :: "sem_error \<Rightarrow> sem_state \<Rightarrow> sem_state" where
  "push_sem_error e s = s\<lparr> semErrors := semErrors s @ [e] \<rparr>"

definition add_use :: "string \<Rightarrow> sem_state \<Rightarrow> sem_state" where
  "add_use name s =
     (if name \<in> set (variableUses s) then s else s\<lparr> variableUses := variableUses s @ [name] \<rparr>)"

text \<open>
  \<^verbatim>\<open>resolveVariable\<close>: the key found and its symbol. The source returns the symbol
  object; the key is what \<^verbatim>\<open>Object.keys(symbolTable).find(...)\<close> recovers from it.
\<close>

fun resolve_in :: "(string \<times> symbol) list \<Rightarrow> string \<Rightarrow> string list \<Rightarrow> (string \<times> symbol) option" where
  "resolve_in table name [] = None"
| "resolve_in table name (scope # scopes) =
     (case map_of table (getSymbolKey name scope) of
        Some entry \<Rightarrow> Some (getSymbolKey name scope, entry)
      | None \<Rightarrow> resolve_in table name scopes)"

definition resolveVariable ::
  "(string \<times> symbol) list \<Rightarrow> string \<Rightarrow> string \<Rightarrow> string list \<Rightarrow> (string \<times> symbol) option" where
  "resolveVariable table name currentScope scopeStack =
     (if name = [] then None
      else resolve_in table name (currentScope # rev scopeStack @ [''builtin'']))"

subsection \<open>Phase P: library functions and preprocessor directives\<close>

definition library_symbol :: "string \<Rightarrow> string \<Rightarrow> (string \<times> string) list \<Rightarrow> bool \<Rightarrow> string \<times> symbol" where
  "library_symbol name returnType params isVarArgs =
     (getSymbolKey name ''builtin'',
      \<lparr> sym_name = name, sym_type = returnType @ '' function'', sym_returnType = Some returnType,
        sym_scope = ''builtin'', sym_initialized = True, sym_isParameter = False,
        sym_isArray = False, sym_isPointer = False, sym_params = Some params,
        sym_isVarArgs = isVarArgs, sym_value = None \<rparr>)"

definition stdFuncs :: "(string \<times> symbol) list" where
  "stdFuncs =
     [library_symbol ''printf'' ''int'' [(''format'', ''const char*'')] True,
      library_symbol ''scanf'' ''int'' [(''format'', ''const char*'')] True,
      library_symbol ''malloc'' ''void*'' [(''size'', ''size_t'')] False,
      library_symbol ''free'' ''void'' [(''ptr'', ''void*'')] False,
      library_symbol ''strcpy'' ''char*'' [(''dest'', ''char*''), (''src'', ''const char*'')] False,
      library_symbol ''strlen'' ''size_t'' [(''str'', ''const char*'')] False,
      library_symbol ''puts'' ''int'' [(''str'', ''const char*'')] False,
      library_symbol ''putchar'' ''int'' [(''char'', ''int'')] False,
      library_symbol ''getchar'' ''int'' [] False,
      library_symbol ''fopen'' ''FILE*'' [(''filename'', ''const char*''), (''mode'', ''const char*'')] False,
      library_symbol ''fclose'' ''int'' [(''stream'', ''FILE*'')] False,
      library_symbol ''exit'' ''void'' [(''status'', ''int'')] False,
      library_symbol ''memcpy'' ''void*''
        [(''dest'', ''void*''), (''src'', ''const void*''), (''n'', ''size_t'')] False,
      library_symbol ''memset'' ''void*'' [(''str'', ''void*''), (''c'', ''int''), (''n'', ''size_t'')] False]"

fun set_symbols :: "(string \<times> symbol) list \<Rightarrow> sem_state \<Rightarrow> sem_state" where
  "set_symbols [] s = s"
| "set_symbols ((key, entry) # rest) s = set_symbols rest (set_symbol key entry s)"

definition addStandardLibraryFunctions :: "sem_state \<Rightarrow> sem_state" where
  "addStandardLibraryFunctions s = set_symbols stdFuncs s"

definition header_char :: "char \<Rightarrow> bool" where
  "header_char c = (c \<noteq> CHR ''>'' \<and> c \<noteq> CHR 0x22)"

text \<open>
  The matches of \<^verbatim>\<open>/#include\s*[<"]([^>"]+)[>"]/g\<close> from left to right: the captured
  header names. After a match the search goes on behind it, otherwise one character on.
\<close>

function scan_includes :: "string \<Rightarrow> string list" where
  "scan_includes [] = []"
| "scan_includes (c # cs) =
     (if take 8 (c # cs) = ''#include''
      then (case dropWhile is_space (drop 8 (c # cs)) of
              [] \<Rightarrow> scan_includes cs
            | q # rest \<Rightarrow>
                if (q = CHR ''<'' \<or> q = CHR 0x22) \<and> takeWhile header_char rest \<noteq> [] \<and>
                   dropWhile header_char rest \<noteq> []
                then takeWhile header_char rest # scan_includes (tl (dropWhile header_char rest))
                else scan_includes cs)
      else scan_includes cs)"
  by pat_completeness auto
termination
proof (relation "measure length")
  show "wf (measure length)" by simp
next
  fix c :: char and cs q rest
  assume a: "dropWhile is_space (drop 8 (c # cs)) = q # rest"
  have "length (q # rest) \<le> length (drop 8 (c # cs))"
    using length_dropWhile_le [of is_space "drop 8 (c # cs)"] a by simp
  then have r: "length rest < length (c # cs)" by simp
  have "length (tl (dropWhile header_char rest)) \<le> length (dropWhile header_char rest)" by simp
  also have "\<dots> \<le> length rest" by (rule length_dropWhile_le)
  finally show "(tl (dropWhile header_char rest), c # cs) \<in> measure length"
    using r by simp
qed simp_all

text \<open>
  The matches of \<^verbatim>\<open>/#define\s+(\w+)(?:\s+(.*?))?$/gm\<close>: macro name and trimmed value.
  A space after the name makes the optional group match, its \<^verbatim>\<open>\s+\<close> running over
  line breaks too and the value reaching to the end of the line where it stops; without
  a space the name must end the input.
\<close>

function scan_defines :: "string \<Rightarrow> (string \<times> string) list" where
  "scan_defines [] = []"
| "scan_defines (c # cs) =
     (let r1 = drop 7 (c # cs);
          r2 = dropWhile is_space r1;
          r3 = dropWhile is_word r2;
          r4 = dropWhile is_space r3
      in if take 7 (c # cs) = ''#define'' \<and> r2 \<noteq> r1 \<and> takeWhile is_word r2 \<noteq> []
         then (if r3 = [] then [(takeWhile is_word r2, [])]
               else if r4 \<noteq> r3
               then (takeWhile is_word r2, trim (takeWhile (\<lambda>x. \<not> is_line_end x) r4)) #
                    scan_defines (dropWhile (\<lambda>x. \<not> is_line_end x) r4)
               else scan_defines cs)
         else scan_defines cs)"
  by pat_completeness auto
termination
proof (relation "measure length")
  show "wf (measure length)" by simp
next
  fix c :: char and cs r1 r2 r3 r4
  assume d: "r1 = drop 7 (c # cs)" "r2 = dropWhile is_space r1" "r3 = dropWhile is_word r2"
     "r4 = dropWhile is_space r3"
  have "length (dropWhile (\<lambda>x. \<not> is_line_end x) r4) \<le> length r4" by (rule length_dropWhile_le)
  also have "\<dots> \<le> length r3" unfolding d by (rule length_dropWhile_le)
  also have "\<dots> \<le> length r2" unfolding d by (rule length_dropWhile_le)
  also have "\<dots> \<le> length r1" unfolding d by (rule length_dropWhile_le)
  also have "\<dots> < length (c # cs)" unfolding d by simp
  finally show "(dropWhile (\<lambda>x. \<not> is_line_end x) r4, c # cs) \<in> measure length" by simp
qed simp_all

definition include_symbol :: "string \<Rightarrow> string \<times> symbol" where
  "include_symbol header =
     (getSymbolKey (''#include_'' @ header) ''preprocessor'',
      plain_symbol (''#include_'' @ header) ''preprocessor'' ''preprocessor'' True)"

definition macro_symbol :: "string \<times> string \<Rightarrow> string \<times> symbol" where
  "macro_symbol m =
     (getSymbolKey (fst m) ''global'',
      (plain_symbol (fst m) ''macro'' ''global'' True)\<lparr> sym_value := Some (snd m) \<rparr>)"

definition processPreprocessorDirectives :: "string \<Rightarrow> sem_state \<Rightarrow> sem_state" where
  "processPreprocessorDirectives code s =
     (if code = [] then s
      else set_symbols (map macro_symbol (scan_defines code))
             (set_symbols (map include_symbol (scan_includes code))
                (addStandardLibraryFunctions s)))"

subsection \<open>Use marking and expression types\<close>

text \<open>The \<^verbatim>\<open>Identifier\<close> case of \<^verbatim>\<open>markVariablesAsUsed\<close>.\<close>

definition markIdentifier :: "string \<Rightarrow> string \<Rightarrow> string list \<Rightarrow> sem_state \<Rightarrow> sem_state" where
  "markIdentifier name scope scopeStack s =
     (case resolveVariable (symbolTable s) name scope scopeStack of
        None \<Rightarrow> s
      | Some (key, variable) \<Rightarrow>
          (let s1 = add_use name s
           in if \<not> sym_initialized variable \<and> \<not> sym_isParameter variable
              then push_sem_error (UsedBeforeInitialization name) s1
              else s1))"

text \<open>
  \<^verbatim>\<open>markVariablesAsUsed\<close> on an expression. A literal has no object-valued property but
  its location, so the default case does nothing for it.
\<close>

fun markVariablesAsUsed :: "expr \<Rightarrow> string \<Rightarrow> string list \<Rightarrow> sem_state \<Rightarrow> sem_state"
  and markAll :: "expr list \<Rightarrow> string \<Rightarrow> string list \<Rightarrow> sem_state \<Rightarrow> sem_state" where
  "markVariablesAsUsed (Identifier name) scope scopeStack s = markIdentifier name scope scopeStack s"
| "markVariablesAsUsed (Literal v vt) scope scopeStack s = s"
| "markVariablesAsUsed (BinaryExpression opr l r) scope scopeStack s =
     markVariablesAsUsed r scope scopeStack (markVariablesAsUsed l scope scopeStack s)"
| "markVariablesAsUsed (UnaryExpression opr a prefix) scope scopeStack s =
     markVariablesAsUsed a scope scopeStack s"
| "markVariablesAsUsed (AssignmentExpression opr l r) scope scopeStack s =
     markVariablesAsUsed r scope scopeStack s"
| "markVariablesAsUsed (CallExpression funcName args) scope scopeStack s =
     markAll args scope scopeStack s"
| "markAll [] scope scopeStack s = s"
| "markAll (arg # args) scope scopeStack s =
     markAll args scope scopeStack (markVariablesAsUsed arg scope scopeStack s)"

fun markVariablesAsUsed_opt :: "expr option \<Rightarrow> string \<Rightarrow> string list \<Rightarrow> sem_state \<Rightarrow> sem_state" where
  "markVariablesAsUsed_opt None scope scopeStack s = s"
| "markVariablesAsUsed_opt (Some e) scope scopeStack s = markVariablesAsUsed e scope scopeStack s"

text \<open>A type is a string or \<^verbatim>\<open>null\<close>; the empty string is falsy as well.\<close>

definition truthy :: "string option \<Rightarrow> bool" where
  "truthy t = (case t of None \<Rightarrow> False | Some str \<Rightarrow> str \<noteq> [])"

definition type_of_text :: "string option \<Rightarrow> string" where
  "type_of_text t = (case t of None \<Rightarrow> [] | Some str \<Rightarrow> str)"

definition arithmetic_type :: "string \<Rightarrow> string \<Rightarrow> string \<Rightarrow> string" where
  "arithmetic_type opr leftType rightType =
     (if str_includes leftType ''double'' \<or> str_includes rightType ''double'' then ''double''
      else if str_includes leftType ''float'' \<or> str_includes rightType ''float'' then ''float''
      else if str_includes leftType ''long'' \<or> str_includes rightType ''long'' then ''long''
      else if (str_includes leftType ''*'' \<or> str_includes rightType ''*'') \<and>
              (opr = ''+'' \<or> opr = ''-'')
      then (if str_includes leftType ''*'' then leftType else rightType)
      else ''int'')"

definition binary_type :: "string \<Rightarrow> string option \<Rightarrow> string option \<Rightarrow> string option" where
  "binary_type opr leftType rightType =
     (if opr \<in> set [''=='', ''!='', ''<'', ''>'', ''<='', ''>='', ''&&'', ''||''] then Some ''int''
      else if opr \<in> set [''+'', ''-'', ''*'', ''/'', ''%'']
      then (if \<not> truthy leftType \<or> \<not> truthy rightType then None
            else Some (arithmetic_type opr (type_of_text leftType) (type_of_text rightType)))
      else None)"

definition unary_type :: "string \<Rightarrow> string option \<Rightarrow> string option" where
  "unary_type opr argType =
     (if \<not> truthy argType then None
      else if opr = ''&'' then Some (type_of_text argType @ ''*'')
      else if opr = ''*''
      then (if endsWith (type_of_text argType) ''*'' then Some (trim (butlast (type_of_text argType)))
            else None)
      else if opr = ''!'' then Some ''int''
      else if opr \<in> set [''-'', ''+'', ''~'', ''++'', ''--''] then argType
      else None)"

text \<open>
  \<^verbatim>\<open>getExpressionType\<close>: the type and the state, since a resolved identifier is
  entered into \<^verbatim>\<open>variableUses\<close>. The type of a call ignores its arguments.
\<close>

fun getExpressionType :: "expr \<Rightarrow> string \<Rightarrow> string list \<Rightarrow> sem_state \<Rightarrow> string option \<times> sem_state" where
  "getExpressionType (Identifier name) scope scopeStack s =
     (case resolveVariable (symbolTable s) name scope scopeStack of
        Some (key, variable) \<Rightarrow> (Some (sym_type variable), add_use name s)
      | None \<Rightarrow> (None, s))"
| "getExpressionType (Literal v vt) scope scopeStack s =
     (if vt = ''string'' then (Some ''char*'', s)
      else if vt = ''number'' then (Some (if str_includes v ''.'' then ''float'' else ''int''), s)
      else (Some ''int'', s))"
| "getExpressionType (BinaryExpression opr l r) scope scopeStack s =
     (let (leftType, s1) = getExpressionType l scope scopeStack s;
          (rightType, s2) = getExpressionType r scope scopeStack s1
      in (binary_type opr leftType rightType, s2))"
| "getExpressionType (UnaryExpression opr a prefix) scope scopeStack s =
     (let (argType, s1) = getExpressionType a scope scopeStack s
      in (unary_type opr argType, s1))"
| "getExpressionType (AssignmentExpression opr l r) scope scopeStack s =
     getExpressionType l scope scopeStack s"
| "getExpressionType (CallExpression funcName args) scope scopeStack s =
     (case resolveVariable (symbolTable s) funcName scope scopeStack of
        Some (key, funcSymbol) \<Rightarrow>
          ((if truthy (sym_returnType funcSymbol) then sym_returnType funcSymbol else None), s)
      | None \<Rightarrow> (None, s))"

subsection \<open>Phase 1: symbol table\<close>

text \<open>
  The end of the \<^verbatim>\<open>AssignmentExpression\<close> case: the symbol an identifier on the left
  resolves to becomes initialized.
\<close>

definition markInitialized :: "expr \<Rightarrow> string \<Rightarrow> string list \<Rightarrow> sem_state \<Rightarrow> sem_state" where
  "markInitialized left scope scopeStack s =
     (case left of
        Identifier varName \<Rightarrow>
          (case resolveVariable (symbolTable s) varName scope scopeStack of
             Some (varKey, variable) \<Rightarrow> set_symbol varKey (variable\<lparr> sym_initialized := True \<rparr>) s
           | None \<Rightarrow> s)
      | _ \<Rightarrow> s)"

text \<open>
  The first loop of the \<^verbatim>\<open>CallExpression\<close> case, for \<^verbatim>\<open>printf\<close> and its kin: an
  argument that is an identifier counts as used whether it resolves or not.
\<close>

fun markPrintfArguments :: "expr list \<Rightarrow> string \<Rightarrow> string list \<Rightarrow> sem_state \<Rightarrow> sem_state" where
  "markPrintfArguments [] scope scopeStack s = s"
| "markPrintfArguments (arg # args) scope scopeStack s =
     markPrintfArguments args scope scopeStack
       (markVariablesAsUsed arg scope scopeStack
          (case arg of Identifier name \<Rightarrow> add_use name s | _ \<Rightarrow> s))"

text \<open>
  \<^verbatim>\<open>buildSymbolTable\<close> on an expression. Identifiers and literals fall to the default
  case and have no child to visit; binary and unary expressions fall to it too, and it
  visits each operand with \<^verbatim>\<open>buildSymbolTable\<close> and then \<^verbatim>\<open>markVariablesAsUsed\<close>.
\<close>

fun buildSymbolTable_expr :: "expr \<Rightarrow> string \<Rightarrow> string list \<Rightarrow> sem_state \<Rightarrow> sem_state"
  and buildArguments :: "expr list \<Rightarrow> string \<Rightarrow> string list \<Rightarrow> sem_state \<Rightarrow> sem_state" where
  "buildSymbolTable_expr (Identifier name) scope scopeStack s = s"
| "buildSymbolTable_expr (Literal v vt) scope scopeStack s = s"
| "buildSymbolTable_expr (BinaryExpression opr l r) scope scopeStack s =
     markVariablesAsUsed r scope scopeStack
       (buildSymbolTable_expr r scope scopeStack
          (markVariablesAsUsed l scope scopeStack
             (buildSymbolTable_expr l scope scopeStack s)))"
| "buildSymbolTable_expr (UnaryExpression opr a prefix) scope scopeStack s =
     markVariablesAsUsed a scope scopeStack (buildSymbolTable_expr a scope scopeStack s)"
| "buildSymbolTable_expr (AssignmentExpression opr l r) scope scopeStack s =
     markInitialized l scope scopeStack
       (markVariablesAsUsed r scope scopeStack
          (buildSymbolTable_expr r scope scopeStack
             (buildSymbolTable_expr l scope scopeStack s)))"
| "buildSymbolTable_expr (CallExpression funcName args) scope scopeStack s =
     buildArguments args scope scopeStack
       (if funcName \<in> set [''printf'', ''fprintf'', ''sprintf'', ''scanf'']
        then markPrintfArguments args scope scopeStack s else s)"
| "buildArguments [] scope scopeStack s = s"
| "buildArguments (arg # args) scope scopeStack s =
     buildArguments args scope scopeStack
       (markVariablesAsUsed arg scope scopeStack (buildSymbolTable_expr arg scope scopeStack s))"

text \<open>\<^verbatim>\<open>buildSymbolTable(e, ...); markVariablesAsUsed(e, ...)\<close> on an expression.\<close>

definition buildAndMark :: "expr \<Rightarrow> string \<Rightarrow> string list \<Rightarrow> sem_state \<Rightarrow> sem_state" where
  "buildAndMark e scope scopeStack s =
     markVariablesAsUsed e scope scopeStack (buildSymbolTable_expr e scope scopeStack s)"

text \<open>
  The parser creates the property \<^verbatim>\<open>initializer\<close> of every declarator, with
  \<^verbatim>\<open>null\<close> when there is none; \<^verbatim>\<open>declarator.initializer !== undefined\<close> is what the
  source stores as \<^verbatim>\<open>initialized\<close>.
\<close>

definition initializer_defined :: "declarator \<Rightarrow> bool" where
  "initializer_defined d = True"

text \<open>The \<^verbatim>\<open>forEach\<close> over the declarators of a \<^verbatim>\<open>VariableDeclaration\<close>.\<close>

fun declareVariables :: "declarator list \<Rightarrow> string \<Rightarrow> string \<Rightarrow> string list \<Rightarrow> sem_state \<Rightarrow> sem_state" where
  "declareVariables [] varType scope scopeStack s = s"
| "declareVariables (d # ds) varType scope scopeStack s =
     declareVariables ds varType scope scopeStack
       (if d_name d = [] then s
        else let finalType = (varType @ (if d_isPointer d then ''*'' else [])) @
                             (if d_isArray d then ''[]'' else []);
                 varKey = getSymbolKey (d_name d) scope
             in if map_of (symbolTable s) varKey \<noteq> None
                then push_sem_error (Redeclaration (d_name d) scope) s
                else let s1 = set_symbol varKey
                                ((plain_symbol (d_name d) finalType scope (initializer_defined d))
                                   \<lparr> sym_isArray := d_isArray d, sym_isPointer := d_isPointer d \<rparr>) s
                     in case d_initializer d of
                          None \<Rightarrow> s1
                        | Some init \<Rightarrow> buildAndMark init scope scopeStack s1)"

definition parameter_type :: "parameter \<Rightarrow> string" where
  "parameter_type p =
     (type_text (p_paramType p) @ (if p_isPointer p then ''*'' else [])) @
     (if p_isArray p then ''[]'' else [])"

fun declareParameters :: "parameter list \<Rightarrow> string \<Rightarrow> sem_state \<Rightarrow> sem_state" where
  "declareParameters [] functionScope s = s"
| "declareParameters (p # ps) functionScope s =
     declareParameters ps functionScope
       (if p_name p = [] then s
        else set_symbol (getSymbolKey (p_name p) functionScope)
               ((plain_symbol (p_name p) (parameter_type p) functionScope True)
                  \<lparr> sym_isParameter := True \<rparr>) s)"

definition function_symbol :: "string \<Rightarrow> specifier list \<Rightarrow> bool \<Rightarrow> parameter list \<Rightarrow> bool \<Rightarrow> symbol" where
  "function_symbol functionName returnTypeSpecifiers isPointerReturn params hasBody =
     (let returnType = type_text returnTypeSpecifiers @ (if isPointerReturn then ''*'' else [])
      in (plain_symbol functionName (returnType @ '' function'') ''global'' hasBody)
           \<lparr> sym_returnType := Some returnType,
             sym_params := Some (map (\<lambda>p. (if p_name p = [] then ''unnamed'' else p_name p,
                                            type_text (p_paramType p))) params) \<rparr>)"

text \<open>
  The synthetic scope names. A block reads the clock and draws a random tag; the other
  statements read the clock only.
\<close>

definition read_clock :: "sem_state \<Rightarrow> sem_state" where
  "read_clock s = s\<lparr> clockReads := clockReads s + 1 \<rparr>"

definition draw_random :: "sem_state \<Rightarrow> sem_state" where
  "draw_random s = s\<lparr> randomDraws := randomDraws s + 1 \<rparr>"

definition timedScope :: "environment \<Rightarrow> string \<Rightarrow> string \<Rightarrow> sem_state \<Rightarrow> string" where
  "timedScope env prefix scope s = prefix @ ''_'' @ scope @ ''_'' @ show_nat (clock env (clockReads s))"

definition blockScopeName :: "environment \<Rightarrow> string \<Rightarrow> sem_state \<Rightarrow> string" where
  "blockScopeName env scope s =
     timedScope env ''block'' scope s @ ''_'' @ random_tag env (randomDraws s)"

text \<open>
  \<^verbatim>\<open>buildSymbolTable\<close> on a statement or declaration; \<open>buildSymbolTable_opt\<close> is the
  call on a child that may be \<^verbatim>\<open>null\<close>, \<open>buildSymbolTable_list\<close> the \<^verbatim>\<open>forEach\<close>
  over a body. A \<^verbatim>\<open>Typedef\<close> falls to the default case, which marks its name as a
  use; so do \<^verbatim>\<open>break\<close> and \<^verbatim>\<open>continue\<close>, which have nothing to visit.
\<close>

fun buildSymbolTable :: "environment \<Rightarrow> node \<Rightarrow> string \<Rightarrow> string list \<Rightarrow> sem_state \<Rightarrow> sem_state"
  and buildSymbolTable_opt :: "environment \<Rightarrow> node option \<Rightarrow> string \<Rightarrow> string list \<Rightarrow> sem_state \<Rightarrow> sem_state"
  and buildSymbolTable_list :: "environment \<Rightarrow> node list \<Rightarrow> string \<Rightarrow> string list \<Rightarrow> sem_state \<Rightarrow> sem_state" where
  "buildSymbolTable env (Include h sys) scope scopeStack s = s"
| "buildSymbolTable env (PreprocessorDirective d) scope scopeStack s = s"
| "buildSymbolTable env (Typedef ts name) scope scopeStack s = markIdentifier name scope scopeStack s"
| "buildSymbolTable env (FunctionDeclaration functionName rt isPointerReturn params body) scope scopeStack s =
     (if functionName = [] then push_sem_error MissingFunctionName s
      else let s1 = set_symbol (getSymbolKey functionName ''global'')
                      (function_symbol functionName rt isPointerReturn params (body \<noteq> None)) s
           in case body of
                None \<Rightarrow> s1
              | Some b \<Rightarrow>
                  buildSymbolTable env b functionName (scopeStack @ [functionName])
                    (declareParameters params functionName s1))"
| "buildSymbolTable env (VariableDeclaration ds ts) scope scopeStack s =
     declareVariables ds (type_text ts) scope scopeStack s"
| "buildSymbolTable env (BlockStatement body) scope scopeStack s =
     (let blockScope = blockScopeName env scope s
      in buildSymbolTable_list env body blockScope (scopeStack @ [blockScope])
           (draw_random (read_clock s)))"
| "buildSymbolTable env (IfStatement test consequent alternate) scope scopeStack s =
     (let ifScope = timedScope env ''if'' scope s;
          s1 = markVariablesAsUsed_opt test scope scopeStack (read_clock s);
          s2 = (case test of None \<Rightarrow> s1
                | Some t \<Rightarrow> buildSymbolTable_expr t ifScope (scopeStack @ [ifScope]) s1);
          s3 = buildSymbolTable_opt env consequent ifScope (scopeStack @ [ifScope]) s2
      in case alternate of
           None \<Rightarrow> s3
         | Some a \<Rightarrow>
             (let elseScope = timedScope env ''else'' scope s3
              in buildSymbolTable env a elseScope (scopeStack @ [elseScope]) (read_clock s3)))"
| "buildSymbolTable env (ForStatement init test update body) scope scopeStack s =
     (let forScope = timedScope env ''for'' scope s;
          newScopeStack = scopeStack @ [forScope];
          s1 = (case init of
                  None \<Rightarrow> read_clock s
                | Some (InitDeclaration ds ts) \<Rightarrow>
                    declareVariables ds (type_text ts) forScope newScopeStack (read_clock s)
                | Some (InitExpression e) \<Rightarrow> buildSymbolTable_expr e forScope newScopeStack (read_clock s));
          s2 = (case test of
                  None \<Rightarrow> s1
                | Some t \<Rightarrow> buildSymbolTable_expr t forScope newScopeStack
                              (markVariablesAsUsed t scope scopeStack s1));
          s3 = (case update of
                  None \<Rightarrow> s2
                | Some u \<Rightarrow> buildSymbolTable_expr u forScope newScopeStack
                              (markVariablesAsUsed u scope scopeStack s2))
      in buildSymbolTable_opt env body forScope newScopeStack s3)"
| "buildSymbolTable env (WhileStatement test body) scope scopeStack s =
     (let whileScope = timedScope env ''while'' scope s;
          s1 = markVariablesAsUsed_opt test scope scopeStack (read_clock s);
          s2 = (case test of None \<Rightarrow> s1
                | Some t \<Rightarrow> buildSymbolTable_expr t whileScope (scopeStack @ [whileScope]) s1)
      in buildSymbolTable_opt env body whileScope (scopeStack @ [whileScope]) s2)"
| "buildSymbolTable env (ReturnStatement argument) scope scopeStack s =
     (case argument of None \<Rightarrow> s | Some a \<Rightarrow> buildAndMark a scope scopeStack s)"
| "buildSymbolTable env (ExpressionStatement e) scope scopeStack s = buildAndMark e scope scopeStack s"
| "buildSymbolTable env BreakStatement scope scopeStack s = s"
| "buildSymbolTable env ContinueStatement scope scopeStack s = s"
| "buildSymbolTable_opt env None scope scopeStack s = s"
| "buildSymbolTable_opt env (Some n) scope scopeStack s = buildSymbolTable env n scope scopeStack s"
| "buildSymbolTable_list env [] scope scopeStack s = s"
| "buildSymbolTable_list env (n # ns) scope scopeStack s =
     buildSymbolTable_list env ns scope scopeStack (buildSymbolTable env n scope scopeStack s)"

subsection \<open>Phase 2: type checking\<close>

text \<open>
  \<^verbatim>\<open>checkTypes\<close> hands its \<^verbatim>\<open>scope\<close> and \<^verbatim>\<open>localScopeStack\<close> on unchanged, so every
  name is resolved in the global scope. \<open>checkArguments\<close> is the \<^verbatim>\<open>forEach\<close> over the
  arguments of a call, \<open>i\<close> the index of the next one.
\<close>

definition checkAssignment :: "string option \<Rightarrow> string option \<Rightarrow> sem_state \<Rightarrow> sem_state" where
  "checkAssignment leftType rightType s =
     (if truthy leftType \<and> truthy rightType \<and>
         \<not> areTypesCompatible (type_of_text leftType) (type_of_text rightType)
      then push_sem_error (AssignmentMismatch (type_of_text rightType) (type_of_text leftType)) s
      else s)"

definition checkArgument ::
  "expr \<Rightarrow> nat \<Rightarrow> (string \<times> string) list \<Rightarrow> string \<Rightarrow> string \<Rightarrow> string list \<Rightarrow> sem_state \<Rightarrow> sem_state" where
  "checkArgument arg i expectedParams funcName scope scopeStack s =
     (if i < length expectedParams
      then (let (argType, s1) = getExpressionType arg scope scopeStack s;
                paramType = snd (expectedParams ! i)
            in if truthy argType \<and> paramType \<noteq> [] \<and>
                  \<not> areTypesCompatible paramType (type_of_text argType)
               then push_sem_error (ArgumentMismatch (i + 1) funcName paramType (type_of_text argType)) s1
               else s1)
      else s)"

fun checkTypes_expr :: "expr \<Rightarrow> string \<Rightarrow> string list \<Rightarrow> sem_state \<Rightarrow> sem_state"
  and checkArguments ::
    "expr list \<Rightarrow> nat \<Rightarrow> (string \<times> string) list \<Rightarrow> string \<Rightarrow> string \<Rightarrow> string list \<Rightarrow> sem_state \<Rightarrow> sem_state" where
  "checkTypes_expr (Identifier name) scope scopeStack s = s"
| "checkTypes_expr (Literal v vt) scope scopeStack s = s"
| "checkTypes_expr (BinaryExpression opr l r) scope scopeStack s =
     checkTypes_expr r scope scopeStack (checkTypes_expr l scope scopeStack s)"
| "checkTypes_expr (UnaryExpression opr a prefix) scope scopeStack s =
     checkTypes_expr a scope scopeStack s"
| "checkTypes_expr (AssignmentExpression opr l r) scope scopeStack s =
     (let (leftType, s1) = getExpressionType l scope scopeStack s;
          (rightType, s2) = getExpressionType r scope scopeStack s1
      in checkTypes_expr r scope scopeStack
           (checkTypes_expr l scope scopeStack (checkAssignment leftType rightType s2)))"
| "checkTypes_expr (CallExpression funcName args) scope scopeStack s =
     (case resolveVariable (symbolTable s) funcName scope scopeStack of
        None \<Rightarrow> push_sem_error (UndefinedFunction funcName) s
      | Some (key, funcSymbol) \<Rightarrow>
          (let expectedParams = (case sym_params funcSymbol of None \<Rightarrow> [] | Some ps \<Rightarrow> ps);
               isVarArgs = (sym_isVarArgs funcSymbol \<or>
                            sym_name funcSymbol \<in> set [''printf'', ''scanf'']);
               s1 = (if \<not> isVarArgs \<and> length args \<noteq> length expectedParams
                     then push_sem_error (ArityMismatch funcName (length args) (length expectedParams)) s
                     else s)
           in checkArguments args 0 expectedParams funcName scope scopeStack s1))"
| "checkArguments [] i expectedParams funcName scope scopeStack s = s"
| "checkArguments (arg # args) i expectedParams funcName scope scopeStack s =
     checkArguments args (i + 1) expectedParams funcName scope scopeStack
       (checkArgument arg i expectedParams funcName scope scopeStack
          (checkTypes_expr arg scope scopeStack s))"

fun checkTypes_opt :: "expr option \<Rightarrow> string \<Rightarrow> string list \<Rightarrow> sem_state \<Rightarrow> sem_state" where
  "checkTypes_opt None scope scopeStack s = s"
| "checkTypes_opt (Some e) scope scopeStack s = checkTypes_expr e scope scopeStack s"

text \<open>The default case on a \<^verbatim>\<open>VariableDeclaration\<close> reaches the initializers.\<close>

fun checkInitializers :: "declarator list \<Rightarrow> string \<Rightarrow> string list \<Rightarrow> sem_state \<Rightarrow> sem_state" where
  "checkInitializers [] scope scopeStack s = s"
| "checkInitializers (d # ds) scope scopeStack s =
     checkInitializers ds scope scopeStack (checkTypes_opt (d_initializer d) scope scopeStack s)"

fun checkTypes :: "node \<Rightarrow> string \<Rightarrow> string list \<Rightarrow> sem_state \<Rightarrow> sem_state"
  and checkTypes_node_opt :: "node option \<Rightarrow> string \<Rightarrow> string list \<Rightarrow> sem_state \<Rightarrow> sem_state"
  and checkTypes_list :: "node list \<Rightarrow> string \<Rightarrow> string list \<Rightarrow> sem_state \<Rightarrow> sem_state" where
  "checkTypes (Include h sys) scope scopeStack s = s"
| "checkTypes (PreprocessorDirective d) scope scopeStack s = s"
| "checkTypes (Typedef ts name) scope scopeStack s = s"
| "checkTypes (FunctionDeclaration functionName rt isPointerReturn params body) scope scopeStack s =
     checkTypes_node_opt body scope scopeStack s"
| "checkTypes (VariableDeclaration ds ts) scope scopeStack s = checkInitializers ds scope scopeStack s"
| "checkTypes (BlockStatement body) scope scopeStack s = checkTypes_list body scope scopeStack s"
| "checkTypes (IfStatement test consequent alternate) scope scopeStack s =
     checkTypes_node_opt alternate scope scopeStack
       (checkTypes_node_opt consequent scope scopeStack (checkTypes_opt test scope scopeStack s))"
| "checkTypes (WhileStatement test body) scope scopeStack s =
     checkTypes_node_opt body scope scopeStack (checkTypes_opt test scope scopeStack s)"
| "checkTypes (ForStatement init test update body) scope scopeStack s =
     (let s1 = (case init of
                  None \<Rightarrow> s
                | Some (InitDeclaration ds ts) \<Rightarrow> checkInitializers ds scope scopeStack s
                | Some (InitExpression e) \<Rightarrow> checkTypes_expr e scope scopeStack s)
      in checkTypes_node_opt body scope scopeStack
           (checkTypes_opt update scope scopeStack (checkTypes_opt test scope scopeStack s1)))"
| "checkTypes (ReturnStatement argument) scope scopeStack s = checkTypes_opt argument scope scopeStack s"
| "checkTypes (ExpressionStatement e) scope scopeStack s = checkTypes_expr e scope scopeStack s"
| "checkTypes BreakStatement scope scopeStack s = s"
| "checkTypes ContinueStatement scope scopeStack s = s"
| "checkTypes_node_opt None scope scopeStack s = s"
| "checkTypes_node_opt (Some n) scope scopeStack s = checkTypes n scope scopeStack s"
| "checkTypes_list [] scope scopeStack s = s"
| "checkTypes_list (n # ns) scope scopeStack s =
     checkTypes_list ns scope scopeStack (checkTypes n scope scopeStack s)"

subsection \<open>Phase 3: final checks, and the result\<close>

definition exempt_from_unused :: "symbol \<Rightarrow> bool" where
  "exempt_from_unused entry =
     (str_includes (sym_type entry) ''function'' \<or> sym_scope entry = ''builtin'' \<or>
      sym_scope entry = ''preprocessor'' \<or> sym_isParameter entry \<or> sym_type entry = ''macro'')"

text \<open>The \<^verbatim>\<open>forEach\<close> over \<^verbatim>\<open>Object.entries(symbolTable)\<close>.\<close>

fun checkUnused :: "(string \<times> symbol) list \<Rightarrow> sem_state \<Rightarrow> sem_state" where
  "checkUnused [] s = s"
| "checkUnused ((key, entry) # rest) s =
     checkUnused rest
       (if exempt_from_unused entry then s
        else if sym_name entry \<notin> set (variableUses s)
        then push_sem_error (UnusedVariable (sym_name entry)) s
        else s)"

definition checkMain :: "sem_state \<Rightarrow> sem_state" where
  "checkMain s =
     (if map_of (symbolTable s) (getSymbolKey ''main'' ''global'') = None \<and> symbolTable s \<noteq> []
      then push_sem_error MissingMain s else s)"

definition performSemanticChecks :: "sem_state \<Rightarrow> sem_state" where
  "performSemanticChecks s = checkUnused (symbolTable s) (checkMain s)"

text \<open>
  An entry of the displayed symbol table. \<^verbatim>\<open>isArray\<close> and \<^verbatim>\<open>isPointer\<close> are present
  only when true, \<^verbatim>\<open>value\<close> only when it is a non-empty string.
\<close>

record display_symbol =
  shown_type :: string
  shown_scope :: string
  shown_initialized :: bool
  shown_params :: "(string \<times> string) list option"
  shown_isArray :: bool
  shown_isPointer :: bool
  shown_value :: "string option"

definition display_entry :: "symbol \<Rightarrow> string \<times> display_symbol" where
  "display_entry entry =
     (if sym_scope entry = ''global'' then sym_name entry
      else sym_scope entry @ ''.'' @ sym_name entry,
      \<lparr> shown_type = sym_type entry, shown_scope = sym_scope entry,
        shown_initialized = sym_initialized entry, shown_params = sym_params entry,
        shown_isArray = sym_isArray entry, shown_isPointer = sym_isPointer entry,
        shown_value = (if truthy (sym_value entry) then sym_value entry else None) \<rparr>)"

text \<open>
  \<^verbatim>\<open>formatSymbolTable\<close>: the entries of the displayed object in the order of their first
  insertion; a later symbol with the same display name replaces the entry. The displayed
  table is a plain object, so the assignment \<^verbatim>\<open>displaySymbolTable["__proto__"] = {...}\<close>
  sets its prototype and adds no entry.
\<close>

fun formatSymbolTable :: "(string \<times> symbol) list \<Rightarrow> (string \<times> display_symbol) list \<Rightarrow> (string \<times> display_symbol) list" where
  "formatSymbolTable [] shown = shown"
| "formatSymbolTable ((key, entry) # rest) shown =
     formatSymbolTable rest
       (if sym_scope entry = ''builtin'' \<or> sym_scope entry = ''preprocessor'' then shown
        else if fst (display_entry entry) = ''__proto__'' then shown
        else AList.update (fst (display_entry entry)) (snd (display_entry entry)) shown)"

record sem_result =
  result_symbolTable :: "(string \<times> display_symbol) list"
  result_errors :: "sem_error list"

definition initial_sem_state :: sem_state where
  "initial_sem_state = \<lparr> symbolTable = [], semErrors = [], variableUses = [], clockReads = 0, randomDraws = 0 \<rparr>"

text \<open>
  The state after the three phases, and \<^verbatim>\<open>semanticAnalyzer(ast, code)\<close> in an
  environment. On the AST of the parser no statement of the analyzer can raise, so the
  \<^verbatim>\<open>catch\<close> branch is not reached.
\<close>

definition analysed :: "environment \<Rightarrow> program \<Rightarrow> string \<Rightarrow> sem_state" where
  "analysed env ast code =
     performSemanticChecks
       (checkTypes_list ast ''global'' [''global'']
          (buildSymbolTable_list env ast ''global'' [''global'']
             (processPreprocessorDirectives code initial_sem_state)))"

definition semanticAnalyzer :: "environment \<Rightarrow> program \<Rightarrow> string \<Rightarrow> sem_result" where
  "semanticAnalyzer env ast code =
     \<lparr> result_symbolTable = formatSymbolTable (symbolTable (analysed env ast code)) [],
       result_errors = semErrors (analysed env ast code) \<rparr>"

subsection \<open>The spec's scenarios: syntax trees and expected code\<close>

text \<open>The tree of \<^verbatim>\<open>int main() { for (int i = 0; i < 3; i = i + 1) { } return 0; }\<close>.\<close>

definition for_ast :: program where
  "for_ast =
     [FunctionDeclaration ''main'' [TypeSpecifier ''int''] False []
        (Some (BlockStatement
           [ForStatement
              (Some (InitDeclaration
                 [\<lparr> d_name = ''i'', d_isArray = False,
                     d_initializer = Some (Literal ''0'' ''number''), d_isPointer = False \<rparr>]
                 [TypeSpecifier ''int'']))
              (Some (BinaryExpression ''<'' (Identifier ''i'') (Literal ''3'' ''number'')))
              (Some (AssignmentExpression ''='' (Identifier ''i'')
                 (BinaryExpression ''+'' (Identifier ''i'') (Literal ''1'' ''number''))))
              (Some (BlockStatement [])),
            ReturnStatement (Some (Literal ''0'' ''number''))]))]"

definition tac ::
  "nat \<Rightarrow> operation \<Rightarrow> string option \<Rightarrow> string option \<Rightarrow> string option \<Rightarrow> instr" where
  "tac n opr a1 a2 res =
     \<lparr> operation = opr, arg1 = a1, arg2 = a2, result = res, label = None, lineNumber = n \<rparr>"

definition tac_label :: "nat \<Rightarrow> string \<Rightarrow> instr" where
  "tac_label n l =
     \<lparr> operation = LABEL, arg1 = None, arg2 = None, result = None, label = Some l, lineNumber = n \<rparr>"

text \<open>The three-address code the generator emits for it.\<close>

definition for_tac :: "instr list" where
  "for_tac =
     [tac_label 0 ''main'',
      tac 1 FUNCTION_START (Some ''main'') None None,
      tac 2 DECLARE (Some ''i'') None None,
      tac 3 ASSIGN (Some ''0'') None (Some ''i''),
      tac_label 4 ''FOR_START0'',
      tac 5 LT (Some ''i'') (Some ''3'') (Some ''t0''),
      tac 6 IF_FALSE (Some ''t0'') None (Some ''FOR_END2''),
      tac_label 7 ''FOR_CONTINUE1'',
      tac 8 ADD (Some ''i'') (Some ''1'') (Some ''t1''),
      tac 9 ASSIGN (Some ''t1'') None (Some ''i''),
      tac 10 GOTO None None (Some ''FOR_START0''),
      tac_label 11 ''FOR_END2'',
      tac 12 RETURN (Some ''0'') None None,
      tac 13 FUNCTION_END (Some ''main'') None None]"

text \<open>The tree of \<^verbatim>\<open>int x; int main() { return x; }\<close>.\<close>

definition global_x_ast :: program where
  "global_x_ast =
     [VariableDeclaration
        [\<lparr> d_name = ''x'', d_isArray = False, d_initializer = None, d_isPointer = False \<rparr>]
        [TypeSpecifier ''int''],
      FunctionDeclaration ''main'' [TypeSpecifier ''int''] False []
        (Some (BlockStatement [ReturnStatement (Some (Identifier ''x''))]))]"

text \<open>The diagnostics of a result that carry \<^verbatim>\<open>severity: "warning"\<close>.\<close>

definition warnings :: "sem_result \<Rightarrow> sem_error list" where
  "warnings r = filter (\<lambda>e. sem_severity e = Some ''warning'') (result_errors r)"

text \<open>An environment whose clock stands still and whose random tag never changes.\<close>

definition frozen_environment :: environment where
  "frozen_environment = \<lparr> clock = (\<lambda>k. 0), random_tag = (\<lambda>k. ''000000000'') \<rparr>"




text \<open>\<^verbatim>\<open>int x;\<close>: a declaration, and none of \<open>main\<close>.\<close>

definition lone_x_source :: string where
  "lone_x_source = ''int x;''"


definition lone_x_ast :: program where
  "lone_x_ast =
     [VariableDeclaration
        [\<lparr> d_name = ''x'', d_isArray = False, d_initializer = None, d_isPointer = False \<rparr>]
        [TypeSpecifier ''int'']]"










section \<open>Vocabulary of the proofs\<close>

text \<open>No instruction of the sequence is folded or simplified by a pass.\<close>

definition settled :: "js_numeric \<Rightarrow> instr list \<Rightarrow> bool" where
  "settled js code = list_all (\<lambda>i. rewrite js i = None) code"

text \<open>No adjacent pair is a dead store.\<close>

fun no_dead :: "instr list \<Rightarrow> bool" where
  "no_dead [] = True"
| "no_dead [x] = True"
| "no_dead (x # y # ys) = (\<not> dead_store x (Some y) \<and> no_dead (y # ys))"

text \<open>A fixed point of the pass.\<close>

definition stable :: "js_numeric \<Rightarrow> instr list \<Rightarrow> bool" where
  "stable js code = (optimizePass js code = (code, False))"

text \<open>States that agree except for the loop stack.\<close>

definition with_stack :: "loop_frame list \<Rightarrow> cg_state \<Rightarrow> cg_state" where
  "with_stack x s = s\<lparr> loopStack := x \<rparr>"

text \<open>The innermost frame of the loop stack (\<^verbatim>\<open>loopStack[loopStack.length - 1]\<close>).\<close>

definition innermost :: "loop_frame list \<Rightarrow> loop_frame option" where
  "innermost stack = (case stack of [] \<Rightarrow> None | _ # _ \<Rightarrow> Some (last stack))"

subsection \<open>Vocabulary for the analyzer\<close>

text \<open>The diagnostics of the first two phases: all but the two of the final checks.\<close>

fun early :: "sem_error \<Rightarrow> bool" where
  "early MissingMain = False"
| "early (UnusedVariable name) = False"
| "early _ = True"

text \<open>
  What the phases do to the state, as steps: a symbol with a name from \<open>A\<close> is entered under
  the key of its name and scope, an entry becomes initialized, an early diagnostic is
  pushed, a name is marked as used, the clock or the random generator is read.
\<close>

inductive evolves :: "string set \<Rightarrow> sem_state \<Rightarrow> sem_state \<Rightarrow> bool" for A :: "string set" where
  same: "evolves A s s"
| later: "evolves A s t \<Longrightarrow> evolves A t u \<Longrightarrow> evolves A s u"
| declared: "key = getSymbolKey (sym_name entry) (sym_scope entry) \<Longrightarrow> sym_name entry \<in> A \<Longrightarrow>
     evolves A s (set_symbol key entry s)"
| initialised: "map_of (symbolTable s) key = Some entry \<Longrightarrow>
     evolves A s (set_symbol key (entry\<lparr> sym_initialized := True \<rparr>) s)"
| reported: "early e \<Longrightarrow> evolves A s (push_sem_error e s)"
| used: "evolves A s (add_use name s)"
| clock_read: "evolves A s (read_clock s)"
| random_drawn: "evolves A s (draw_random s)"

text \<open>Every entry of a table sits under the key of its name and scope.\<close>

definition keyed :: "(string \<times> symbol) list \<Rightarrow> bool" where
  "keyed table = list_all (\<lambda>(key, entry). key = getSymbolKey (sym_name entry) (sym_scope entry)) table"

text \<open>The state after the first two phases, before the final checks.\<close>

definition examined :: "environment \<Rightarrow> program \<Rightarrow> string \<Rightarrow> sem_state" where
  "examined env ast code =
     checkTypes_list ast ''global'' [''global'']
       (buildSymbolTable_list env ast ''global'' [''global'']
          (processPreprocessorDirectives code initial_sem_state))"

text \<open>
  The names a program declares, as \<^verbatim>\<open>buildSymbolTable\<close> meets them: the functions, the
  parameters of the functions with a body, and the variables. A function without a name
  is left at once, so nothing under it counts.
\<close>

definition declarator_names :: "declarator list \<Rightarrow> string list" where
  "declarator_names ds = filter (\<lambda>name. name \<noteq> []) (map d_name ds)"

definition parameter_names :: "parameter list \<Rightarrow> string list" where
  "parameter_names ps = filter (\<lambda>name. name \<noteq> []) (map p_name ps)"

fun declared_names :: "node \<Rightarrow> string list"
  and declared_names_opt :: "node option \<Rightarrow> string list"
  and declared_names_list :: "node list \<Rightarrow> string list" where
  "declared_names (Include h sys) = []"
| "declared_names (PreprocessorDirective d) = []"
| "declared_names (Typedef ts name) = []"
| "declared_names (FunctionDeclaration functionName rt isPointerReturn params body) =
     (if functionName = [] then []
      else functionName # (case body of None \<Rightarrow> [] | Some b \<Rightarrow> parameter_names params @ declared_names b))"
| "declared_names (VariableDeclaration ds ts) = declarator_names ds"
| "declared_names (BlockStatement body) = declared_names_list body"
| "declared_names (IfStatement test consequent alternate) =
     declared_names_opt consequent @ declared_names_opt alternate"
| "declared_names (WhileStatement test body) = declared_names_opt body"
| "declared_names (ForStatement init test update body) =
     (case init of Some (InitDeclaration ds ts) \<Rightarrow> declarator_names ds | _ \<Rightarrow> []) @
     declared_names_opt body"
| "declared_names (ReturnStatement argument) = []"
| "declared_names (ExpressionStatement e) = []"
| "declared_names BreakStatement = []"
| "declared_names ContinueStatement = []"
| "declared_names_opt None = []"
| "declared_names_opt (Some n) = declared_names n"
| "declared_names_list [] = []"
| "declared_names_list (n # ns) = declared_names n @ declared_names_list ns"












text \<open>The two counters of a state.\<close>

definition counters :: "sem_state \<Rightarrow> nat \<times> nat" where
  "counters s = (clockReads s, randomDraws s)"

section \<open>Properties of the code generator\<close>

subsection \<open>Optimizer\<close>

lemma pass_fst_Cons:
  "fst (optimizePass js (x # xs)) =
     (if dead_store x (case xs of [] \<Rightarrow> None | n # _ \<Rightarrow> Some n) then fst (optimizePass js xs)
      else (case rewrite js x of Some f \<Rightarrow> f | None \<Rightarrow> x) # fst (optimizePass js xs))"
  by (simp split: prod.splits option.splits)

lemma pass_snd_Cons:
  "snd (optimizePass js (x # xs)) =
     (dead_store x (case xs of [] \<Rightarrow> None | n # _ \<Rightarrow> Some n) \<or> rewrite js x \<noteq> None \<or> snd (optimizePass js xs))"
  by (simp split: prod.splits option.splits)

lemma optimizePass_length: "length (fst (optimizePass js code)) \<le> length code"
  by (induction code) (auto simp: pass_fst_Cons simp del: optimizePass.simps(2))

lemma optimizeLoop_stop:
  "\<not> (changed \<and> passes < maxPasses) \<Longrightarrow> optimizeLoop js passes changed code = (code, passes)"
  by (subst optimizeLoop.simps) auto

lemma optimizeLoop_step:
  "changed \<Longrightarrow> passes < maxPasses \<Longrightarrow>
   optimizeLoop js passes changed code =
     optimizeLoop js (passes + 1) (snd (optimizePass js code)) (fst (optimizePass js code))"
  by (subst optimizeLoop.simps) (simp split: prod.splits)

lemma optimizeLoop_length: "length (fst (optimizeLoop js passes changed code)) \<le> length code"
proof (induction js passes changed code rule: optimizeLoop.induct)
  case (1 js passes changed optimized)
  show ?case
  proof (cases "changed \<and> passes < maxPasses")
    case True
    have "length (fst (optimizeLoop js (passes + 1) (snd (optimizePass js optimized)) (fst (optimizePass js optimized))))
            \<le> length (fst (optimizePass js optimized))"
      using "1.IH" [of "(fst (optimizePass js optimized), snd (optimizePass js optimized))" "fst (optimizePass js optimized)" "snd (optimizePass js optimized)"] True by simp
    then show ?thesis
      using True optimizePass_length [of js optimized] by (simp add: optimizeLoop_step)
  next
    case False
    then show ?thesis by (simp add: optimizeLoop_stop)
  qed
qed

lemma rewrite_ASSIGN: "operation i = ASSIGN \<Longrightarrow> rewrite js i = None"
  by (simp add: rewrite_def)

lemma rewrite_result: "rewrite js i = Some i' \<Longrightarrow> operation i' = ASSIGN \<and> result i' = result i"
  by (auto simp: rewrite_def split: if_splits)

lemma settled_pass: "settled js (fst (optimizePass js code))"
proof (induction code)
  case Nil then show ?case by (simp add: settled_def)
next
  case (Cons x xs)
  then show ?case
    by (auto simp: pass_fst_Cons settled_def simp del: optimizePass.simps(2)
             split: option.splits dest: rewrite_result intro: rewrite_ASSIGN)
qed

lemma pass_fixed: "settled js code \<Longrightarrow> no_dead code \<Longrightarrow> optimizePass js code = (code, False)"
proof (induction code rule: no_dead.induct)
  case 1 then show ?case by simp
next
  case (2 x) then show ?case by (simp add: settled_def dead_store_def)
next
  case (3 x y ys)
  then have "optimizePass js (y # ys) = (y # ys, False)" by (simp add: settled_def)
  moreover have "rewrite js x = None" "\<not> dead_store x (Some y)" using 3 by (simp_all add: settled_def)
  ultimately show ?case by simp
qed

lemma dead_store_hd:
  "settled js (y # ys) \<Longrightarrow> fst (optimizePass js (y # ys)) = z # zs \<Longrightarrow> dead_store x (Some z) = dead_store x (Some y)"
proof (induction ys arbitrary: y z zs)
  case Nil
  then show ?case by (auto simp: pass_fst_Cons settled_def dead_store_def simp del: optimizePass.simps(2))
next
  case (Cons a ys)
  have ry: "rewrite js y = None" and sa: "settled js (a # ys)" using Cons.prems(1) by (simp_all add: settled_def)
  show ?case
  proof (cases "dead_store y (Some a)")
    case True
    then have "fst (optimizePass js (y # a # ys)) = fst (optimizePass js (a # ys))"
      by (simp add: pass_fst_Cons del: optimizePass.simps(2))
    then have "dead_store x (Some z) = dead_store x (Some a)"
      using Cons.IH [of a z zs] Cons.prems(2) sa by simp
    moreover have "dead_store x (Some a) = dead_store x (Some y)"
      using True by (auto simp: dead_store_def)
    ultimately show ?thesis by simp
  next
    case False
    then have "fst (optimizePass js (y # a # ys)) = y # fst (optimizePass js (a # ys))"
      using ry by (simp add: pass_fst_Cons del: optimizePass.simps(2))
    then show ?thesis using Cons.prems(2) by simp
  qed
qed

lemma no_dead_pass: "settled js code \<Longrightarrow> no_dead (fst (optimizePass js code))"
proof (induction code)
  case Nil then show ?case by simp
next
  case (Cons x xs)
  then have sx: "settled js xs" and rx: "rewrite js x = None" by (simp_all add: settled_def)
  have IH: "no_dead (fst (optimizePass js xs))" using Cons.IH sx by simp
  show ?case
  proof (cases xs)
    case Nil then show ?thesis using rx by (simp add: dead_store_def)
  next
    case (Cons y ys)
    show ?thesis
    proof (cases "dead_store x (Some y)")
      case True
      then show ?thesis using IH Cons by (simp add: pass_fst_Cons del: optimizePass.simps(2))
    next
      case False
      then have e: "fst (optimizePass js (x # xs)) = x # fst (optimizePass js xs)"
        using rx Cons by (simp add: pass_fst_Cons del: optimizePass.simps(2))
      show ?thesis
      proof (cases "fst (optimizePass js xs)")
        case Nil then show ?thesis using e by simp
      next
        case (Cons z zs)
        then have "dead_store x (Some z) = dead_store x (Some y)"
          using dead_store_hd [of js y ys z zs x] sx \<open>xs = y # ys\<close> by simp
        then show ?thesis using e Cons IH False by simp
      qed
    qed
  qed
qed

lemma pass_unchanged: "snd (optimizePass js code) = False \<Longrightarrow> fst (optimizePass js code) = code"
  by (induction code) (auto simp: pass_fst_Cons pass_snd_Cons simp del: optimizePass.simps(2))

lemma stable_after_two: "stable js (fst (optimizePass js (fst (optimizePass js code))))"
  unfolding stable_def
  by (rule pass_fixed) (simp_all add: settled_pass no_dead_pass)

lemma unchanged_stable: "optimizePass js code = (new, False) \<Longrightarrow> stable js new"
  using pass_unchanged [of js code] by (simp add: stable_def)

lemma loop_stable:
  "stable js code \<Longrightarrow> fst (optimizeLoop js passes changed code) = code"
proof (cases "changed \<and> passes < maxPasses")
  case True
  assume "stable js code"
  then show ?thesis using True by (simp add: optimizeLoop_step optimizeLoop_stop stable_def)
next
  case False
  then show ?thesis by (simp add: optimizeLoop_stop)
qed

lemma loop_result_stable:
  "passes + 3 \<le> maxPasses \<Longrightarrow> stable js (fst (optimizeLoop js passes True code))"
proof -
  assume b: "passes + 3 \<le> maxPasses"
  let ?c1 = "fst (optimizePass js code)" and ?ch1 = "snd (optimizePass js code)"
  let ?c2 = "fst (optimizePass js ?c1)" and ?ch2 = "snd (optimizePass js ?c1)"
  have e1: "optimizeLoop js passes True code = optimizeLoop js (passes + 1) ?ch1 ?c1"
    using b by (simp add: optimizeLoop_step)
  show ?thesis
  proof (cases ?ch1)
    case False
    then have "stable js ?c1" using unchanged_stable [of js code ?c1] by (simp add: prod_eq_iff)
    then show ?thesis using e1 False by (simp add: optimizeLoop_stop)
  next
    case True
    then have e2: "optimizeLoop js (passes + 1) ?ch1 ?c1 = optimizeLoop js (passes + 2) ?ch2 ?c2"
      using b optimizeLoop_step [of ?ch1 "passes + 1" js ?c1] by simp
    have "stable js ?c2" by (rule stable_after_two)
    then show ?thesis using e1 e2 by (simp add: loop_stable)
  qed
qed

lemma optimizeCode_idem: "optimizeCode js (optimizeCode js code) = optimizeCode js code"
  unfolding optimizeCode_def
  using loop_result_stable [of 0 js code] by (simp add: loop_stable maxPasses_def)

lemma loop_stable_passes:
  "stable js code \<Longrightarrow> snd (optimizeLoop js passes changed code) \<le> passes + 1"
proof (cases "changed \<and> passes < maxPasses")
  case True
  assume "stable js code"
  then show ?thesis using True by (simp add: optimizeLoop_step optimizeLoop_stop stable_def)
next
  case False
  then show ?thesis by (simp add: optimizeLoop_stop)
qed

lemma loop_passes_bound:
  "passes + 3 \<le> maxPasses \<Longrightarrow>
   passes < snd (optimizeLoop js passes True code) \<and> snd (optimizeLoop js passes True code) \<le> passes + 3"
proof -
  assume b: "passes + 3 \<le> maxPasses"
  let ?c1 = "fst (optimizePass js code)" and ?ch1 = "snd (optimizePass js code)"
  let ?c2 = "fst (optimizePass js ?c1)" and ?ch2 = "snd (optimizePass js ?c1)"
  have e1: "optimizeLoop js passes True code = optimizeLoop js (passes + 1) ?ch1 ?c1"
    using b by (simp add: optimizeLoop_step)
  show ?thesis
  proof (cases ?ch1)
    case False
    then show ?thesis using e1 by (simp add: optimizeLoop_stop)
  next
    case True
    then have e2: "optimizeLoop js (passes + 1) ?ch1 ?c1 = optimizeLoop js (passes + 2) ?ch2 ?c2"
      using b optimizeLoop_step [of ?ch1 "passes + 1" js ?c1] by simp
    have st: "stable js ?c2" by (rule stable_after_two)
    have up: "snd (optimizeLoop js (passes + 2) ?ch2 ?c2) \<le> passes + 2 + 1"
      using st by (rule loop_stable_passes)
    have low: "passes + 2 \<le> snd (optimizeLoop js (passes + 2) ?ch2 ?c2)"
    proof (cases "?ch2")
      case True
      then show ?thesis
        using b st optimizeLoop_step [of ?ch2 "passes + 2" js ?c2]
        by (simp add: optimizeLoop_stop stable_def)
    next
      case False
      then show ?thesis by (simp add: optimizeLoop_stop)
    qed
    show ?thesis using e1 e2 up low by simp
  qed
qed

subsection \<open>Loop stack against lexical nesting\<close>

lemma with_stack_simps [simp]:
  "with_stack x (with_stack y s) = with_stack x s"
  "loopStack (with_stack x s) = x"
  "with_stack (loopStack s) s = s"
  "pushLoop f s = with_stack (loopStack s @ [f]) s"
  "popLoop s = with_stack (butlast (loopStack s)) s"
  "emit opr a b c (with_stack x s) = with_stack x (emit opr a b c s)"
  "emitLabel l (with_stack x s) = with_stack x (emitLabel l s)"
  "generateTempVar (with_stack x s) = (fst (generateTempVar s), with_stack x (snd (generateTempVar s)))"
  "generateLabel p (with_stack x s) = (fst (generateLabel p s), with_stack x (snd (generateLabel p s)))"
  "(with_stack x s)\<lparr> scopeLevel := lv \<rparr> = with_stack x (s\<lparr> scopeLevel := lv \<rparr>)"
  "(with_stack x s)\<lparr> errors := es \<rparr> = with_stack x (s\<lparr> errors := es \<rparr>)"
  "(with_stack x s)\<lparr> stringCounter := n, stringLiterals := sl \<rparr> = with_stack x (s\<lparr> stringCounter := n, stringLiterals := sl \<rparr>)"
  "scopeLevel (with_stack x s) = scopeLevel s"
  "errors (with_stack x s) = errors s"
  "stringCounter (with_stack x s) = stringCounter s"
  "stringLiterals (with_stack x s) = stringLiterals s"
  by (simp_all add: with_stack_def pushLoop_def popLoop_def emit_def emitLabel_def
        generateTempVar_def generateLabel_def)

lemma loopStack_primitives [simp]:
  "loopStack (emit opr a b c s) = loopStack s"
  "loopStack (emitLabel l s) = loopStack s"
  "loopStack (snd (generateLabel p s)) = loopStack s"
  "loopStack (snd (generateTempVar s)) = loopStack s"
  "loopStack (s\<lparr> scopeLevel := lv \<rparr>) = loopStack s"
  by (simp_all add: emit_def emitLabel_def generateLabel_def generateTempVar_def)

lemma generateExpression_ws:
  "generateExpression e (with_stack x s) = (fst (generateExpression e s), with_stack x (snd (generateExpression e s)))"
  "generateArguments es i (with_stack x s) = with_stack x (generateArguments es i s)"
proof (induction e s and es i s arbitrary: x and x rule: generateExpression_generateArguments.induct)
  case (3 opr l r s)
  note IH1 = "3.IH"(1) and IH2 = "3.IH"(2) [OF refl prod.collapse]
  show ?case by (simp add: split_beta Let_def IH1 IH2 split: option.splits)
next
  case (4 opr a prefix s)
  then show ?case by (simp add: split_beta Let_def)
next
  case (5 opr l r s)
  then show ?case by (simp add: split_beta Let_def)
next
  case (6 f args s)
  then show ?case by (simp add: split_beta Let_def)
next
  case (8 arg args index s)
  note IH1 = "8.IH"(1) and IH2 = "8.IH"(2) [OF refl prod.collapse, simplified]
  show ?case by (simp add: split_beta Let_def IH1 IH2)
qed (simp_all add: Let_def)

lemma generateExpression_opt_ws:
  "generateExpression_opt e (with_stack x s) = (fst (generateExpression_opt e s), with_stack x (snd (generateExpression_opt e s)))"
  by (cases e) (simp_all add: generateExpression_ws)

lemma generateVariableDeclaration_ws:
  "generateVariableDeclaration ds (with_stack x s) = with_stack x (generateVariableDeclaration ds s)"
  by (induction ds s arbitrary: x rule: generateVariableDeclaration.induct)
     (simp_all add: generateExpression_ws split_beta Let_def split: option.splits)

lemma generateForInit_ws:
  "generateForInit init (with_stack x s) = with_stack x (generateForInit init s)"
  by (induction init s rule: generateForInit.induct)
     (simp_all add: generateExpression_ws generateVariableDeclaration_ws)

lemma generateForTest_ws:
  "generateForTest test endL (with_stack x s) = with_stack x (generateForTest test endL s)"
  by (cases test) (simp_all add: generateExpression_ws split_beta)

lemma emitParamDecls_ws:
  "emitParamDecls ps (with_stack x s) = with_stack x (emitParamDecls ps s)"
  by (induction ps arbitrary: s) simp_all

lemmas ws_commute = generateExpression_ws generateExpression_opt_ws generateVariableDeclaration_ws
  generateForInit_ws generateForTest_ws

lemma stack_of_ws: "f (with_stack (loopStack s) s) = with_stack (loopStack s) (f s) \<Longrightarrow> loopStack (f s) = loopStack s"
proof -
  assume "f (with_stack (loopStack s) s) = with_stack (loopStack s) (f s)"
  then have "f s = with_stack (loopStack s) (f s)" by simp
  then have "loopStack (f s) = loopStack (with_stack (loopStack s) (f s))" by simp
  then show ?thesis by simp
qed

lemma loopStack_generate [simp]:
  "loopStack (snd (generateExpression e s)) = loopStack s"
  "loopStack (snd (generateExpression_opt e' s)) = loopStack s"
  "loopStack (generateVariableDeclaration ds s) = loopStack s"
  "loopStack (generateForInit init s) = loopStack s"
  "loopStack (generateForTest test endL s) = loopStack s"
  "loopStack (emitParamDecls ps s) = loopStack s"
  using stack_of_ws [of "\<lambda>s. snd (generateExpression e s)" s]
        stack_of_ws [of "\<lambda>s. snd (generateExpression_opt e' s)" s]
        stack_of_ws [of "generateVariableDeclaration ds" s]
        stack_of_ws [of "generateForInit init" s]
        stack_of_ws [of "generateForTest test endL" s]
        stack_of_ws [of "emitParamDecls ps" s]
  by (simp_all only: ws_commute emitParamDecls_ws snd_conv)


lemma lowerStatements_ws_aux:
  assumes "\<And>n enc s x. n \<in> set body \<Longrightarrow>
             lowerStatement enc n (with_stack x s) = with_stack x (lowerStatement enc n s)"
  shows "lowerStatements enc body (with_stack x s) = with_stack x (lowerStatements enc body s)"
  using assms
proof (induction body arbitrary: s)
  case Nil
  then show ?case by simp
next
  case (Cons n ns)
  have step: "lowerStatement enc n (with_stack x s) = with_stack x (lowerStatement enc n s)"
    using Cons.prems by simp
  have rest: "\<And>s'. lowerStatements enc ns (with_stack x s') = with_stack x (lowerStatements enc ns s')"
    using Cons.IH Cons.prems by simp
  have head: "(case n of VariableDeclaration ds ts \<Rightarrow> generateVariableDeclaration ds (with_stack x s)
                | _ \<Rightarrow> lowerStatement enc n (with_stack x s)) =
              with_stack x (case n of VariableDeclaration ds ts \<Rightarrow> generateVariableDeclaration ds s
                | _ \<Rightarrow> lowerStatement enc n s)"
    by (simp only: step ws_commute split: node.splits) simp
  show ?case
    by (simp only: lowerStatements.simps head rest)
qed

lemma lowerStatement_opt_ws_aux:
  assumes "\<And>n enc s x. n \<in> set_option body \<Longrightarrow>
             lowerStatement enc n (with_stack x s) = with_stack x (lowerStatement enc n s)"
  shows "lowerStatement_opt enc body (with_stack x s) = with_stack x (lowerStatement_opt enc body s)"
  using assms by (cases body) simp_all

lemma lowerStatement_ws:
  "lowerStatement enc st (with_stack x s) = with_stack x (lowerStatement enc st s)"
proof (induction st arbitrary: enc s x)
  case (BlockStatement body)
  then show ?case by (simp add: lowerStatements_ws_aux Let_def)
next
  case (IfStatement test consequent alternate)
  have c: "\<And>enc s x. lowerStatement_opt enc consequent (with_stack x s) = with_stack x (lowerStatement_opt enc consequent s)"
    by (rule lowerStatement_opt_ws_aux) (rule IfStatement.IH(1))
  show ?case
  proof (cases alternate)
    case None
    then show ?thesis by (simp add: ws_commute c split_beta Let_def)
  next
    case (Some a)
    have a: "\<And>enc s x. lowerStatement enc a (with_stack x s) = with_stack x (lowerStatement enc a s)"
      using IfStatement.IH(2) Some by simp
    show ?thesis using Some by (simp add: ws_commute c a split_beta Let_def)
  qed
next
  case (WhileStatement test body)
  have b: "\<And>enc s x. lowerStatement_opt enc body (with_stack x s) = with_stack x (lowerStatement_opt enc body s)"
    by (rule lowerStatement_opt_ws_aux) (rule WhileStatement.IH)
  show ?case by (simp add: ws_commute b split_beta Let_def)
next
  case (ForStatement init test update body)
  have b: "\<And>enc s x. lowerStatement_opt enc body (with_stack x s) = with_stack x (lowerStatement_opt enc body s)"
    by (rule lowerStatement_opt_ws_aux) (rule ForStatement.IH)
  show ?case by (simp add: ws_commute b split_beta Let_def)
next
  case (ReturnStatement argument)
  then show ?case by (simp add: ws_commute split_beta Let_def split: option.splits)
next
  case (ExpressionStatement e)
  then show ?case by (simp add: ws_commute)
next
  case BreakStatement
  then show ?case by (simp split: option.splits)
next
  case ContinueStatement
  then show ?case by (simp split: option.splits)
qed simp_all

lemma lowerStatement_opt_ws:
  "lowerStatement_opt enc body (with_stack x s) = with_stack x (lowerStatement_opt enc body s)"
  by (cases body) (simp_all add: lowerStatement_ws)

lemma loopStack_lower [simp]:
  "loopStack (lowerStatement enc st s) = loopStack s"
  "loopStack (lowerStatement_opt enc body s) = loopStack s"
  using stack_of_ws [of "lowerStatement enc st" s] stack_of_ws [of "lowerStatement_opt enc body" s]
  by (simp_all only: lowerStatement_ws lowerStatement_opt_ws)

lemma innermost_push [simp]: "innermost (stack @ [f]) = Some f"
  by (cases stack) (simp_all add: innermost_def)

lemma with_stack_same: "loopStack t = l \<Longrightarrow> with_stack l t = t"
  by auto

lemma generateStatements_aux:
  assumes "\<And>n s. n \<in> set body \<Longrightarrow> generateStatement n s = lowerStatement (innermost (loopStack s)) n s"
  shows "generateStatements body s = lowerStatements (innermost (loopStack s)) body s"
  using assms
proof (induction body arbitrary: s)
  case Nil
  then show ?case by simp
next
  case (Cons n ns)
  let ?enc = "innermost (loopStack s)"
  have step: "generateStatement n s = lowerStatement ?enc n s"
    using Cons.prems by simp
  have head: "(case n of VariableDeclaration ds ts \<Rightarrow> generateVariableDeclaration ds s
                | _ \<Rightarrow> generateStatement n s) =
              (case n of VariableDeclaration ds ts \<Rightarrow> generateVariableDeclaration ds s
                | _ \<Rightarrow> lowerStatement ?enc n s)"
    by (simp only: step split: node.splits)
  have keep: "loopStack (case n of VariableDeclaration ds ts \<Rightarrow> generateVariableDeclaration ds s
                | _ \<Rightarrow> lowerStatement ?enc n s) = loopStack s"
    by (simp only: loopStack_lower loopStack_generate split: node.splits) simp
  have rest: "\<And>s'. generateStatements ns s' = lowerStatements (innermost (loopStack s')) ns s'"
    using Cons.IH Cons.prems by simp
  show ?case
    by (simp only: generateStatements.simps lowerStatements.simps head rest keep)
qed

lemma generateStatement_opt_aux:
  assumes "\<And>n s. n \<in> set_option body \<Longrightarrow> generateStatement n s = lowerStatement (innermost (loopStack s)) n s"
  shows "generateStatement_opt body s = lowerStatement_opt (innermost (loopStack s)) body s"
  using assms by (cases body) simp_all

lemma generateStatement_lower:
  "generateStatement st s = lowerStatement (innermost (loopStack s)) st s"
proof (induction st arbitrary: s)
  case (BlockStatement body)
  then show ?case by (simp add: generateStatements_aux Let_def)
next
  case (IfStatement test consequent alternate)
  have c: "\<And>s. generateStatement_opt consequent s = lowerStatement_opt (innermost (loopStack s)) consequent s"
    by (rule generateStatement_opt_aux) (rule IfStatement.IH(1))
  show ?case
  proof (cases alternate)
    case None
    then show ?thesis by (simp add: c split_beta Let_def)
  next
    case (Some a)
    have a: "\<And>s. generateStatement a s = lowerStatement (innermost (loopStack s)) a s"
      using IfStatement.IH(2) Some by simp
    show ?thesis using Some by (simp add: c a split_beta Let_def)
  qed
next
  case (WhileStatement test body)
  have b: "\<And>s. generateStatement_opt body s = lowerStatement_opt (innermost (loopStack s)) body s"
    by (rule generateStatement_opt_aux) (rule WhileStatement.IH)
  show ?case
    by (simp add: ws_commute lowerStatement_opt_ws b split_beta Let_def with_stack_same)
next
  case (ForStatement init test update body)
  have b: "\<And>s. generateStatement_opt body s = lowerStatement_opt (innermost (loopStack s)) body s"
    by (rule generateStatement_opt_aux) (rule ForStatement.IH)
  show ?case
    by (simp add: ws_commute lowerStatement_opt_ws b split_beta Let_def with_stack_same)
next
  case BreakStatement
  then show ?case by (simp add: innermost_def split: list.splits)
next
  case ContinueStatement
  then show ?case by (simp add: innermost_def split: list.splits)
qed simp_all

lemma generateStatement_opt_lower:
  "generateStatement_opt body s = lowerStatement_opt (innermost (loopStack s)) body s"
  by (cases body) (simp_all add: generateStatement_lower)

lemma innermost_Nil [simp]: "innermost [] = None"
  by (simp add: innermost_def)

lemma generateFunctionDeclaration_lower:
  "loopStack s = [] \<Longrightarrow>
   generateFunctionDeclaration name ps body s = lowerFunctionDeclaration name ps body s"
  by (simp add: generateFunctionDeclaration_def lowerFunctionDeclaration_def
        generateStatement_opt_lower Let_def)

lemma loopStack_lowerFunctionDeclaration [simp]:
  "loopStack (lowerFunctionDeclaration name ps body s) = loopStack s"
  by (simp add: lowerFunctionDeclaration_def Let_def)

lemma generateCode_lower: "loopStack s = [] \<Longrightarrow> generateCode ast s = lowerCode ast s"
proof (induction ast arbitrary: s)
  case Nil
  then show ?case by simp
next
  case (Cons n ns)
  have head: "(case n of FunctionDeclaration name rt ptr ps body \<Rightarrow> generateFunctionDeclaration name ps body s
                | VariableDeclaration ds ts \<Rightarrow> generateVariableDeclaration ds s
                | _ \<Rightarrow> generateStatement n s) =
              (case n of FunctionDeclaration name rt ptr ps body \<Rightarrow> lowerFunctionDeclaration name ps body s
                | VariableDeclaration ds ts \<Rightarrow> generateVariableDeclaration ds s
                | _ \<Rightarrow> lowerStatement None n s)"
    using Cons.prems generateStatement_lower [of n s]
    by (simp only: generateFunctionDeclaration_lower innermost_Nil split: node.splits)
  have keep: "loopStack (case n of FunctionDeclaration name rt ptr ps body \<Rightarrow> lowerFunctionDeclaration name ps body s
                | VariableDeclaration ds ts \<Rightarrow> generateVariableDeclaration ds s
                | _ \<Rightarrow> lowerStatement None n s) = []"
    using Cons.prems
    by (simp only: loopStack_lower loopStack_generate loopStack_lowerFunctionDeclaration split: node.splits) simp
  show ?case
    using Cons.IH [OF keep] by (simp only: generateCode.simps lowerCode.simps head)
qed

lemma generated_lowered: "generated ast = lowered ast"
  unfolding generated_def lowered_def
  by (rule generateCode_lower) (simp add: init_state_def emit_def)

section \<open>Properties of the analyzer\<close>

subsection \<open>The phases as sequences of steps\<close>

lemma resolve_in_Some:
  "resolve_in table name scopes = Some (key, entry) \<Longrightarrow> map_of table key = Some entry"
  by (induction scopes) (auto split: option.splits)

lemma resolveVariable_Some:
  "resolveVariable table name scope scopeStack = Some (key, entry) \<Longrightarrow> map_of table key = Some entry"
  unfolding resolveVariable_def
  by (cases "name = []") (auto dest: resolve_in_Some simp del: resolve_in.simps)

lemma evolves_markIdentifier: "evolves A s (markIdentifier name scope scopeStack s)"
proof (cases "resolveVariable (symbolTable s) name scope scopeStack")
  case None
  then show ?thesis by (simp add: markIdentifier_def evolves.same)
next
  case (Some found)
  obtain key variable where f: "found = (key, variable)" by (cases found)
  have a: "evolves A s (add_use name s)" by (rule evolves.used)
  have b: "evolves A (add_use name s) (push_sem_error (UsedBeforeInitialization name) (add_use name s))"
    by (rule evolves.reported) simp
  show ?thesis
    using Some f a evolves.later [OF a b] by (simp add: markIdentifier_def Let_def)
qed

lemma evolves_markVariablesAsUsed:
  "evolves A s (markVariablesAsUsed e scope scopeStack s)"
  "evolves A s (markAll es scope scopeStack s)"
proof (induction e scope scopeStack s and es scope scopeStack s
       rule: markVariablesAsUsed_markAll.induct)
  case (1 name scope scopeStack s)
  then show ?case by (simp add: evolves_markIdentifier)
next
  case (3 opr l r scope scopeStack s)
  then show ?case using evolves.later by simp
next
  case (8 arg args scope scopeStack s)
  then show ?case using evolves.later by simp
qed (simp_all add: evolves.same)

lemma evolves_markVariablesAsUsed_opt: "evolves A s (markVariablesAsUsed_opt e scope scopeStack s)"
  by (cases e) (simp_all add: evolves.same evolves_markVariablesAsUsed)

lemma evolves_getExpressionType: "evolves A s (snd (getExpressionType e scope scopeStack s))"
proof (induction e arbitrary: s)
  case (Identifier name)
  then show ?case by (auto simp: evolves.same evolves.used split: option.splits)
next
  case (BinaryExpression opr l r)
  have "evolves A s (snd (getExpressionType r scope scopeStack (snd (getExpressionType l scope scopeStack s))))"
    by (rule evolves.later [OF BinaryExpression.IH(1) BinaryExpression.IH(2)])
  then show ?case by (simp add: split_beta Let_def)
next
  case (UnaryExpression opr a prefix)
  then show ?case by (simp add: split_beta Let_def)
next
  case (CallExpression funcName args)
  then show ?case by (auto simp: evolves.same split: option.splits)
qed (simp_all add: evolves.same)

lemma evolves_markInitialized: "evolves A s (markInitialized left scope scopeStack s)"
  by (auto simp: markInitialized_def evolves.same split: expr.splits option.splits
           intro: evolves.initialised dest: resolveVariable_Some)

lemma evolves_markPrintfArguments: "evolves A s (markPrintfArguments args scope scopeStack s)"
proof (induction args arbitrary: s)
  case Nil
  then show ?case by (simp add: evolves.same)
next
  case (Cons arg args)
  have a: "evolves A s (case arg of Identifier name \<Rightarrow> add_use name s | _ \<Rightarrow> s)"
    by (cases arg) (simp_all add: evolves.same evolves.used)
  show ?case
    using evolves.later [OF evolves.later [OF a evolves_markVariablesAsUsed(1)] Cons.IH]
    by simp
qed

lemma evolves_buildSymbolTable_expr:
  "evolves A s (buildSymbolTable_expr e scope scopeStack s)"
  "evolves A s (buildArguments es scope scopeStack s)"
proof (induction e scope scopeStack s and es scope scopeStack s
       rule: buildSymbolTable_expr_buildArguments.induct)
  case (3 opr l r scope scopeStack s)
  show ?case
    using evolves.later [OF evolves.later [OF evolves.later [OF "3.IH"(1) evolves_markVariablesAsUsed(1)] "3.IH"(2)]
            evolves_markVariablesAsUsed(1)]
    by simp
next
  case (4 opr a prefix scope scopeStack s)
  show ?case using evolves.later [OF "4.IH" evolves_markVariablesAsUsed(1)] by simp
next
  case (5 opr l r scope scopeStack s)
  show ?case
    using evolves.later [OF evolves.later [OF evolves.later [OF "5.IH"(1) "5.IH"(2)] evolves_markVariablesAsUsed(1)]
            evolves_markInitialized]
    by simp
next
  case (6 funcName args scope scopeStack s)
  have a: "evolves A s (if funcName \<in> set [''printf'', ''fprintf'', ''sprintf'', ''scanf'']
                      then markPrintfArguments args scope scopeStack s else s)"
    by (simp add: evolves_markPrintfArguments evolves.same)
  show ?case using evolves.later [OF a "6.IH"] by simp
next
  case (8 arg args scope scopeStack s)
  show ?case
    using evolves.later [OF evolves.later [OF "8.IH"(1) evolves_markVariablesAsUsed(1)] "8.IH"(2)]
    by simp
qed (simp_all add: evolves.same)

lemma evolves_buildAndMark: "evolves A s (buildAndMark e scope scopeStack s)"
  unfolding buildAndMark_def
  by (rule evolves.later [OF evolves_buildSymbolTable_expr(1) evolves_markVariablesAsUsed(1)])

lemma evolves_declareVariables:
  "set (declarator_names ds) \<subseteq> A \<Longrightarrow> evolves A s (declareVariables ds varType scope scopeStack s)"
proof (induction ds arbitrary: s)
  case Nil
  then show ?case by (simp add: evolves.same)
next
  case (Cons d ds)
  have n: "d_name d \<noteq> [] \<Longrightarrow> d_name d \<in> A"
    using Cons.prems by (auto simp: declarator_names_def)
  have rest: "\<And>t. evolves A t (declareVariables ds varType scope scopeStack t)"
    using Cons.IH Cons.prems by (auto simp: declarator_names_def split: if_splits)
  have d: "\<And>entry. d_name d \<noteq> [] \<Longrightarrow> sym_name entry = d_name d \<Longrightarrow> sym_scope entry = scope \<Longrightarrow>
              evolves A s (set_symbol (getSymbolKey (d_name d) scope) entry s)"
    using n by (auto intro: evolves.declared)
  have b: "\<And>entry init. d_name d \<noteq> [] \<Longrightarrow> sym_name entry = d_name d \<Longrightarrow> sym_scope entry = scope \<Longrightarrow>
              evolves A s (buildAndMark init scope scopeStack
                           (set_symbol (getSymbolKey (d_name d) scope) entry s))"
    using evolves.later [OF d evolves_buildAndMark] by simp
  show ?case
    by (simp only: declareVariables.simps, rule evolves.later [OF _ rest])
       (auto simp: Let_def evolves.same plain_symbol_def intro: evolves.reported d b
             split: option.splits)
qed

lemma evolves_declareParameters:
  "set (parameter_names ps) \<subseteq> A \<Longrightarrow> evolves A s (declareParameters ps functionScope s)"
proof (induction ps arbitrary: s)
  case Nil
  then show ?case by (simp add: evolves.same)
next
  case (Cons p ps)
  have n: "p_name p \<noteq> [] \<Longrightarrow> p_name p \<in> A"
    using Cons.prems by (auto simp: parameter_names_def)
  have rest: "\<And>t. evolves A t (declareParameters ps functionScope t)"
    using Cons.IH Cons.prems by (auto simp: parameter_names_def split: if_splits)
  have "evolves A s (if p_name p = [] then s
        else set_symbol (getSymbolKey (p_name p) functionScope)
               ((plain_symbol (p_name p) (parameter_type p) functionScope True)
                  \<lparr> sym_isParameter := True \<rparr>) s)"
    using n by (auto simp: evolves.same plain_symbol_def intro!: evolves.declared)
  then show ?case using evolves.later [OF _ rest] by simp
qed

lemma evolves_set_symbols:
  "keyed entries \<Longrightarrow> sym_name ` snd ` set entries \<subseteq> A \<Longrightarrow> evolves A s (set_symbols entries s)"
proof (induction entries arbitrary: s)
  case Nil
  then show ?case by (simp add: evolves.same)
next
  case (Cons a entries)
  obtain key entry where a: "a = (key, entry)" by (cases a)
  have "evolves A s (set_symbol key entry s)"
    using Cons.prems a by (auto simp: keyed_def intro: evolves.declared)
  moreover have "keyed entries" using Cons.prems by (simp add: keyed_def)
  moreover have "sym_name ` snd ` set entries \<subseteq> A" using Cons.prems by auto
  ultimately show ?case using a evolves.later [OF _ Cons.IH] by simp
qed


lemma keyed_includes: "keyed (map include_symbol headers)"
  by (induction headers) (simp_all add: keyed_def include_symbol_def plain_symbol_def)

lemma keyed_macros: "keyed (map macro_symbol macros)"
  by (induction macros) (simp_all add: keyed_def macro_symbol_def plain_symbol_def)




lemma evolves_list_aux:
  assumes "\<And>n scope scopeStack s. n \<in> set body \<Longrightarrow> set (declared_names n) \<subseteq> A \<Longrightarrow>
             evolves A s (buildSymbolTable env n scope scopeStack s)"
    and "set (declared_names_list body) \<subseteq> A"
  shows "evolves A s (buildSymbolTable_list env body scope scopeStack s)"
  using assms
proof (induction body arbitrary: s)
  case Nil
  then show ?case by (simp add: evolves.same)
next
  case (Cons n ns)
  have "evolves A s (buildSymbolTable env n scope scopeStack s)" using Cons.prems by simp
  moreover have "\<And>t. evolves A t (buildSymbolTable_list env ns scope scopeStack t)"
    using Cons.IH Cons.prems by simp
  ultimately show ?case using evolves.later by simp
qed

lemma evolves_opt_aux:
  assumes "\<And>n scope scopeStack s. n \<in> set_option body \<Longrightarrow> set (declared_names n) \<subseteq> A \<Longrightarrow>
             evolves A s (buildSymbolTable env n scope scopeStack s)"
    and "set (declared_names_opt body) \<subseteq> A"
  shows "evolves A s (buildSymbolTable_opt env body scope scopeStack s)"
  using assms by (cases body) (simp_all add: evolves.same)

lemma evolves_buildSymbolTable:
  "set (declared_names n) \<subseteq> A \<Longrightarrow> evolves A s (buildSymbolTable env n scope scopeStack s)"
proof (induction n arbitrary: scope scopeStack s)
  case (Typedef ts name)
  then show ?case by (simp add: evolves_markIdentifier)
next
  case (FunctionDeclaration functionName rt isPointerReturn params body)
  define s1 where "s1 = set_symbol (getSymbolKey functionName ''global'')
                      (function_symbol functionName rt isPointerReturn params (body \<noteq> None)) s"
  show ?case
  proof (cases "functionName = []")
    case True
    then show ?thesis by (auto intro: evolves.reported)
  next
    case named: False
    then have "functionName \<in> A" using FunctionDeclaration.prems by simp
    then have e1: "evolves A s s1"
      unfolding s1_def
      by (intro evolves.declared) (simp_all add: function_symbol_def plain_symbol_def Let_def)
    show ?thesis
    proof (cases body)
      case None
      then show ?thesis using e1 named by (simp add: s1_def Let_def)
    next
      case (Some b)
      have p: "set (parameter_names params) \<subseteq> A" and d: "set (declared_names b) \<subseteq> A"
        using FunctionDeclaration.prems named Some by simp_all
      have "evolves A s1 (buildSymbolTable env b functionName (scopeStack @ [functionName])
                          (declareParameters params functionName s1))"
        using evolves.later [OF evolves_declareParameters [OF p] FunctionDeclaration.IH [OF _ d]] Some
        by simp
      then show ?thesis
        using Some named evolves.later [OF e1] by (simp add: s1_def Let_def)
    qed
  qed
next
  case (VariableDeclaration ds ts)
  then show ?case by (simp add: evolves_declareVariables)
next
  case (BlockStatement body)
  have "evolves A s (draw_random (read_clock s))"
    by (rule evolves.later [OF evolves.clock_read evolves.random_drawn])
  moreover have "set (declared_names_list body) \<subseteq> A" using BlockStatement.prems by simp
  ultimately show ?case
    using evolves.later [OF _ evolves_list_aux [OF BlockStatement.IH]] by (simp add: Let_def)
next
  case (IfStatement test consequent alternate)
  define ifScope where "ifScope = timedScope env ''if'' scope s"
  define s1 where "s1 = markVariablesAsUsed_opt test scope scopeStack (read_clock s)"
  define s2 where "s2 = (case test of None \<Rightarrow> s1
                | Some t \<Rightarrow> buildSymbolTable_expr t ifScope (scopeStack @ [ifScope]) s1)"
  define s3 where "s3 = buildSymbolTable_opt env consequent ifScope (scopeStack @ [ifScope]) s2"
  have dc: "set (declared_names_opt consequent) \<subseteq> A" using IfStatement.prems by simp
  have e1: "evolves A s s1"
    unfolding s1_def by (rule evolves.later [OF evolves.clock_read evolves_markVariablesAsUsed_opt])
  have e2: "evolves A s1 s2"
    unfolding s2_def by (cases test) (simp_all add: evolves.same evolves_buildSymbolTable_expr)
  have e3: "evolves A s2 s3"
    unfolding s3_def by (rule evolves_opt_aux [OF IfStatement.IH(1) dc])
  have e: "evolves A s s3" by (rule evolves.later [OF evolves.later [OF e1 e2] e3])
  show ?case
  proof (cases alternate)
    case None
    then show ?thesis using e unfolding s3_def s2_def s1_def ifScope_def by (simp add: Let_def)
  next
    case (Some a)
    have da: "set (declared_names a) \<subseteq> A" using IfStatement.prems Some by simp
    have "evolves A s3 (buildSymbolTable env a (timedScope env ''else'' scope s3)
                        (scopeStack @ [timedScope env ''else'' scope s3]) (read_clock s3))"
      using evolves.later [OF evolves.clock_read IfStatement.IH(2) [OF _ da]] Some by simp
    then show ?thesis
      using Some evolves.later [OF e] unfolding s3_def s2_def s1_def ifScope_def by (simp add: Let_def)
  qed
next
  case (WhileStatement test body)
  define whileScope where "whileScope = timedScope env ''while'' scope s"
  define s1 where "s1 = markVariablesAsUsed_opt test scope scopeStack (read_clock s)"
  define s2 where "s2 = (case test of None \<Rightarrow> s1
                | Some t \<Rightarrow> buildSymbolTable_expr t whileScope (scopeStack @ [whileScope]) s1)"
  have db: "set (declared_names_opt body) \<subseteq> A" using WhileStatement.prems by simp
  have e1: "evolves A s s1"
    unfolding s1_def by (rule evolves.later [OF evolves.clock_read evolves_markVariablesAsUsed_opt])
  have e2: "evolves A s1 s2"
    unfolding s2_def by (cases test) (simp_all add: evolves.same evolves_buildSymbolTable_expr)
  have e3: "evolves A s2 (buildSymbolTable_opt env body whileScope (scopeStack @ [whileScope]) s2)"
    by (rule evolves_opt_aux [OF WhileStatement.IH db])
  show ?case
    using evolves.later [OF evolves.later [OF e1 e2] e3]
    unfolding s2_def s1_def whileScope_def by (simp add: Let_def)
next
  case (ForStatement init test update body)
  define forScope where "forScope = timedScope env ''for'' scope s"
  define s1 where "s1 = (case init of
                  None \<Rightarrow> read_clock s
                | Some (InitDeclaration ds ts) \<Rightarrow>
                    declareVariables ds (type_text ts) forScope (scopeStack @ [forScope]) (read_clock s)
                | Some (InitExpression e) \<Rightarrow>
                    buildSymbolTable_expr e forScope (scopeStack @ [forScope]) (read_clock s))"
  define s2 where "s2 = (case test of
                  None \<Rightarrow> s1
                | Some t \<Rightarrow> buildSymbolTable_expr t forScope (scopeStack @ [forScope])
                              (markVariablesAsUsed t scope scopeStack s1))"
  define s3 where "s3 = (case update of
                  None \<Rightarrow> s2
                | Some u \<Rightarrow> buildSymbolTable_expr u forScope (scopeStack @ [forScope])
                              (markVariablesAsUsed u scope scopeStack s2))"
  have db: "set (declared_names_opt body) \<subseteq> A" using ForStatement.prems by simp
  have di: "\<And>ds ts. init = Some (InitDeclaration ds ts) \<Longrightarrow> set (declarator_names ds) \<subseteq> A"
    using ForStatement.prems by simp
  have e1: "evolves A s s1"
    unfolding s1_def
    using evolves.later [OF evolves.clock_read evolves_declareVariables [OF di]]
          evolves.later [OF evolves.clock_read evolves_buildSymbolTable_expr(1)]
    by (auto simp: evolves.clock_read split: option.splits forinit.splits)
  have e2: "evolves A s1 s2"
    unfolding s2_def
    using evolves.later [OF evolves_markVariablesAsUsed(1) evolves_buildSymbolTable_expr(1)]
    by (auto simp: evolves.same split: option.splits)
  have e3: "evolves A s2 s3"
    unfolding s3_def
    using evolves.later [OF evolves_markVariablesAsUsed(1) evolves_buildSymbolTable_expr(1)]
    by (auto simp: evolves.same split: option.splits)
  have e4: "evolves A s3 (buildSymbolTable_opt env body forScope (scopeStack @ [forScope]) s3)"
    by (rule evolves_opt_aux [OF ForStatement.IH db])
  show ?case
    using evolves.later [OF evolves.later [OF evolves.later [OF e1 e2] e3] e4]
    unfolding s3_def s2_def s1_def forScope_def by (simp add: Let_def)
next
  case (ReturnStatement argument)
  then show ?case by (cases argument) (simp_all add: evolves.same evolves_buildAndMark)
next
  case (ExpressionStatement e)
  then show ?case by (simp add: evolves_buildAndMark)
qed (simp_all add: evolves.same)

lemma evolves_buildSymbolTable_list:
  "set (declared_names_list body) \<subseteq> A \<Longrightarrow> evolves A s (buildSymbolTable_list env body scope scopeStack s)"
  by (rule evolves_list_aux) (rule evolves_buildSymbolTable)

lemma evolves_checkAssignment: "evolves A s (checkAssignment leftType rightType s)"
  by (auto simp: checkAssignment_def evolves.same intro: evolves.reported)

lemma evolves_checkArgument:
  "evolves A s (checkArgument arg i expectedParams funcName scope scopeStack s)"
proof (cases "i < length expectedParams")
  case True
  have a: "evolves A s (snd (getExpressionType arg scope scopeStack s))"
    by (rule evolves_getExpressionType)
  have b: "\<And>e. early e \<Longrightarrow>
             evolves A s (push_sem_error e (snd (getExpressionType arg scope scopeStack s)))"
    by (rule evolves.later [OF a evolves.reported])
  show ?thesis using True a b by (auto simp: checkArgument_def split_beta Let_def)
next
  case False
  then show ?thesis by (simp add: checkArgument_def evolves.same)
qed

lemma evolves_checkTypes_expr:
  "evolves A s (checkTypes_expr e scope scopeStack s)"
  "evolves A s (checkArguments es i expectedParams funcName scope scopeStack s)"
proof (induction e scope scopeStack s and es i expectedParams funcName scope scopeStack s
       rule: checkTypes_expr_checkArguments.induct)
  case (3 opr l r scope scopeStack s)
  then show ?case using evolves.later by simp
next
  case (5 opr l r scope scopeStack s)
  define s1 where "s1 = snd (getExpressionType l scope scopeStack s)"
  define s2 where "s2 = snd (getExpressionType r scope scopeStack s1)"
  define s3 where "s3 = checkAssignment (fst (getExpressionType l scope scopeStack s))
                          (fst (getExpressionType r scope scopeStack s1)) s2"
  have e: "evolves A s s3"
    unfolding s3_def s2_def s1_def
    by (rule evolves.later [OF evolves.later [OF evolves_getExpressionType evolves_getExpressionType]
               evolves_checkAssignment])
  have l: "evolves A s3 (checkTypes_expr l scope scopeStack s3)"
    using "5.IH"(1) [OF prod.collapse prod.collapse] unfolding s3_def s2_def s1_def by simp
  have r: "evolves A (checkTypes_expr l scope scopeStack s3)
             (checkTypes_expr r scope scopeStack (checkTypes_expr l scope scopeStack s3))"
    using "5.IH"(2) [OF prod.collapse prod.collapse] unfolding s3_def s2_def s1_def by simp
  show ?case
    using evolves.later [OF evolves.later [OF e l] r]
    unfolding s3_def s2_def s1_def by (simp add: split_beta Let_def)
next
  case (6 funcName args scope scopeStack s)
  show ?case
  proof (cases "resolveVariable (symbolTable s) funcName scope scopeStack")
    case None
    then show ?thesis by (auto intro: evolves.reported)
  next
    case (Some found)
    obtain key funcSymbol where f: "found = (key, funcSymbol)" by (cases found)
    define expectedParams where "expectedParams = (case sym_params funcSymbol of None \<Rightarrow> [] | Some ps \<Rightarrow> ps)"
    define s1 where "s1 = (if \<not> (sym_isVarArgs funcSymbol \<or>
                            sym_name funcSymbol \<in> set [''printf'', ''scanf'']) \<and>
                            length args \<noteq> length expectedParams
                     then push_sem_error (ArityMismatch funcName (length args) (length expectedParams)) s
                     else s)"
    have e: "evolves A s s1"
      unfolding s1_def by (auto simp: evolves.same intro: evolves.reported)
    have "evolves A s1 (checkArguments args 0 expectedParams funcName scope scopeStack s1)"
      using "6.IH" [OF Some f [symmetric] refl refl refl] Some f
      unfolding s1_def expectedParams_def by simp
    then show ?thesis
      using Some f evolves.later [OF e]
      unfolding s1_def expectedParams_def by (simp add: Let_def)
  qed
next
  case (8 arg args i expectedParams funcName scope scopeStack s)
  show ?case
    using evolves.later [OF evolves.later [OF "8.IH"(1) evolves_checkArgument] "8.IH"(2)]
    by simp
qed (simp_all add: evolves.same)

lemma evolves_checkTypes_opt: "evolves A s (checkTypes_opt e scope scopeStack s)"
  by (cases e) (simp_all add: evolves.same evolves_checkTypes_expr)

lemma evolves_checkInitializers: "evolves A s (checkInitializers ds scope scopeStack s)"
proof (induction ds arbitrary: s)
  case Nil
  then show ?case by (simp add: evolves.same)
next
  case (Cons d ds)
  show ?case using evolves.later [OF evolves_checkTypes_opt Cons.IH] by simp
qed

lemma evolves_check_list_aux:
  assumes "\<And>n s. n \<in> set body \<Longrightarrow> evolves A s (checkTypes n scope scopeStack s)"
  shows "evolves A s (checkTypes_list body scope scopeStack s)"
  using assms
proof (induction body arbitrary: s)
  case Nil
  then show ?case by (simp add: evolves.same)
next
  case (Cons n ns)
  have "evolves A s (checkTypes n scope scopeStack s)" using Cons.prems by simp
  moreover have "\<And>t. evolves A t (checkTypes_list ns scope scopeStack t)"
    using Cons.IH Cons.prems by simp
  ultimately show ?case using evolves.later by simp
qed

lemma evolves_check_opt_aux:
  assumes "\<And>n s. n \<in> set_option body \<Longrightarrow> evolves A s (checkTypes n scope scopeStack s)"
  shows "evolves A s (checkTypes_node_opt body scope scopeStack s)"
  using assms by (cases body) (simp_all add: evolves.same)

lemma evolves_checkTypes: "evolves A s (checkTypes n scope scopeStack s)"
proof (induction n arbitrary: s)
  case (FunctionDeclaration functionName rt isPointerReturn params body)
  show ?case using evolves_check_opt_aux [OF FunctionDeclaration.IH] by simp
next
  case (VariableDeclaration ds ts)
  then show ?case by (simp add: evolves_checkInitializers)
next
  case (BlockStatement body)
  show ?case using evolves_check_list_aux [OF BlockStatement.IH] by simp
next
  case (IfStatement test consequent alternate)
  show ?case
    using evolves.later [OF evolves.later [OF evolves_checkTypes_opt
              evolves_check_opt_aux [OF IfStatement.IH(1)]] evolves_check_opt_aux [OF IfStatement.IH(2)]]
    by simp
next
  case (WhileStatement test body)
  show ?case
    using evolves.later [OF evolves_checkTypes_opt evolves_check_opt_aux [OF WhileStatement.IH]]
    by simp
next
  case (ForStatement init test update body)
  define s1 where "s1 = (case init of
                  None \<Rightarrow> s
                | Some (InitDeclaration ds ts) \<Rightarrow> checkInitializers ds scope scopeStack s
                | Some (InitExpression e) \<Rightarrow> checkTypes_expr e scope scopeStack s)"
  have e1: "evolves A s s1"
    unfolding s1_def
    by (auto simp: evolves.same evolves_checkInitializers evolves_checkTypes_expr
             split: option.splits forinit.splits)
  show ?case
    using evolves.later [OF evolves.later [OF evolves.later [OF e1 evolves_checkTypes_opt]
              evolves_checkTypes_opt] evolves_check_opt_aux [OF ForStatement.IH]]
    unfolding s1_def by (simp add: Let_def)
next
  case (ReturnStatement argument)
  then show ?case by (simp add: evolves_checkTypes_opt)
next
  case (ExpressionStatement e)
  then show ?case by (simp add: evolves_checkTypes_expr)
qed (simp_all add: evolves.same)

lemma evolves_checkTypes_list: "evolves A s (checkTypes_list body scope scopeStack s)"
  by (rule evolves_check_list_aux) (rule evolves_checkTypes)

subsection \<open>What a sequence of steps preserves\<close>







lemma keys_kept: "evolves A s t \<Longrightarrow> fst ` set (symbolTable s) \<subseteq> fst ` set (symbolTable t)"
  by (induction rule: evolves.induct)
     (auto simp: set_symbol_def push_sem_error_def add_use_def read_clock_def draw_random_def
           dom_update)


subsection \<open>The final checks\<close>

lemma analysed_examined: "analysed env ast code = performSemanticChecks (examined env ast code)"
  by (simp add: analysed_def examined_def)





lemma library_present:
  "code \<noteq> [] \<Longrightarrow> symbolTable (processPreprocessorDirectives code initial_sem_state) \<noteq> []"
proof -
  assume c: "code \<noteq> []"
  have a: "evolves UNIV (addStandardLibraryFunctions initial_sem_state)
             (processPreprocessorDirectives code initial_sem_state)"
    using c evolves.later [OF evolves_set_symbols [OF keyed_includes] evolves_set_symbols [OF keyed_macros]]
    by (simp add: processPreprocessorDirectives_def)
  have "getSymbolKey ''printf'' ''builtin'' \<in> fst ` set (symbolTable (addStandardLibraryFunctions initial_sem_state))"
    by (simp add: addStandardLibraryFunctions_def stdFuncs_def library_symbol_def set_symbol_def
          initial_sem_state_def getSymbolKey_def)
  then have "getSymbolKey ''printf'' ''builtin'' \<in> fst ` set (symbolTable (processPreprocessorDirectives code initial_sem_state))"
    using keys_kept [OF a] by blast
  then show ?thesis by auto
qed

lemma nonempty_kept: "evolves A s t \<Longrightarrow> symbolTable s \<noteq> [] \<Longrightarrow> symbolTable t \<noteq> []"
  using keys_kept [of A s t] by (cases "symbolTable s") auto

lemma examined_nonempty: "code \<noteq> [] \<Longrightarrow> symbolTable (examined env ast code) \<noteq> []"
proof -
  assume c: "code \<noteq> []"
  have "evolves UNIV (processPreprocessorDirectives code initial_sem_state) (examined env ast code)"
    unfolding examined_def
    by (rule evolves.later [OF evolves_buildSymbolTable_list evolves_checkTypes_list]) simp
  from nonempty_kept [OF this library_present [OF c]] show ?thesis .
qed

lemma checkUnused_frame:
  "symbolTable (checkUnused entries s) = symbolTable s"
  "variableUses (checkUnused entries s) = variableUses s"
  by (induction entries s rule: checkUnused.induct) (simp_all add: push_sem_error_def)


lemma checkMain_frame:
  "symbolTable (checkMain s) = symbolTable s"
  "variableUses (checkMain s) = variableUses s"
  by (simp_all add: checkMain_def push_sem_error_def)


lemma analysed_frame:
  "symbolTable (analysed env ast code) = symbolTable (examined env ast code)"
  "variableUses (analysed env ast code) = variableUses (examined env ast code)"
  by (simp_all add: analysed_examined performSemanticChecks_def checkUnused_frame checkMain_frame)




subsection \<open>The displayed symbol table\<close>







lemma analysed_nonempty: "code \<noteq> [] \<Longrightarrow> symbolTable (analysed env ast code) \<noteq> []"
  by (simp add: analysed_frame examined_nonempty)

subsection \<open>Declarations and the entry of \<open>main\<close>\<close>





















subsection \<open>Reads that resolve\<close>





















subsection \<open>Readings of the clock and the random generator\<close>














lemma counters_read: "counters (read_clock s) = (clockReads s + 1, randomDraws s)"
  "counters (draw_random s) = (clockReads s, randomDraws s + 1)"
  by (simp_all add: counters_def read_clock_def draw_random_def)














section \<open>Evaluation of the scenarios\<close>

lemma show_nat_digits:
  "show_nat 0 = ''0''"
  "show_nat (Suc 0) = ''1''"
  "show_nat (Suc (Suc 0)) = ''2''"
  "show_nat (Suc (Suc (Suc 0))) = ''3''"
  by (simp_all add: show_nat.simps [of 0] show_nat.simps [of "Suc 0"]
        show_nat.simps [of "Suc (Suc 0)"] show_nat.simps [of "Suc (Suc (Suc 0))"] digit_char_def)

lemmas expr_bodies = parseExpression_body_def parseAssignmentExpression_body_def
  parseBinaryExpression_body_def binaryLoop_body_def parseUnaryExpression_body_def
  parsePrimaryExpression_body_def argumentLoop_body_def expr_parsers_at_def

lemmas stmt_bodies = parseStatement_body_def parseBlockStatement_body_def blockLoop_body_def
  parseIfStatement_body_def parseWhileStatement_body_def parseForStatement_body_def
  stmt_parsers_at_def parseReturnStatement_def parseExpressionStatement_def
  parseDeclarationStatement_def parseForInit_def then_run_def of_parse_def
  parseVariableDeclaration_def parseVariableDeclarator_def
  parseDeclarationSpecifiers_def specifierLoop.simps specifierStep_def is_specifier_start_def
  is_tag_keyword_def parseParameters_def parseFunctionDeclaration_def
  parseTopLevel_def parser_def

lemmas tok_simps = peek_def peek_value_def peek_type_def advance_def tick_def push_error_def
  expect_def expectValue_def tk_def T_type_def T_keyword_def T_identifier_def T_number_def
  T_operator_def T_punctuation_def operator_precedence_def unaryOperators_def

lemmas parse_eval = eval_nat_numeral expr_fuel_Suc expr_fuel_0 stmt_fuel_Suc stmt_fuel_0
  expr_bodies stmt_bodies tok_simps

lemmas cg_eval = generated_def mentions_stdio_def init_state_def emit_def emitLabel_def
  generateLabel_def generateTempVar_def show_nat_digits pushLoop_def popLoop_def
  generateFunctionDeclaration_def binary_operation.simps count_operand_def Let_def
  declarator_strings_def parameter_strings_def eval_nat_numeral

lemmas sem_eval = analysed_def performSemanticChecks_def checkMain_def
  exempt_from_unused_def processPreprocessorDirectives_def addStandardLibraryFunctions_def
  stdFuncs_def library_symbol_def set_symbol_def getSymbolKey_def resolveVariable_def
  markIdentifier_def add_use_def push_sem_error_def buildAndMark_def plain_symbol_def
  function_symbol_def type_text_def blockScopeName_def timedScope_def read_clock_def
  draw_random_def initializer_defined_def display_entry_def truthy_def initial_sem_state_def
  include_symbol_def macro_symbol_def Let_def is_space_def is_word_def is_line_end_def

lemma for_source_parse: "parser 40 for_source_tokens = Some (for_ast, [])"
  by (simp add: parse_eval for_source_tokens_def for_ast_def)

lemma for_ast_generated:
  "intermediateCode (generated for_ast) = for_tac" "errors (generated for_ast) = []"
  by (simp_all add: cg_eval for_ast_def for_tac_def tac_def tac_label_def
        del: with_stack_simps loopStack_primitives)

lemma global_x_parse: "parser 20 global_x_tokens = Some (global_x_ast, [])"
  by (simp add: parse_eval global_x_tokens_def global_x_ast_def)

lemma global_x_analysed:
  "semErrors (analysed env global_x_ast global_x_source) = []"
  "variableUses (analysed env global_x_ast global_x_source) = [''x'']"
  by (simp_all add: sem_eval global_x_ast_def global_x_source_def)


lemma global_x_shown:
  "map fst (formatSymbolTable (symbolTable (analysed env global_x_ast global_x_source)) []) = [''x'', ''main'']"
  by (simp add: sem_eval global_x_ast_def global_x_source_def)


lemma empty_source_analysed: "semErrors (analysed env [] []) = []"
  by (simp add: sem_eval)





lemma lone_x_analysed:
  "semErrors (analysed env lone_x_ast lone_x_source) = [MissingMain, UnusedVariable ''x'']"
  by (simp add: sem_eval lone_x_ast_def lone_x_source_def)











section \<open>Claims about the code generator\<close>

text \<open>
  Claim C3. For every AST the statistics satisfy
  \<open>optimizedInstructionCount \<le> instructionCount\<close>, and running the optimizer again on
  its own output returns the same instruction sequence. Both hold whatever
  \<^verbatim>\<open>isNaN\<close> and the constant folding compute: a pass only drops or rewrites
  instructions, a rewritten instruction is an \<open>ASSIGN\<close> and is never rewritten again,
  and after two passes no dead store is left, so the loop stops at a fixed point well
  within its five passes.
\<close>

theorem C3_optimizer_monotone_idempotent:
  "optimizedInstructionCount (r_statistics (codeGenerator js ast))
     \<le> instructionCount (r_statistics (codeGenerator js ast)) \<and>
   optimizeCode js (r_optimizedCode (codeGenerator js ast)) = r_optimizedCode (codeGenerator js ast)"
  by (simp add: codeGenerator_def Let_def optimizeCode_idem)
     (simp add: optimizeCode_def optimizeLoop_length)

text \<open>
  Claim C7. The generator finds the target of \<^verbatim>\<open>break\<close> and
  \<^verbatim>\<open>continue\<close> on top of its \<^verbatim>\<open>loopStack\<close>. \<open>lowered\<close> is the same
  translation with the innermost enclosing loop handed down the syntax tree: there a
  \<^verbatim>\<open>break\<close> emits \<open>GOTO\<close> to the \<open>endLabel\<close> of that loop, a
  \<^verbatim>\<open>continue\<close> \<open>GOTO\<close> to its \<open>continueLabel\<close> (the start label for
  \<^verbatim>\<open>while\<close>, the label before the update for \<^verbatim>\<open>for\<close>), and outside any
  loop both record a diagnostic and emit nothing. The stack-based generator produces
  exactly the same instructions and diagnostics, for every program and from every state
  of a statement.
\<close>

theorem C7_break_continue_targets:
  "generated ast = lowered ast \<and>
   generateStatement st s = lowerStatement (innermost (loopStack s)) st s"
  by (simp add: generated_lowered generateStatement_lower)

text \<open>
  Claim C9. The statistics report \<open>optimizationPasses = 5\<close> for every AST, although
  the loop of \<^verbatim>\<open>optimizeCode\<close> runs one, two or three passes and never five.
\<close>

theorem C9_optimizationPasses_constant:
  "optimizationPasses (r_statistics (codeGenerator js ast)) = 5 \<and>
   0 < snd (optimizeLoop js 0 True (r_intermediateCode (codeGenerator js ast))) \<and>
   snd (optimizeLoop js 0 True (r_intermediateCode (codeGenerator js ast))) \<le> 3"
  using loop_passes_bound [of 0 js "r_intermediateCode (codeGenerator js ast)"]
  by (simp add: codeGenerator_def Let_def maxPasses_def)

section \<open>Claims about the spec's scenarios\<close>

text \<open>
  Claim C2, as amended. For the source
  \<^verbatim>\<open>int main() { for (int i = 0; i < 3; i = i + 1) { } return 0; }\<close> the parser reports no
  syntax error and the generator emits exactly the sequence \<open>for_tac\<close>: the initialisation,
  \<open>LABEL FOR_START0\<close>, the condition with \<open>IF_FALSE\<close> to \<open>FOR_END2\<close>, the (empty) body,
  \<open>LABEL FOR_CONTINUE1\<close>, the update, \<open>GOTO FOR_START0\<close> and \<open>LABEL FOR_END2\<close>. The three
  labels of the loop are numbered 0, 1 and 2 because every label of an invocation is drawn
  from the one counter \<^verbatim>\<open>labelCounter\<close>.
\<close>

theorem C2_for_loop_code:
  "parser 40 for_source_tokens = Some (for_ast, []) \<and>
   intermediateCode (generated for_ast) = for_tac \<and>
   errors (generated for_ast) = []"
  by (simp add: for_source_parse for_ast_generated)

text \<open>
  Claim C2 as stated fails on that source: no instruction carries the label
  \<open>FOR_CONTINUE0\<close> or \<open>FOR_END0\<close>, and no instruction targets \<open>FOR_END0\<close>.
\<close>

theorem C2_labels_counterexample:
  "parser 40 for_source_tokens = Some (for_ast, []) \<and>
   Some ''FOR_CONTINUE0'' \<notin> set (map label (intermediateCode (generated for_ast))) \<and>
   Some ''FOR_END0'' \<notin> set (map label (intermediateCode (generated for_ast))) \<and>
   Some ''FOR_END0'' \<notin> set (map result (intermediateCode (generated for_ast)))"
  by (simp add: for_source_parse for_ast_generated for_tac_def tac_def tac_label_def)

text \<open>
  Claim C4, as amended. For the source \<^verbatim>\<open>int x; int main() { return x; }\<close> the parser
  reports no syntax error, and in every environment the analyzer emits no warning: the
  name \<open>x\<close> is entered into \<^verbatim>\<open>variableUses\<close> by the \<^verbatim>\<open>return\<close>, so
  \<^verbatim>\<open>Unused variable 'x'\<close> is not emitted.
\<close>

theorem C4_global_x_warnings:
  "parser 20 global_x_tokens = Some (global_x_ast, []) \<and>
   warnings (semanticAnalyzer env global_x_ast global_x_source) = [] \<and>
   UnusedVariable ''x'' \<notin> set (result_errors (semanticAnalyzer env global_x_ast global_x_source)) \<and>
   ''x'' \<in> set (variableUses (analysed env global_x_ast global_x_source))"
  by (simp add: global_x_parse global_x_analysed semanticAnalyzer_def warnings_def)

text \<open>
  Claim C4 as stated fails: on that source the analyzer emits no diagnostic at all, neither
  one warning nor the error \<^verbatim>\<open>Variable 'x' used before initialization\<close>.
\<close>

theorem C4_diagnostics_counterexample:
  "parser 20 global_x_tokens = Some (global_x_ast, []) \<and>
   result_errors (semanticAnalyzer frozen_environment global_x_ast global_x_source) = []"
  by (simp add: global_x_parse global_x_analysed semanticAnalyzer_def)

section \<open>Claims about the semantic analyzer\<close>







subsection \<open>The clock and the random generator in the scope keys\<close>




end
